theory Spec2Isabelle
  imports Complex_Main
begin

section \<open>JavaScript values and the built-ins the route handler uses\<close>

text \<open>
  The stock route (\<open>app/api/stock/[ticker]/route.ts\<close>) is plain TypeScript over strings,
  parsed JSON and a module-level \<open>Map\<close>. Strings are modelled as \<open>string\<close>, read as
  UTF-8 (see the string built-ins below). A JavaScript number is a rational, \<open>NaN\<close> or an
  infinity: rounding to IEEE doubles is not modelled, and \<open>-0\<close> is identified with \<open>0\<close>
  (both are falsy and both print as \<open>0\<close>).
\<close>

datatype jsnum = Fin rat | NaN | PosInf | NegInf

datatype jsval =
    Undefined
  | Null
  | Bool bool
  | Num jsnum
  | Str string
  | Arr "jsval list"
  | Obj "(string \<times> jsval) list"

text \<open>ToBoolean: what \<open>if (v)\<close>, \<open>!v\<close>, \<open>a && b\<close> and \<open>a || b\<close> test.\<close>

fun truthy :: "jsval \<Rightarrow> bool" where
  "truthy Undefined = False"
| "truthy Null = False"
| "truthy (Bool b) = b"
| "truthy (Num n) = (n \<noteq> Fin 0 \<and> n \<noteq> NaN)"
| "truthy (Str s) = (s \<noteq> [])"
| "truthy (Arr xs) = True"
| "truthy (Obj kvs) = True"

text \<open>
  Property read \<open>v[k]\<close> / \<open>v.k\<close> for a string key. Reading a property of \<open>null\<close> or
  \<open>undefined\<close> throws a TypeError (\<open>None\<close>). A parsed JSON object keeps the last of
  duplicate keys. None of the keys the handler reads is an inherited property or an index,
  so every other base yields \<open>undefined\<close>.
\<close>

fun member :: "jsval \<Rightarrow> string \<Rightarrow> jsval option" where
  "member Undefined k = None"
| "member Null k = None"
| "member (Obj kvs) k = Some (case map_of (rev kvs) k of None \<Rightarrow> Undefined | Some v \<Rightarrow> v)"
| "member v k = Some Undefined"

text \<open>Optional chaining \<open>v?.k\<close>: \<open>undefined\<close> on a nullish base, never a throw.\<close>

definition opt_member :: "jsval \<Rightarrow> string \<Rightarrow> jsval" where
  "opt_member v k = (case member v k of None \<Rightarrow> Undefined | Some x \<Rightarrow> x)"

text \<open>
  Optional element read \<open>v?.[0]\<close>. Element 0 of a string is its first code unit, again a
  string; the handler only ever reads a property of it, which no string has.
\<close>

fun opt_index0 :: "jsval \<Rightarrow> jsval" where
  "opt_index0 (Arr xs) = (case xs of [] \<Rightarrow> Undefined | x # _ \<Rightarrow> x)"
| "opt_index0 (Str s) = (case s of [] \<Rightarrow> Undefined | c # _ \<Rightarrow> Str [c])"
| "opt_index0 (Obj kvs) = (case map_of (rev kvs) ''0'' of None \<Rightarrow> Undefined | Some v \<Rightarrow> v)"
| "opt_index0 v = Undefined"

subsection \<open>String built-ins\<close>

text \<open>
  A string is the list of its UTF-8 bytes: the route parameter is the percent-decoded path
  segment, and the provider bodies are JSON texts. A character of ASCII is one byte below
  128; every other character is a run of two to four bytes of 128 and above.
\<close>

definition is_ascii :: "char \<Rightarrow> bool" where
  "is_ascii c = ((of_char c :: nat) < 128)"

definition is_lower :: "char \<Rightarrow> bool" where
  "is_lower c = (97 \<le> (of_char c :: nat) \<and> (of_char c :: nat) \<le> 122)"

definition is_upper :: "char \<Rightarrow> bool" where
  "is_upper c = (65 \<le> (of_char c :: nat) \<and> (of_char c :: nat) \<le> 90)"

definition is_digit :: "char \<Rightarrow> bool" where
  "is_digit c = (48 \<le> (of_char c :: nat) \<and> (of_char c :: nat) \<le> 57)"

text \<open>
  \<open>String.prototype.toUpperCase\<close>. Within ASCII it maps \<open>a\<close>..\<open>z\<close> to \<open>A\<close>..\<open>Z\<close> and
  leaves the rest. Text outside ASCII is mapped by the Unicode case tables of the platform,
  which are no part of the repository: they are the parameter \<open>uc\<close>, which takes a maximal
  run of bytes outside ASCII (whole characters) to the bytes of its upper-case form. That
  form may well be ASCII: the capital of the German sharp s is \<open>SS\<close>.
\<close>

definition upper_char :: "char \<Rightarrow> char" where
  "upper_char c = (if is_lower c then char_of ((of_char c :: nat) - 32) else c)"

function toUpperCase :: "(string \<Rightarrow> string) \<Rightarrow> string \<Rightarrow> string" where
  "toUpperCase uc [] = []"
| "toUpperCase uc (c # r) =
     (if is_ascii c then upper_char c # toUpperCase uc r
      else uc (c # takeWhile (\<lambda>x. \<not> is_ascii x) r)
           @ toUpperCase uc (dropWhile (\<lambda>x. \<not> is_ascii x) r))"
  by pat_completeness auto
termination
  by (relation "measure (\<lambda>(uc, s). length s)") (auto simp: length_dropWhile_le less_Suc_eq_le)

text \<open>
  The white space and line terminators that \<open>trim\<close> and \<open>parseFloat\<close> skip: TAB, LF, VT,
  FF, CR and space, and, in UTF-8, U+00A0, U+1680, U+2000 to U+200A, U+2028, U+2029,
  U+202F, U+205F, U+3000 and U+FEFF.
\<close>

definition white_space :: "string list" where
  "white_space =
     [[CHR 0x09], [CHR 0x0A], [CHR 0x0B], [CHR 0x0C], [CHR 0x0D], [CHR 0x20],
      [CHR 0xC2, CHR 0xA0],
      [CHR 0xE1, CHR 0x9A, CHR 0x80],
      [CHR 0xE2, CHR 0x80, CHR 0x80], [CHR 0xE2, CHR 0x80, CHR 0x81],
      [CHR 0xE2, CHR 0x80, CHR 0x82], [CHR 0xE2, CHR 0x80, CHR 0x83],
      [CHR 0xE2, CHR 0x80, CHR 0x84], [CHR 0xE2, CHR 0x80, CHR 0x85],
      [CHR 0xE2, CHR 0x80, CHR 0x86], [CHR 0xE2, CHR 0x80, CHR 0x87],
      [CHR 0xE2, CHR 0x80, CHR 0x88], [CHR 0xE2, CHR 0x80, CHR 0x89],
      [CHR 0xE2, CHR 0x80, CHR 0x8A],
      [CHR 0xE2, CHR 0x80, CHR 0xA8], [CHR 0xE2, CHR 0x80, CHR 0xA9],
      [CHR 0xE2, CHR 0x80, CHR 0xAF],
      [CHR 0xE2, CHR 0x81, CHR 0x9F],
      [CHR 0xE3, CHR 0x80, CHR 0x80],
      [CHR 0xEF, CHR 0xBB, CHR 0xBF]]"

text \<open>
  \<open>strip ws s\<close> removes from the front of \<open>s\<close> every leading occurrence of one of the
  sequences \<open>ws\<close>. \<open>trim\<close> strips the front, and the back by way of the reversed string.
\<close>

definition starts_with :: "string \<Rightarrow> string \<Rightarrow> bool" where
  "starts_with p s = (take (length p) s = p)"

fun strip :: "string list \<Rightarrow> string \<Rightarrow> string" where
  "strip ws [] = []"
| "strip ws (c # r) =
     (case find (\<lambda>w. w \<noteq> [] \<and> starts_with w (c # r)) ws of
        None \<Rightarrow> c # r
      | Some w \<Rightarrow> strip ws (drop (length w - 1) r))"

definition trim :: "string \<Rightarrow> string" where
  "trim s = rev (strip (map rev white_space) (rev (strip white_space s)))"

text \<open>\<open>Array.prototype.includes\<close> and \<open>String.prototype.includes\<close> for one character.\<close>

definition js_includes :: "'a list \<Rightarrow> 'a \<Rightarrow> bool" where
  "js_includes xs x = (x \<in> set xs)"

text \<open>\<open>s.split(":")\<close>: the segments between separators; \<open>"".split(":")\<close> is \<open>[""]\<close>.\<close>

fun split_on :: "char \<Rightarrow> string \<Rightarrow> string list" where
  "split_on c [] = [[]]"
| "split_on c (x # xs) =
     (if x = c then [] # split_on c xs
      else (case split_on c xs of y # ys \<Rightarrow> (x # y) # ys | [] \<Rightarrow> [[x]]))"

subsection \<open>\<open>parseFloat\<close>\<close>

text \<open>
  \<open>parseFloat\<close> converts its argument to a string, skips leading white space and reads the
  longest prefix that is a decimal literal: an optional sign, then \<open>Infinity\<close> or digits
  with an optional fraction and an optional complete exponent. No such prefix gives \<open>NaN\<close>.
\<close>

definition digit_val :: "char \<Rightarrow> nat" where
  "digit_val c = (of_char c :: nat) - 48"

definition digits_val :: "string \<Rightarrow> nat" where
  "digits_val ds = foldl (\<lambda>a c. 10 * a + digit_val c) 0 ds"

definition parse_sign :: "string \<Rightarrow> rat \<times> string" where
  "parse_sign s =
     (case s of
        c # r \<Rightarrow> (if c = CHR ''-'' then (- 1, r) else if c = CHR ''+'' then (1, r) else (1, s))
      | [] \<Rightarrow> (1, s))"

definition parse_exponent :: "string \<Rightarrow> int" where
  "parse_exponent s =
     (case s of
        c # r \<Rightarrow>
          (if c = CHR ''e'' \<or> c = CHR ''E'' then
             (let (sg, r') = parse_sign r; es = takeWhile is_digit r' in
              if es = [] then 0
              else if sg < 0 then - int (digits_val es) else int (digits_val es))
           else 0)
      | [] \<Rightarrow> 0)"

definition scale10 :: "rat \<Rightarrow> int \<Rightarrow> rat" where
  "scale10 x e = (if 0 \<le> e then x * 10 ^ nat e else x / 10 ^ nat (- e))"

definition parseFloat_str :: "string \<Rightarrow> jsnum" where
  "parseFloat_str s =
     (let (sg, r) = parse_sign (strip white_space s) in
      if starts_with ''Infinity'' r then (if sg < 0 then NegInf else PosInf)
      else
        (let ds = takeWhile is_digit r;
             r1 = dropWhile is_digit r;
             fs = (if starts_with ''.'' r1 then takeWhile is_digit (tl r1) else []);
             r2 = (if starts_with ''.'' r1 then dropWhile is_digit (tl r1) else r1)
         in if ds = [] \<and> fs = [] then NaN
            else Fin (scale10
                       (sg * (of_nat (digits_val ds) + of_nat (digits_val fs) / 10 ^ length fs))
                       (parse_exponent r2))))"

text \<open>
  For a non-string argument the string conversion comes first. A number prints to a literal
  that reads back as itself; \<open>true\<close>, \<open>null\<close>, \<open>undefined\<close> and \<open>[object Object]\<close> have no
  numeric prefix; an array prints its elements joined by commas (\<open>null\<close> as the empty
  string), and a comma ends every numeric prefix, so only the first element counts.
\<close>

fun parseFloat :: "jsval \<Rightarrow> jsnum" where
  "parseFloat (Str s) = parseFloat_str s"
| "parseFloat (Num n) = n"
| "parseFloat (Arr (x # xs)) = parseFloat x"
| "parseFloat v = NaN"

subsection \<open>\<open>Date.prototype.toISOString\<close>\<close>

text \<open>
  The clock counts milliseconds since the epoch, as \<open>Date.now()\<close> does.
  \<open>new Date().toISOString()\<close> prints it as \<open>YYYY-MM-DDTHH:mm:ss.sssZ\<close> in UTC (the
  proleptic Gregorian calendar; years outside 0..9999 use the signed six-digit form).
\<close>

definition digit_char :: "nat \<Rightarrow> char" where
  "digit_char d = char_of (48 + d mod 10)"

fun pad :: "nat \<Rightarrow> nat \<Rightarrow> string" where
  "pad 0 n = []"
| "pad (Suc w) n = pad w (n div 10) @ [digit_char n]"

definition civil_from_days :: "int \<Rightarrow> int \<times> nat \<times> nat" where
  "civil_from_days days =
     (let z = days + 719468;
          era = z div 146097;
          doe = z mod 146097;
          yoe = (doe - doe div 1460 + doe div 36524 - doe div 146096) div 365;
          doy = doe - (365 * yoe + yoe div 4 - yoe div 100);
          mp = (5 * doy + 2) div 153;
          d = doy - (153 * mp + 2) div 5 + 1;
          m = (if mp < 10 then mp + 3 else mp - 9);
          y = yoe + era * 400 + (if m \<le> 2 then 1 else 0)
      in (y, nat m, nat d))"

definition toISOString :: "int \<Rightarrow> string" where
  "toISOString ms =
     (let (y, m, d) = civil_from_days (ms div 86400000);
          t = nat (ms mod 86400000);
          year = (if 0 \<le> y \<and> y \<le> 9999 then pad 4 (nat y)
                  else (if y < 0 then ''-'' else ''+'') @ pad 6 (nat \<bar>y\<bar>))
      in year @ ''-'' @ pad 2 m @ ''-'' @ pad 2 d @ ''T''
         @ pad 2 (t div 3600000) @ '':'' @ pad 2 (t div 60000 mod 60) @ '':''
         @ pad 2 (t div 1000 mod 60) @ ''.'' @ pad 3 (t mod 1000) @ ''Z'')"

section \<open>Ticker parsing and format validation\<close>

record ticker_info =
  exchange :: "string option"
  symbol :: string
  fullTicker :: string

text \<open>
  \<open>parseTicker\<close>: upper-case (with the case table \<open>uc\<close> outside ASCII), trim, and
  split at a colon when there is one. The array
  destructuring \<open>[exchange, symbol] = upperInput.split(":")\<close> reads elements 0 and 1;
  \<open>split_on_length\<close> below shows both exist whenever the string includes a colon.
\<close>

definition parseTicker :: "(string \<Rightarrow> string) \<Rightarrow> string \<Rightarrow> ticker_info" where
  "parseTicker uc input =
     (let upperInput = trim (toUpperCase uc input) in
      if js_includes upperInput CHR '':'' then
        (let parts = split_on CHR '':'' upperInput in
         \<lparr> exchange = Some (trim (parts ! 0)),
           symbol = trim (parts ! 1),
           fullTicker = upperInput \<rparr>)
      else \<lparr> exchange = None, symbol = upperInput, fullTicker = upperInput \<rparr>)"

definition indianExchanges :: "string list" where
  "indianExchanges = [''NSE'', ''BSE'', ''MCX'', ''NCDEX'', ''ICEX'']"

definition validExchanges :: "string list" where
  "validExchanges =
     [''NASDAQ'', ''NYSE'', ''AMEX'',
      ''LSE'', ''LON'', ''FRA'', ''AMS'', ''SWX'', ''BME'', ''BIT'', ''OSE'', ''XETRA'', ''EURONEXT'',
      ''TSE'', ''ASX'', ''TSX'', ''HKEX'', ''TYO'',
      ''BSE'', ''NSE'', ''MCX'', ''NCDEX'', ''ICEX'',
      ''SSE'', ''SZSE'']"

text \<open>The regular expression \<open>/^[A-Z]{1,n}$/\<close> (no flags): the whole string, 1 to n capitals.\<close>

definition matches_AZ :: "nat \<Rightarrow> string \<Rightarrow> bool" where
  "matches_AZ n s = (1 \<le> length s \<and> length s \<le> n \<and> list_all is_upper s)"

text \<open>\<open>if (exchange)\<close>: an exchange that is \<open>undefined\<close> or the empty string is falsy.\<close>

definition exchange_truthy :: "string option \<Rightarrow> bool" where
  "exchange_truthy ex = (case ex of None \<Rightarrow> False | Some e \<Rightarrow> e \<noteq> [])"

definition exchange_in :: "string list \<Rightarrow> string option \<Rightarrow> bool" where
  "exchange_in xs ex = (case ex of None \<Rightarrow> False | Some e \<Rightarrow> js_includes xs e)"

definition isValidTickerFormat :: "(string \<Rightarrow> string) \<Rightarrow> string \<Rightarrow> bool" where
  "isValidTickerFormat uc input =
     (let t = parseTicker uc input in
      if (if exchange t = Some ''NSE'' \<or> exchange t = Some ''BSE'' \<or> exchange t = Some ''MCX''
             \<or> exchange t = Some ''NCDEX'' \<or> exchange t = Some ''ICEX''
          then \<not> matches_AZ 10 (symbol t)
          else \<not> matches_AZ 5 (symbol t))
      then False
      else if exchange_truthy (exchange t) \<and> \<not> exchange_in validExchanges (exchange t)
      then False
      else True)"

section \<open>Process state, environment and network\<close>

text \<open>
  \<open>tickerCache\<close> is the module-level \<open>Map\<close>; an entry is \<open>{valid, price?, timestamp}\<close>, with
  \<open>Undefined\<close> for an absent price. The state also carries the wall clock that
  \<open>Date.now()\<close> reads and the list of URLs fetched so far, so that provider calls can be
  counted.
\<close>

record cache_entry =
  cvalid :: bool
  cprice :: jsval
  ctimestamp :: int

record state =
  tickerCache :: "string \<rightharpoonup> cache_entry"
  clock :: int
  calls :: "string list"

text \<open>
  What one \<open>fetch\<close> gives: \<open>None\<close> when the promise rejects (network error, timeout), else
  the response with its \<open>ok\<close> flag and its parsed body (\<open>None\<close> when \<open>response.json()\<close>
  rejects). The network answers a URL at a time and says how many milliseconds it took.
  The environment is that network together with \<open>process.env.ALPHA_VANTAGE_API_KEY\<close>.
\<close>

record http_response =
  ok :: bool
  json :: "jsval option"

record env =
  env_api_key :: "string option"
  net :: "string \<Rightarrow> int \<Rightarrow> http_response option \<times> nat"

definition fetch :: "env \<Rightarrow> string \<Rightarrow> state \<Rightarrow> http_response option \<times> state" where
  "fetch e url st =
     (let (r, dt) = net e url (clock st)
      in (r, st\<lparr> clock := clock st + int dt, calls := calls st @ [url] \<rparr>))"

text \<open>
  The lines every adapter shares: \<open>fetch\<close>, \<open>if (!response.ok) throw\<close>,
  \<open>await response.json()\<close>. \<open>None\<close> stands for any of the three throwing.
\<close>

definition fetch_json :: "env \<Rightarrow> string \<Rightarrow> state \<Rightarrow> jsval option \<times> state" where
  "fetch_json e url st =
     (case fetch e url st of
        (None, st') \<Rightarrow> (None, st')
      | (Some response, st') \<Rightarrow> (if \<not> ok response then (None, st') else (json response, st')))"

definition ALPHA_VANTAGE_API_KEY :: "env \<Rightarrow> string" where
  "ALPHA_VANTAGE_API_KEY e =
     (case env_api_key e of None \<Rightarrow> ''demo'' | Some k \<Rightarrow> (if k \<noteq> [] then k else ''demo''))"

definition ALPHA_VANTAGE_BASE_URL :: string where
  "ALPHA_VANTAGE_BASE_URL = ''https://www.alphavantage.co/query''"

definition CACHE_DURATION :: int where
  "CACHE_DURATION = 5 * 60 * 1000"

definition cache_set :: "string \<Rightarrow> bool \<Rightarrow> jsval \<Rightarrow> state \<Rightarrow> state" where
  "cache_set ticker v p st =
     st\<lparr> tickerCache :=
           (tickerCache st)(ticker \<mapsto> \<lparr> cvalid = v, cprice = p, ctimestamp = clock st \<rparr>) \<rparr>"

section \<open>Provider adapters\<close>

text \<open>
  An adapter returns \<open>{valid, price, source}\<close> or throws; its own \<open>catch\<close> turns every
  exception into one \<open>Error\<close>, so \<open>None\<close> is all the caller can see of a failure.
\<close>

record vresult =
  valid :: bool
  price :: jsval
  source :: "string option"

definition isInternationalApiSupported :: "string option \<Rightarrow> bool" where
  "isInternationalApiSupported ex =
     (if \<not> exchange_truthy ex then True
      else exchange_in
             [''NASDAQ'', ''NYSE'', ''AMEX'', ''LSE'', ''LON'', ''FRA'', ''XETRA'', ''EURONEXT'',
              ''TYO'', ''TSE'', ''HKEX'', ''ASX'', ''TSX''] ex)"

text \<open>The value of \<open>data["Global Quote"] && data["Global Quote"]["05. price"]\<close>.\<close>

definition global_quote_price :: "jsval \<Rightarrow> jsval option" where
  "global_quote_price data =
     (case member data ''Global Quote'' of
        None \<Rightarrow> None
      | Some gq \<Rightarrow> (if truthy gq then member gq ''05. price'' else Some gq))"

text \<open>\<open>data.chart?.result?.[0]?.meta?.regularMarketPrice\<close>\<close>

definition regularMarketPrice :: "jsval \<Rightarrow> jsval option" where
  "regularMarketPrice data =
     (case member data ''chart'' of
        None \<Rightarrow> None
      | Some chart \<Rightarrow>
          Some (opt_member (opt_member (opt_index0 (opt_member chart ''result'')) ''meta'')
                  ''regularMarketPrice''))"

text \<open>\<open>data.results?.p\<close> and \<open>data.priceInfo?.lastPrice\<close>\<close>

definition results_p :: "jsval \<Rightarrow> jsval option" where
  "results_p data =
     (case member data ''results'' of None \<Rightarrow> None | Some r \<Rightarrow> Some (opt_member r ''p''))"

definition priceInfo_lastPrice :: "jsval \<Rightarrow> jsval option" where
  "priceInfo_lastPrice data =
     (case member data ''priceInfo'' of
        None \<Rightarrow> None | Some r \<Rightarrow> Some (opt_member r ''lastPrice''))"

text \<open>
  The tail of every adapter: test the price field, build the result or throw.
  \<open>conv\<close> is \<open>parseFloat\<close> where the adapter applies it and the identity where the field
  is passed on as it is.
\<close>

definition quote_from ::
  "(jsval \<Rightarrow> jsval option) \<Rightarrow> (jsval \<Rightarrow> jsval) \<Rightarrow> string \<Rightarrow> jsval option \<times> state
     \<Rightarrow> vresult option \<times> state" where
  "quote_from field conv src r =
     (case r of
        (None, st') \<Rightarrow> (None, st')
      | (Some data, st') \<Rightarrow>
          (case field data of
             None \<Rightarrow> (None, st')
           | Some p \<Rightarrow>
               (if truthy p
                then (Some \<lparr> valid = True, price = conv p, source = Some src \<rparr>, st')
                else (None, st'))))"

definition parsed :: "jsval \<Rightarrow> jsval" where
  "parsed p = Num (parseFloat p)"

definition asis :: "jsval \<Rightarrow> jsval" where
  "asis p = p"

definition validateWithAlphaVantageDemo ::
  "env \<Rightarrow> string \<Rightarrow> state \<Rightarrow> vresult option \<times> state" where
  "validateWithAlphaVantageDemo e ticker st =
     quote_from global_quote_price parsed ''Alpha Vantage Demo''
       (fetch_json e
          (ALPHA_VANTAGE_BASE_URL @ ''?function=GLOBAL_QUOTE&symbol='' @ ticker @ ''&apikey=demo'')
          st)"

definition validateWithYahooFinance ::
  "env \<Rightarrow> string \<Rightarrow> state \<Rightarrow> vresult option \<times> state" where
  "validateWithYahooFinance e ticker st =
     quote_from regularMarketPrice asis ''Yahoo Finance''
       (fetch_json e (''https://query1.finance.yahoo.com/v8/finance/chart/'' @ ticker) st)"

definition validateWithPolygonDemo ::
  "env \<Rightarrow> string \<Rightarrow> state \<Rightarrow> vresult option \<times> state" where
  "validateWithPolygonDemo e ticker st =
     quote_from results_p asis ''Polygon Demo''
       (fetch_json e (''https://api.polygon.io/v2/last/trade/'' @ ticker @ ''?apikey=demo'') st)"

definition exchange_suffix :: "string \<Rightarrow> string" where
  "exchange_suffix ex = (if ex = ''NSE'' then ''.NS'' else if ex = ''BSE'' then ''.BO'' else [])"

definition fetchFromAlphaVantageIndian ::
  "env \<Rightarrow> string \<Rightarrow> string \<Rightarrow> state \<Rightarrow> vresult option \<times> state" where
  "fetchFromAlphaVantageIndian e ticker ex st =
     (let suffix = exchange_suffix ex in
      if suffix = [] then (None, st)
      else
        (let symbol = ticker @ suffix;
             apiKey = (if ALPHA_VANTAGE_API_KEY e \<noteq> ''demo''
                       then ALPHA_VANTAGE_API_KEY e else ''demo'')
         in quote_from global_quote_price parsed ''Alpha Vantage India''
              (fetch_json e
                 (ALPHA_VANTAGE_BASE_URL @ ''?function=GLOBAL_QUOTE&symbol='' @ symbol
                    @ ''&apikey='' @ apiKey)
                 st)))"

definition fetchFromYahooFinanceIndian ::
  "env \<Rightarrow> string \<Rightarrow> string \<Rightarrow> state \<Rightarrow> vresult option \<times> state" where
  "fetchFromYahooFinanceIndian e ticker ex st =
     (let suffix = exchange_suffix ex in
      if suffix = [] then (None, st)
      else
        (let symbol = ticker @ suffix
         in quote_from regularMarketPrice asis ''Yahoo Finance India''
              (fetch_json e (''https://query1.finance.yahoo.com/v8/finance/chart/'' @ symbol) st)))"

definition fetchFromNSEAPI ::
  "env \<Rightarrow> string \<Rightarrow> string \<Rightarrow> state \<Rightarrow> vresult option \<times> state" where
  "fetchFromNSEAPI e ticker ex st =
     (if ex \<noteq> ''NSE'' then (None, st)
      else quote_from priceInfo_lastPrice parsed ''NSE API''
             (fetch_json e (''https://www.nseindia.com/api/quote-equity?symbol='' @ ticker) st))"

section \<open>The resolver\<close>

type_synonym adapter = "state \<Rightarrow> vresult option \<times> state"

definition invalid_result :: vresult where
  "invalid_result = \<lparr> valid = False, price = Undefined, source = None \<rparr>"

text \<open>
  The two \<open>for ... of\<close> loops. A method that throws is logged and skipped; the first
  accepted result is stored under \<open>ticker\<close> and returned. When the list is exhausted the
  ticker is stored as invalid. The international loop accepts \<open>result.valid\<close>; the Indian
  loop accepts \<open>result.valid && result.price\<close>.
\<close>

fun try_validationMethods :: "adapter list \<Rightarrow> string \<Rightarrow> state \<Rightarrow> vresult \<times> state" where
  "try_validationMethods [] ticker st = (invalid_result, cache_set ticker False Undefined st)"
| "try_validationMethods (method # rest) ticker st =
     (case method st of
        (None, st') \<Rightarrow> try_validationMethods rest ticker st'
      | (Some result, st') \<Rightarrow>
          (if valid result then (result, cache_set ticker True (price result) st')
           else try_validationMethods rest ticker st'))"

fun try_indianApis :: "adapter list \<Rightarrow> string \<Rightarrow> state \<Rightarrow> vresult \<times> state" where
  "try_indianApis [] ticker st = (invalid_result, cache_set ticker False Undefined st)"
| "try_indianApis (api # rest) ticker st =
     (case api st of
        (None, st') \<Rightarrow> try_indianApis rest ticker st'
      | (Some result, st') \<Rightarrow>
          (if valid result \<and> truthy (price result)
           then (result, cache_set ticker True (price result) st')
           else try_indianApis rest ticker st'))"

text \<open>The two arrays of closures, in the order the source declares them.\<close>

definition validationMethods :: "env \<Rightarrow> string \<Rightarrow> adapter list" where
  "validationMethods e ticker =
     [validateWithAlphaVantageDemo e ticker,
      validateWithYahooFinance e ticker,
      validateWithPolygonDemo e ticker]"

definition indianApis :: "env \<Rightarrow> string \<Rightarrow> string \<Rightarrow> adapter list" where
  "indianApis e ticker ex =
     [fetchFromAlphaVantageIndian e ticker ex,
      fetchFromYahooFinanceIndian e ticker ex,
      fetchFromNSEAPI e ticker ex]"

definition validateIndianStock ::
  "env \<Rightarrow> string \<Rightarrow> string option \<Rightarrow> state \<Rightarrow> vresult \<times> state" where
  "validateIndianStock e ticker ex st =
     (case ex of
        None \<Rightarrow> (invalid_result, st)
      | Some x \<Rightarrow>
          (if x = [] \<or> \<not> js_includes indianExchanges x then (invalid_result, st)
           else try_indianApis (indianApis e ticker x) ticker st))"

definition cache_hit :: "string \<Rightarrow> state \<Rightarrow> cache_entry option" where
  "cache_hit ticker st =
     (case tickerCache st ticker of
        None \<Rightarrow> None
      | Some cached \<Rightarrow>
          (if clock st - ctimestamp cached < CACHE_DURATION then Some cached else None))"

definition validateTickerDynamically ::
  "env \<Rightarrow> string \<Rightarrow> string option \<Rightarrow> state \<Rightarrow> vresult \<times> state" where
  "validateTickerDynamically e ticker ex st =
     (case cache_hit ticker st of
        Some cached \<Rightarrow>
          (\<lparr> valid = cvalid cached, price = cprice cached, source = Some ''cache'' \<rparr>, st)
      | None \<Rightarrow>
          (if \<not> isInternationalApiSupported ex then validateIndianStock e ticker ex st
           else try_validationMethods (validationMethods e ticker) ticker st))"

section \<open>The route handler\<close>

record response =
  status :: nat
  body :: jsval

text \<open>
  \<open>NextResponse.json(value, {status})\<close>; the body is the object handed over. On the wire a
  property whose value is \<open>undefined\<close> is left out.
\<close>

definition json_response :: "jsval \<Rightarrow> nat \<Rightarrow> response" where
  "json_response v code = \<lparr> status = code, body = v \<rparr>"

definition error_response :: "string \<Rightarrow> nat \<Rightarrow> response" where
  "error_response msg code = json_response (Obj [(''error'', Str msg)]) code"

definition not_found :: response where
  "not_found =
     error_response ''Stock ticker not found. Please check the symbol and try again.'' 404"

definition exchange_val :: "string option \<Rightarrow> jsval" where
  "exchange_val ex = (case ex of None \<Rightarrow> Undefined | Some x \<Rightarrow> Str x)"

text \<open>\<open>validationResult.source || fallbackName\<close>\<close>

definition source_or :: "string option \<Rightarrow> string \<Rightarrow> string" where
  "source_or src d = (case src of None \<Rightarrow> d | Some x \<Rightarrow> (if x \<noteq> [] then x else d))"

text \<open>
  What both callers of \<open>validateTickerDynamically\<close> do with its result: 404 when it is not
  valid, else the \<open>stockData\<close> object literal, stamped with \<open>new Date().toISOString()\<close>.
\<close>

definition stockData :: "ticker_info \<Rightarrow> jsval \<Rightarrow> int \<Rightarrow> string \<Rightarrow> jsval" where
  "stockData tickerInfo p now src =
     Obj [(''ticker'', Str (fullTicker tickerInfo)),
          (''symbol'', Str (symbol tickerInfo)),
          (''exchange'', exchange_val (exchange tickerInfo)),
          (''price'', p),
          (''timestamp'', Str (toISOString now)),
          (''source'', Str src)]"

definition respond_validation ::
  "ticker_info \<Rightarrow> string \<Rightarrow> vresult \<times> state \<Rightarrow> response \<times> state" where
  "respond_validation tickerInfo fallbackName r =
     (case r of
        (validationResult, st') \<Rightarrow>
          (if \<not> valid validationResult then (not_found, st')
           else
             (json_response
                (stockData tickerInfo (price validationResult) (clock st')
                   (source_or (source validationResult) fallbackName))
                200,
              st')))"

definition direct_url :: "env \<Rightarrow> ticker_info \<Rightarrow> string" where
  "direct_url e tickerInfo =
     ALPHA_VANTAGE_BASE_URL @ ''?function=GLOBAL_QUOTE&symbol='' @ symbol tickerInfo
       @ ''&apikey='' @ ALPHA_VANTAGE_API_KEY e"

text \<open>
  The inner \<open>try\<close> block of \<open>GET\<close>, entered when a real key is configured: it asks
  Alpha Vantage with that key and either assigns \<open>stockData\<close>, returns a response from
  inside the block, or throws. It throws on a rejected \<open>fetch\<close>, a non-2xx status, an
  unparsable body, a \<open>null\<close> body, and a body with none of the three markers.
\<close>

datatype direct_result = Assigned jsval | Returned response | Thrown

definition alphaVantageDirect :: "env \<Rightarrow> ticker_info \<Rightarrow> state \<Rightarrow> direct_result \<times> state" where
  "alphaVantageDirect e tickerInfo st =
     (case fetch_json e (direct_url e tickerInfo) st of
        (None, st') \<Rightarrow> (Thrown, st')
      | (Some data, st') \<Rightarrow>
          (case global_quote_price data of
             None \<Rightarrow> (Thrown, st')
           | Some p \<Rightarrow>
               (if truthy p then
                  (Assigned
                     (Obj [(''ticker'', Str (fullTicker tickerInfo)),
                           (''symbol'', Str (symbol tickerInfo)),
                           (''exchange'', exchange_val (exchange tickerInfo)),
                           (''price'', Num (parseFloat p)),
                           (''change'',
                              Num (parseFloat
                                     (opt_member (opt_member data ''Global Quote'')
                                        ''09. change''))),
                           (''changePercent'',
                              opt_member (opt_member data ''Global Quote'')
                                ''10. change percent''),
                           (''timestamp'', Str (toISOString (clock st'))),
                           (''source'', Str ''Alpha Vantage'')]),
                   st')
                else if truthy (opt_member data ''Error Message'') then (Returned not_found, st')
                else if truthy (opt_member data ''Information'') then
                  (Returned
                     (error_response ''API rate limit reached. Please try again later.'' 429),
                   st')
                else (Thrown, st'))))"

text \<open>
  \<open>GET\<close>, with the case table \<open>uc\<close> that \<open>parseTicker\<close> consults. The \<open>catch\<close> of
  the inner \<open>try\<close> runs the dynamic validation; without a real
  key the dynamic validation runs at once. Nothing in the handler throws past that
  \<open>catch\<close>, so the outer \<open>catch\<close> with its status 500 has no path leading to it.
\<close>

definition GET :: "(string \<Rightarrow> string) \<Rightarrow> env \<Rightarrow> string \<Rightarrow> state \<Rightarrow> response \<times> state" where
  "GET uc e ticker st =
     (let tickerInfo = parseTicker uc ticker in
      if \<not> isValidTickerFormat uc ticker
      then (error_response
              ''Invalid ticker format. Use formats like 'AAPL' or 'NASDAQ:AAPL'.'' 400, st)
      else if ALPHA_VANTAGE_API_KEY e \<noteq> [] \<and> ALPHA_VANTAGE_API_KEY e \<noteq> ''demo'' then
        (case alphaVantageDirect e tickerInfo st of
           (Assigned v, st') \<Rightarrow> (json_response v 200, st')
         | (Returned r, st') \<Rightarrow> (r, st')
         | (Thrown, st') \<Rightarrow>
             respond_validation tickerInfo ''Fallback Validation''
               (validateTickerDynamically e (symbol tickerInfo) (exchange tickerInfo) st'))
      else
        respond_validation tickerInfo ''Dynamic Validation''
          (validateTickerDynamically e (symbol tickerInfo) (exchange tickerInfo) st))"

section \<open>Vocabulary of the properties\<close>

text \<open>
  \<open>poke k x\<close> is what any other party may do to the cache entry under key \<open>k\<close>: replace
  it by \<open>x\<close> (or remove it). A computation that commutes with every \<open>poke k x\<close> neither
  reads nor writes the entry under \<open>k\<close>.
\<close>

definition poke :: "string \<Rightarrow> cache_entry option \<Rightarrow> state \<Rightarrow> state" where
  "poke k x st = st\<lparr> tickerCache := (tickerCache st)(k := x) \<rparr>"

definition cache_blind :: "adapter \<Rightarrow> bool" where
  "cache_blind m = (\<forall>k x st. m (poke k x st) = (fst (m st), poke k x (snd (m st))))"

text \<open>
  \<open>all_fail accepts ms st\<close>: the adapters \<open>ms\<close>, run one after the other from \<open>st\<close>, each
  throw or return a result the loop does not accept; the value is the state they leave.
\<close>

definition accepts_international :: "vresult \<Rightarrow> bool" where
  "accepts_international result = valid result"

definition accepts_indian :: "vresult \<Rightarrow> bool" where
  "accepts_indian result = (valid result \<and> truthy (price result))"

fun all_fail :: "(vresult \<Rightarrow> bool) \<Rightarrow> adapter list \<Rightarrow> state \<Rightarrow> state option" where
  "all_fail accepts [] st = Some st"
| "all_fail accepts (m # ms) st =
     (case m st of
        (None, st') \<Rightarrow> all_fail accepts ms st'
      | (Some result, st') \<Rightarrow> (if accepts result then None else all_fail accepts ms st'))"

text \<open>
  \<open>route_exhausted e t ex st\<close>: the exchange selects one of the two adapter lists, and every
  adapter of that list fails from \<open>st\<close>; the value is the state after the last of them.
\<close>

definition route_exhausted :: "env \<Rightarrow> string \<Rightarrow> string option \<Rightarrow> state \<Rightarrow> state option" where
  "route_exhausted e t ex st =
     (if isInternationalApiSupported ex
      then all_fail accepts_international (validationMethods e t) st
      else (case ex of
              None \<Rightarrow> None
            | Some x \<Rightarrow>
                (if js_includes indianExchanges x
                 then all_fail accepts_indian (indianApis e t x) st else None)))"

text \<open>Demo mode: no key, an empty key, or the literal \<open>demo\<close>.\<close>

definition demo_mode :: "env \<Rightarrow> bool" where
  "demo_mode e = (ALPHA_VANTAGE_API_KEY e = ''demo'')"

text \<open>
  The bodies the direct attempt tells apart: one with a quote, one that reports the symbol
  unknown (\<open>Error Message\<close>), one that reports throttling (\<open>Information\<close>).
\<close>

definition direct_quote :: "jsval \<Rightarrow> bool" where
  "direct_quote data = (case global_quote_price data of None \<Rightarrow> False | Some p \<Rightarrow> truthy p)"

definition no_quote :: "jsval \<Rightarrow> bool" where
  "no_quote data = (case global_quote_price data of None \<Rightarrow> False | Some p \<Rightarrow> \<not> truthy p)"

definition symbol_unknown :: "jsval \<Rightarrow> bool" where
  "symbol_unknown data = (no_quote data \<and> truthy (opt_member data ''Error Message''))"

definition rate_limited :: "jsval \<Rightarrow> bool" where
  "rate_limited data =
     (no_quote data \<and> \<not> truthy (opt_member data ''Error Message'')
      \<and> truthy (opt_member data ''Information''))"

text \<open>
  \<open>supplied field d p\<close>: the fetch gave a 2xx response with a parsed body (\<open>d\<close> is what
  \<open>fetch_json\<close> returned), and the body's price field holds the truthy value \<open>p\<close>.
\<close>

definition supplied :: "(jsval \<Rightarrow> jsval option) \<Rightarrow> jsval option \<Rightarrow> jsval \<Rightarrow> bool" where
  "supplied field d p =
     (case d of None \<Rightarrow> False | Some data \<Rightarrow> field data = Some p \<and> truthy p)"

text \<open>A failure response: a status other than 200 and an \<open>error\<close> message.\<close>

definition is_failure :: "response \<Rightarrow> bool" where
  "is_failure r = (status r \<noteq> 200 \<and> truthy (opt_member (body r) ''error''))"

section \<open>Example environments\<close>

text \<open>
  A small network for the worked examples: a few URLs answer after 120 ms with a fixed
  body, every other request is rejected after 3 s. The examples start from an empty cache.
\<close>

text \<open>
  A case table for the examples: the upper-casing of the Latin-1 range of Unicode, in
  UTF-8. The small letters U+00E0 to U+00FE (but not the division sign U+00F7) go to the
  capitals 32 code points below them, the sharp s (bytes C3 9F) to \<open>SS\<close>, the y with
  diaeresis U+00FF to U+0178 and the micro sign U+00B5 to the Greek capital mu U+039C;
  every other byte is left as it is. The inputs of the worked examples are ASCII, where no
  table is consulted.
\<close>

fun example_upper :: "string \<Rightarrow> string" where
  "example_upper [] = []"
| "example_upper [c] = [c]"
| "example_upper (c # d # r) =
     (if c = CHR 0xC3 \<and> d = CHR 0x9F then ''SS'' @ example_upper r
      else if c = CHR 0xC3 \<and> d = CHR 0xBF then [CHR 0xC5, CHR 0xB8] @ example_upper r
      else if c = CHR 0xC2 \<and> d = CHR 0xB5 then [CHR 0xCE, CHR 0x9C] @ example_upper r
      else if c = CHR 0xC3 \<and> 0xA0 \<le> (of_char d :: nat) \<and> (of_char d :: nat) \<le> 0xBE
              \<and> d \<noteq> CHR 0xB7
      then [CHR 0xC3, char_of ((of_char d :: nat) - 32)] @ example_upper r
      else c # example_upper (d # r))"

definition st0 :: state where
  "st0 = \<lparr> tickerCache = Map.empty, clock = 1705314600000, calls = [] \<rparr>"

definition quote_body :: "string \<Rightarrow> jsval" where
  "quote_body p = Obj [(''Global Quote'', Obj [(''05. price'', Str p)])]"

definition chart_body :: "jsval \<Rightarrow> jsval" where
  "chart_body p =
     Obj [(''chart'', Obj [(''result'', Arr [Obj [(''meta'', Obj [(''regularMarketPrice'', p)])]])])]"

definition answer :: "jsval \<Rightarrow> http_response option \<times> nat" where
  "answer v = (Some \<lparr> ok = True, json = Some v \<rparr>, 120)"

definition example_net :: "string \<Rightarrow> int \<Rightarrow> http_response option \<times> nat" where
  "example_net url t =
     (if url = ''https://www.alphavantage.co/query?function=GLOBAL_QUOTE&symbol=AAPL&apikey=demo''
      then answer (quote_body ''189.50'')
      else if url = ''https://www.alphavantage.co/query?function=GLOBAL_QUOTE&symbol=LOSS&apikey=demo''
      then answer (quote_body ''-1'')
      else if url = ''https://query1.finance.yahoo.com/v8/finance/chart/INFY.NS''
      then answer (chart_body (Str ''n/a''))
      else if url = ''https://query1.finance.yahoo.com/v8/finance/chart/MSFT''
      then answer (chart_body (Num (Fin (821 / 2))))
      else if url = ''https://www.alphavantage.co/query?function=GLOBAL_QUOTE&symbol=RELIANCE.NS&apikey=demo''
      then answer (quote_body ''0.00'')
      else if url = ''https://query1.finance.yahoo.com/v8/finance/chart/RELIANCE.NS''
      then answer (chart_body (Num (Fin (9803 / 4))))
      else if url = ''https://query1.finance.yahoo.com/v8/finance/chart/TCS.NS''
      then answer (chart_body (Num (Fin 3500)))
      else if url = ''https://www.alphavantage.co/query?function=GLOBAL_QUOTE&symbol=AAPL&apikey=K1''
      then answer (quote_body ''189.50'')
      else if url = ''https://www.alphavantage.co/query?function=GLOBAL_QUOTE&symbol=NOPE&apikey=K1''
      then answer (Obj [(''Error Message'', Str ''Invalid API call.'')])
      else if url = ''https://www.alphavantage.co/query?function=GLOBAL_QUOTE&symbol=IBM&apikey=K1''
      then answer (Obj [(''Information'', Str ''Rate limit reached.'')])
      else (None, 3000))"



definition demo_env :: env where
  "demo_env = \<lparr> env_api_key = None, net = example_net \<rparr>"

definition keyed_env :: env where
  "keyed_env = \<lparr> env_api_key = Some ''K1'', net = example_net \<rparr>"

section \<open>Properties of the built-ins and of parsing\<close>

lemma split_on_nonempty: "split_on c s \<noteq> []"
  by (induction s) (auto split: list.splits)

lemma split_on_first: "split_on c s ! 0 = takeWhile (\<lambda>x. x \<noteq> c) s"
  by (induction s) (auto split: list.splits simp: split_on_nonempty)

lemma split_on_length: "c \<in> set s \<Longrightarrow> 2 \<le> length (split_on c s)"
  by (induction s) (auto split: list.splits simp: split_on_nonempty Suc_le_eq)

lemma split_on_second:
  "c \<in> set s \<Longrightarrow> split_on c s ! 1 = takeWhile (\<lambda>x. x \<noteq> c) (tl (dropWhile (\<lambda>x. x \<noteq> c) s))"
proof (induction s)
  case Nil
  then show ?case by simp
next
  case (Cons x xs)
  show ?case
  proof (cases "x = c")
    case True
    then show ?thesis using split_on_first [of c xs] by simp
  next
    case False
    with Cons.prems have "c \<in> set xs" by simp
    with Cons.IH False show ?thesis
      by (cases "split_on c xs") (auto simp: split_on_nonempty)
  qed
qed

lemma upper_char_not_lower: "\<not> is_lower (upper_char c)"
  by (auto simp: upper_char_def is_lower_def)

lemma toUpperCase_ascii: "list_all is_ascii s \<Longrightarrow> toUpperCase uc s = map upper_char s"
  by (induction s) auto

lemma set_strip: "set (strip ws s) \<subseteq> set s"
proof (induction ws s rule: strip.induct)
  case (1 ws)
  then show ?case by simp
next
  case (2 ws c r)
  show ?case
  proof (cases "find (\<lambda>w. w \<noteq> [] \<and> starts_with w (c # r)) ws")
    case None
    then show ?thesis by simp
  next
    case (Some w)
    with 2 have "set (strip ws (drop (length w - 1) r)) \<subseteq> set (drop (length w - 1) r)"
      by simp
    also have "\<dots> \<subseteq> set r" by (rule set_drop_subset)
    finally show ?thesis using Some by auto
  qed
qed

lemma set_trim: "set (trim s) \<subseteq> set s"
  using set_strip [of "map rev white_space" "rev (strip white_space s)"]
    set_strip [of white_space s]
  by (auto simp: trim_def)

lemma is_upper_not_lower: "is_upper c \<Longrightarrow> \<not> is_lower c"
  by (auto simp: is_upper_def is_lower_def)

lemma matches_AZ_iff:
  "matches_AZ n s \<longleftrightarrow> s \<noteq> [] \<and> length s \<le> n \<and> (\<forall>c \<in> set s. is_upper c)"
  by (cases s) (auto simp: matches_AZ_def list_all_iff)

lemma parseTicker_no_colon:
  "CHR '':'' \<notin> set (trim (toUpperCase uc input)) \<Longrightarrow>
   parseTicker uc input =
     \<lparr> exchange = None, symbol = trim (toUpperCase uc input),
       fullTicker = trim (toUpperCase uc input) \<rparr>"
  by (simp add: parseTicker_def js_includes_def Let_def)

lemma parseTicker_colon:
  "CHR '':'' \<in> set (trim (toUpperCase uc input)) \<Longrightarrow>
   parseTicker uc input =
     \<lparr> exchange = Some (trim (takeWhile (\<lambda>c. c \<noteq> CHR '':'') (trim (toUpperCase uc input)))),
       symbol = trim (takeWhile (\<lambda>c. c \<noteq> CHR '':'')
                        (tl (dropWhile (\<lambda>c. c \<noteq> CHR '':'') (trim (toUpperCase uc input))))),
       fullTicker = trim (toUpperCase uc input) \<rparr>"
  using split_on_second [of "CHR '':''" "trim (toUpperCase uc input)"]
  by (simp add: parseTicker_def js_includes_def split_on_first Let_def)

lemma parseTicker_fullTicker: "fullTicker (parseTicker uc input) = trim (toUpperCase uc input)"
  by (simp add: parseTicker_def Let_def)

lemma symbol_subset: "set (symbol (parseTicker uc input)) \<subseteq> set (toUpperCase uc input)"
proof (cases "CHR '':'' \<in> set (trim (toUpperCase uc input))")
  case True
  have "set (symbol (parseTicker uc input))
          \<subseteq> set (tl (dropWhile (\<lambda>c. c \<noteq> CHR '':'') (trim (toUpperCase uc input))))"
    unfolding parseTicker_colon [OF True]
    using set_trim set_takeWhileD by fastforce
  also have "\<dots> \<subseteq> set (trim (toUpperCase uc input))"
    by (metis list.sel(2) list.set_sel(2) set_dropWhileD subsetI)
  finally show ?thesis using set_trim by blast
next
  case False
  then show ?thesis by (simp add: parseTicker_no_colon set_trim)
qed

lemma symbol_no_lower:
  "list_all is_ascii input \<Longrightarrow> c \<in> set (symbol (parseTicker uc input)) \<Longrightarrow> \<not> is_lower c"
  using symbol_subset [of uc input] upper_char_not_lower
  by (auto simp: toUpperCase_ascii)

lemma parseTicker_one_colon:
  assumes u: "trim (toUpperCase uc input) = e @ '':'' @ s"
    and e: "CHR '':'' \<notin> set e" and s: "CHR '':'' \<notin> set s"
    and te: "trim e = e" and ts: "trim s = s"
  shows "parseTicker uc input = \<lparr> exchange = Some e, symbol = s, fullTicker = e @ '':'' @ s \<rparr>"
proof -
  have c: "CHR '':'' \<in> set (trim (toUpperCase uc input))" by (simp add: u)
  have 1: "takeWhile (\<lambda>c. c \<noteq> CHR '':'') (e @ '':'' @ s) = e"
    using e by (induction e) auto
  have 2: "dropWhile (\<lambda>c. c \<noteq> CHR '':'') (e @ '':'' @ s) = '':'' @ s"
    using e by (induction e) auto
  have 3: "takeWhile (\<lambda>c. c \<noteq> CHR '':'') s = s"
    using s by (induction s) auto
  show ?thesis
    unfolding parseTicker_colon [OF c] u 1 2 by (simp add: 3 te ts)
qed

lemma valid_symbol:
  "isValidTickerFormat uc input \<Longrightarrow> matches_AZ 10 (symbol (parseTicker uc input))"
  by (auto simp: isValidTickerFormat_def Let_def matches_AZ_def split: if_splits)

subsection \<open>Adapters and the state\<close>

lemma fetch_state:
  "snd (fetch e url st)
     = st\<lparr> clock := clock st + int (snd (net e url (clock st))), calls := calls st @ [url] \<rparr>"
  by (simp add: fetch_def split: prod.splits)

lemma fetch_json_state: "snd (fetch_json e url st) = snd (fetch e url st)"
  by (auto simp: fetch_json_def split: prod.splits option.splits)

lemma quote_from_state: "snd (quote_from field conv src r) = snd r"
  by (auto simp: quote_from_def split: prod.splits option.splits)

lemma fetch_poke:
  "fetch e url (poke k x st) = (fst (fetch e url st), poke k x (snd (fetch e url st)))"
  by (simp add: fetch_def poke_def split: prod.splits)

lemma fetch_json_poke:
  "fetch_json e url (poke k x st)
     = (fst (fetch_json e url st), poke k x (snd (fetch_json e url st)))"
  by (auto simp: fetch_json_def fetch_poke split: prod.splits option.splits)

lemma quote_from_poke:
  "quote_from field conv src (fst r, poke k x (snd r))
     = (fst (quote_from field conv src r), poke k x (snd (quote_from field conv src r)))"
  by (auto simp: quote_from_def split: prod.splits option.splits)

lemma quote_fetch_blind: "cache_blind (\<lambda>st. quote_from field conv src (fetch_json e url st))"
  by (simp add: cache_blind_def fetch_json_poke quote_from_poke)

lemma blind_international:
  "cache_blind (validateWithAlphaVantageDemo e t)"
  "cache_blind (validateWithYahooFinance e t)"
  "cache_blind (validateWithPolygonDemo e t)"
  using quote_fetch_blind
  by (simp_all add: validateWithAlphaVantageDemo_def validateWithYahooFinance_def
        validateWithPolygonDemo_def cache_blind_def)

lemma blind_indian:
  "cache_blind (fetchFromAlphaVantageIndian e t x)"
  "cache_blind (fetchFromYahooFinanceIndian e t x)"
  "cache_blind (fetchFromNSEAPI e t x)"
  using quote_fetch_blind
  by (simp_all add: fetchFromAlphaVantageIndian_def fetchFromYahooFinanceIndian_def
        fetchFromNSEAPI_def cache_blind_def Let_def)

lemma cache_set_poke:
  "k \<noteq> t \<Longrightarrow> cache_set t v p (poke k x st) = poke k x (cache_set t v p st)"
  by (simp add: cache_set_def poke_def fun_upd_twist)

lemma cache_hit_poke: "k \<noteq> t \<Longrightarrow> cache_hit t (poke k x st) = cache_hit t st"
  by (simp add: cache_hit_def poke_def split: option.splits)

lemma try_validationMethods_poke:
  "\<forall>m \<in> set ms. cache_blind m \<Longrightarrow> k \<noteq> t \<Longrightarrow>
   try_validationMethods ms t (poke k x st)
     = (fst (try_validationMethods ms t st), poke k x (snd (try_validationMethods ms t st)))"
proof (induction ms arbitrary: st)
  case Nil
  then show ?case by (simp add: cache_set_poke)
next
  case (Cons m ms)
  from Cons.prems have m: "m (poke k x st) = (fst (m st), poke k x (snd (m st)))"
    by (simp add: cache_blind_def)
  obtain r s where ms: "m st = (r, s)" by (cases "m st")
  from Cons.prems have IH: "try_validationMethods ms t (poke k x s)
     = (fst (try_validationMethods ms t s), poke k x (snd (try_validationMethods ms t s)))"
    by (intro Cons.IH) auto
  show ?case
    using Cons.prems(2) by (cases r) (simp_all add: m ms IH cache_set_poke)
qed

lemma try_indianApis_poke:
  "\<forall>m \<in> set ms. cache_blind m \<Longrightarrow> k \<noteq> t \<Longrightarrow>
   try_indianApis ms t (poke k x st)
     = (fst (try_indianApis ms t st), poke k x (snd (try_indianApis ms t st)))"
proof (induction ms arbitrary: st)
  case Nil
  then show ?case by (simp add: cache_set_poke)
next
  case (Cons m ms)
  from Cons.prems have m: "m (poke k x st) = (fst (m st), poke k x (snd (m st)))"
    by (simp add: cache_blind_def)
  obtain r s where ms: "m st = (r, s)" by (cases "m st")
  from Cons.prems have IH: "try_indianApis ms t (poke k x s)
     = (fst (try_indianApis ms t s), poke k x (snd (try_indianApis ms t s)))"
    by (intro Cons.IH) auto
  show ?case
    using Cons.prems(2) by (cases r) (simp_all add: m ms IH cache_set_poke)
qed

lemma validateIndianStock_poke:
  "k \<noteq> t \<Longrightarrow>
   validateIndianStock e t ex (poke k x st)
     = (fst (validateIndianStock e t ex st), poke k x (snd (validateIndianStock e t ex st)))"
  by (simp add: validateIndianStock_def indianApis_def try_indianApis_poke blind_indian
        del: try_indianApis.simps split: option.splits)

lemma validateTickerDynamically_poke:
  "k \<noteq> t \<Longrightarrow>
   validateTickerDynamically e t ex (poke k x st)
     = (fst (validateTickerDynamically e t ex st),
        poke k x (snd (validateTickerDynamically e t ex st)))"
  by (simp add: validateTickerDynamically_def validationMethods_def cache_hit_poke
        validateIndianStock_poke try_validationMethods_poke blind_international
        del: try_validationMethods.simps split: option.splits)

lemma clock_poke: "clock (poke k x st) = clock st"
  by (simp add: poke_def)

lemma respond_validation_poke:
  "respond_validation ti d (fst r, poke k x (snd r))
     = (fst (respond_validation ti d r), poke k x (snd (respond_validation ti d r)))"
  by (simp add: respond_validation_def clock_poke split: prod.splits)

lemma alphaVantageDirect_poke:
  "alphaVantageDirect e ti (poke k x st)
     = (fst (alphaVantageDirect e ti st), poke k x (snd (alphaVantageDirect e ti st)))"
  by (auto simp: alphaVantageDirect_def fetch_json_poke clock_poke
        split: prod.splits option.splits)

lemma GET_poke:
  "k \<noteq> symbol (parseTicker uc T) \<Longrightarrow>
   GET uc e T (poke k x st) = (fst (GET uc e T st), poke k x (snd (GET uc e T st)))"
  by (auto simp: GET_def Let_def alphaVantageDirect_poke validateTickerDynamically_poke
        respond_validation_poke split: prod.splits direct_result.splits)

subsection \<open>The loops\<close>

lemma try_validationMethods_valid:
  "try_validationMethods ms t st = (r, st') \<Longrightarrow> valid r \<Longrightarrow>
   tickerCache st' t = Some \<lparr> cvalid = True, cprice = price r, ctimestamp = clock st' \<rparr>"
proof (induction ms arbitrary: st)
  case Nil
  then show ?case by (auto simp: invalid_result_def)
next
  case (Cons m ms)
  obtain x s where m: "m st = (x, s)" by (cases "m st")
  show ?case
  proof (cases x)
    case None
    with Cons m show ?thesis by simp
  next
    case (Some y)
    with Cons m show ?thesis
      by (cases "valid y") (auto simp: cache_set_def)
  qed
qed

lemma try_validationMethods_invalid:
  "try_validationMethods ms t st = (r, st') \<Longrightarrow> \<not> valid r \<Longrightarrow>
   r = invalid_result
   \<and> tickerCache st' t = Some \<lparr> cvalid = False, cprice = Undefined, ctimestamp = clock st' \<rparr>"
proof (induction ms arbitrary: st)
  case Nil
  then show ?case by (auto simp: cache_set_def)
next
  case (Cons m ms)
  obtain x s where m: "m st = (x, s)" by (cases "m st")
  show ?case
  proof (cases x)
    case None
    with Cons m show ?thesis by simp
  next
    case (Some y)
    with Cons m show ?thesis
      by (cases "valid y") auto
  qed
qed

lemma try_indianApis_valid:
  "try_indianApis ms t st = (r, st') \<Longrightarrow> valid r \<Longrightarrow>
   truthy (price r)
   \<and> tickerCache st' t = Some \<lparr> cvalid = True, cprice = price r, ctimestamp = clock st' \<rparr>"
proof (induction ms arbitrary: st)
  case Nil
  then show ?case by (auto simp: invalid_result_def)
next
  case (Cons m ms)
  obtain x s where m: "m st = (x, s)" by (cases "m st")
  show ?case
  proof (cases x)
    case None
    with Cons m show ?thesis by simp
  next
    case (Some y)
    with Cons m show ?thesis
      by (cases "valid y \<and> truthy (price y)") (auto simp: cache_set_def)
  qed
qed

lemma try_indianApis_invalid:
  "try_indianApis ms t st = (r, st') \<Longrightarrow> \<not> valid r \<Longrightarrow>
   r = invalid_result
   \<and> tickerCache st' t = Some \<lparr> cvalid = False, cprice = Undefined, ctimestamp = clock st' \<rparr>"
proof (induction ms arbitrary: st)
  case Nil
  then show ?case by (auto simp: cache_set_def)
next
  case (Cons m ms)
  obtain x s where m: "m st = (x, s)" by (cases "m st")
  show ?case
  proof (cases x)
    case None
    with Cons m show ?thesis by simp
  next
    case (Some y)
    with Cons m show ?thesis
      by (cases "valid y \<and> truthy (price y)") auto
  qed
qed

lemma try_validationMethods_exhausted:
  "all_fail accepts_international ms st = Some sk \<Longrightarrow>
   try_validationMethods ms t st = (invalid_result, cache_set t False Undefined sk)"
proof (induction ms arbitrary: st)
  case Nil
  then show ?case by simp
next
  case (Cons m ms)
  obtain x s where m: "m st = (x, s)" by (cases "m st")
  with Cons show ?case
    by (cases x) (auto simp: accepts_international_def split: if_splits)
qed

lemma try_indianApis_exhausted:
  "all_fail accepts_indian ms st = Some sk \<Longrightarrow>
   try_indianApis ms t st = (invalid_result, cache_set t False Undefined sk)"
proof (induction ms arbitrary: st)
  case Nil
  then show ?case by simp
next
  case (Cons m ms)
  obtain x s where m: "m st = (x, s)" by (cases "m st")
  with Cons show ?case
    by (cases x) (auto simp: accepts_indian_def split: if_splits)
qed

lemma try_validationMethods_first:
  "all_fail accepts_international pre st = Some sk \<Longrightarrow> m sk = (Some r, s') \<Longrightarrow>
   accepts_international r \<Longrightarrow>
   try_validationMethods (pre @ m # post) t st = (r, cache_set t True (price r) s')"
proof (induction pre arbitrary: st)
  case Nil
  then show ?case by (simp add: accepts_international_def)
next
  case (Cons a pre)
  obtain x s where a: "a st = (x, s)" by (cases "a st")
  with Cons show ?case
    by (cases x) (auto simp: accepts_international_def split: if_splits)
qed

lemma try_indianApis_first:
  "all_fail accepts_indian pre st = Some sk \<Longrightarrow> m sk = (Some r, s') \<Longrightarrow>
   accepts_indian r \<Longrightarrow>
   try_indianApis (pre @ m # post) t st = (r, cache_set t True (price r) s')"
proof (induction pre arbitrary: st)
  case Nil
  then show ?case by (simp add: accepts_indian_def)
next
  case (Cons a pre)
  obtain x s where a: "a st = (x, s)" by (cases "a st")
  with Cons show ?case
    by (cases x) (auto simp: accepts_indian_def split: if_splits)
qed

subsection \<open>The resolver and the handler\<close>

lemma api_key_nonempty: "ALPHA_VANTAGE_API_KEY e \<noteq> []"
  by (simp add: ALPHA_VANTAGE_API_KEY_def split: option.splits)

lemma validateTickerDynamically_hit:
  "cache_hit t st = Some c \<Longrightarrow>
   validateTickerDynamically e t ex st
     = (\<lparr> valid = cvalid c, price = cprice c, source = Some ''cache'' \<rparr>, st)"
  by (simp add: validateTickerDynamically_def)

lemma validateTickerDynamically_international:
  "cache_hit t st = None \<Longrightarrow> isInternationalApiSupported ex \<Longrightarrow>
   validateTickerDynamically e t ex st = try_validationMethods (validationMethods e t) t st"
  by (simp add: validateTickerDynamically_def)

lemma validateTickerDynamically_indian:
  "cache_hit t st = None \<Longrightarrow> \<not> isInternationalApiSupported ex \<Longrightarrow>
   validateTickerDynamically e t ex st = validateIndianStock e t ex st"
  by (simp add: validateTickerDynamically_def)

lemma validateIndianStock_loop:
  "js_includes indianExchanges x \<Longrightarrow>
   validateIndianStock e t (Some x) st = try_indianApis (indianApis e t x) t st"
  by (auto simp: validateIndianStock_def js_includes_def indianExchanges_def)

lemma validateIndianStock_valid:
  "validateIndianStock e t ex st = (r, st') \<Longrightarrow> valid r \<Longrightarrow>
   truthy (price r)
   \<and> tickerCache st' t = Some \<lparr> cvalid = True, cprice = price r, ctimestamp = clock st' \<rparr>"
  by (auto simp: validateIndianStock_def invalid_result_def
        split: option.splits if_splits dest: try_indianApis_valid)

lemma validateTickerDynamically_valid:
  "cache_hit t st = None \<Longrightarrow> validateTickerDynamically e t ex st = (r, st') \<Longrightarrow> valid r \<Longrightarrow>
   tickerCache st' t = Some \<lparr> cvalid = True, cprice = price r, ctimestamp = clock st' \<rparr>"
  by (auto simp: validateTickerDynamically_def split: if_splits
        dest: try_validationMethods_valid validateIndianStock_valid)

lemma GET_demo:
  "demo_mode e \<Longrightarrow> isValidTickerFormat uc T \<Longrightarrow>
   GET uc e T st
     = respond_validation (parseTicker uc T) ''Dynamic Validation''
         (validateTickerDynamically e (symbol (parseTicker uc T)) (exchange (parseTicker uc T)) st)"
  by (simp add: GET_def demo_mode_def Let_def)

lemma GET_keyed:
  "\<not> demo_mode e \<Longrightarrow> isValidTickerFormat uc T \<Longrightarrow>
   GET uc e T st
     = (case alphaVantageDirect e (parseTicker uc T) st of
          (Assigned v, st') \<Rightarrow> (json_response v 200, st')
        | (Returned r, st') \<Rightarrow> (r, st')
        | (Thrown, st') \<Rightarrow>
            respond_validation (parseTicker uc T) ''Fallback Validation''
              (validateTickerDynamically e (symbol (parseTicker uc T)) (exchange (parseTicker uc T))
                 st'))"
  by (simp add: GET_def demo_mode_def Let_def api_key_nonempty)

lemma cache_hit_fresh:
  "tickerCache st t = Some c \<Longrightarrow> t2 - ctimestamp c < CACHE_DURATION \<Longrightarrow>
   cache_hit t (st\<lparr> clock := t2 \<rparr>) = Some c"
  by (simp add: cache_hit_def)

lemma is_failure_not_found: "is_failure not_found"
  by (simp add: is_failure_def not_found_def error_response_def json_response_def opt_member_def)

subsection \<open>Unfolding sets for the worked examples\<close>

lemmas adapter_defs =
  validateWithAlphaVantageDemo_def validateWithYahooFinance_def validateWithPolygonDemo_def
  fetchFromAlphaVantageIndian_def fetchFromYahooFinanceIndian_def fetchFromNSEAPI_def
  quote_from_def fetch_json_def fetch_def global_quote_price_def regularMarketPrice_def
  results_p_def priceInfo_lastPrice_def opt_member_def parsed_def asis_def
  ALPHA_VANTAGE_BASE_URL_def ALPHA_VANTAGE_API_KEY_def exchange_suffix_def

lemmas example_defs =
  demo_env_def keyed_env_def example_net_def answer_def quote_body_def chart_body_def

lemmas parseFloat_defs =
  parseFloat_str_def parse_sign_def white_space_def starts_with_def is_digit_def digits_val_def
  digit_val_def scale10_def parse_exponent_def

lemmas resolver_defs =
  validateTickerDynamically_def validateIndianStock_def validationMethods_def indianApis_def
  cache_hit_def cache_set_def isInternationalApiSupported_def exchange_truthy_def
  exchange_in_def js_includes_def indianExchanges_def invalid_result_def CACHE_DURATION_def

lemmas handler_defs =
  respond_validation_def source_or_def alphaVantageDirect_def direct_url_def

lemmas response_defs =
  json_response_def error_response_def not_found_def stockData_def exchange_val_def

lemma demo_env_demo: "demo_mode demo_env"
  by (simp add: demo_mode_def ALPHA_VANTAGE_API_KEY_def demo_env_def)

lemma keyed_env_keyed: "\<not> demo_mode keyed_env"
  by (simp add: demo_mode_def ALPHA_VANTAGE_API_KEY_def keyed_env_def)

lemma parse_AAPL:
  "parseTicker example_upper ''AAPL'' = \<lparr> exchange = None, symbol = ''AAPL'', fullTicker = ''AAPL'' \<rparr>"
  "isValidTickerFormat example_upper ''AAPL''"
  by code_simp+

lemma GET_demo_AAPL:
  "GET example_upper demo_env ''AAPL'' st0
     = (json_response
          (stockData \<lparr> exchange = None, symbol = ''AAPL'', fullTicker = ''AAPL'' \<rparr>
             (Num (Fin (379 / 2))) 1705314600120 ''Alpha Vantage Demo'')
          200,
        \<lparr> tickerCache =
            [''AAPL'' \<mapsto> \<lparr> cvalid = True, cprice = Num (Fin (379 / 2)),
                             ctimestamp = 1705314600120 \<rparr>],
          clock = 1705314600120,
          calls = [''https://www.alphavantage.co/query?function=GLOBAL_QUOTE&symbol=AAPL&apikey=demo''] \<rparr>)"
  unfolding GET_demo [OF demo_env_demo parse_AAPL(2)] parse_AAPL(1)
  by (simp add: handler_defs resolver_defs adapter_defs example_defs parseFloat_defs st0_def)

lemma GET_keyed_AAPL:
  "calls st = cs \<Longrightarrow>
   calls (snd (GET example_upper keyed_env ''AAPL'' st))
     = cs @ [''https://www.alphavantage.co/query?function=GLOBAL_QUOTE&symbol=AAPL&apikey=K1'']"
  unfolding GET_keyed [OF keyed_env_keyed parse_AAPL(2)] parse_AAPL(1)
  by (simp add: handler_defs adapter_defs example_defs parseFloat_defs)

subsection \<open>What an adapter's result says about the response\<close>

lemma quote_from_Some:
  "quote_from field conv src x = (Some r, s') \<Longrightarrow>
   valid r \<and> source r = Some src
   \<and> (\<exists>data p. x = (Some data, s') \<and> field data = Some p \<and> truthy p \<and> price r = conv p)"
  by (auto simp: quote_from_def split: prod.splits option.splits if_splits)

lemma adapter_state:
  "snd (quote_from field conv src (fetch_json e url st))
     = st\<lparr> clock := clock st + int (snd (net e url (clock st))), calls := calls st @ [url] \<rparr>"
  by (simp add: quote_from_state fetch_json_state fetch_state)

lemma adapter_calls:
  "quote_from field conv src (fetch_json e url st) = (x, s') \<Longrightarrow> calls s' = calls st @ [url]"
  using adapter_state [of field conv src e url st] by simp

lemma indian_not_international:
  "js_includes indianExchanges x \<Longrightarrow> \<not> isInternationalApiSupported (Some x)"
  by (auto simp: js_includes_def indianExchanges_def isInternationalApiSupported_def
        exchange_truthy_def exchange_in_def)

lemma demo_key: "demo_mode e \<Longrightarrow> ALPHA_VANTAGE_API_KEY e = ''demo''"
  by (simp add: demo_mode_def)

lemma calls_cache_set: "calls (cache_set t v p st) = calls st"
  by (simp add: cache_set_def)

lemma clock_cache_set: "clock (cache_set t v p st) = clock st"
  by (simp add: cache_set_def)

subsection \<open>What a resolution leaves behind\<close>

lemma stored_valid:
  "tickerCache (cache_set t True p s) t = Some \<lparr> cvalid = True, cprice = p, ctimestamp = clock s \<rparr>"
  "tickerCache (cache_set t False Undefined s) t
     = Some \<lparr> cvalid = False, cprice = Undefined, ctimestamp = clock s \<rparr>"
  by (simp_all add: cache_set_def)

lemma respond_valid:
  "valid r \<Longrightarrow> source r = Some src \<Longrightarrow> src \<noteq> [] \<Longrightarrow>
   respond_validation ti d (r, s)
     = (\<lparr> status = 200,
          body = Obj [(''ticker'', Str (fullTicker ti)),
                      (''symbol'', Str (symbol ti)),
                      (''exchange'', (case exchange ti of None \<Rightarrow> Undefined | Some x \<Rightarrow> Str x)),
                      (''price'', price r),
                      (''timestamp'', Str (toISOString (clock s))),
                      (''source'', Str src)] \<rparr>,
        s)"
  by (simp add: respond_validation_def response_defs source_or_def)

lemma respond_invalid:
  "\<not> valid r \<Longrightarrow>
   respond_validation ti d (r, s)
     = (\<lparr> status = 404,
          body = Obj [(''error'',
                       Str ''Stock ticker not found. Please check the symbol and try again.'')] \<rparr>,
        s)"
  by (simp add: respond_validation_def response_defs)

lemma adapter_source:
  assumes "m \<in> set (validationMethods e t) \<or> m \<in> set (indianApis e t x)"
    and "m s = (Some r, s')"
  shows "valid r" and "\<exists>src. source r = Some src \<and> src \<noteq> []"
  using assms
  by (auto simp: validationMethods_def indianApis_def validateWithAlphaVantageDemo_def
        validateWithYahooFinance_def validateWithPolygonDemo_def
        fetchFromAlphaVantageIndian_def fetchFromYahooFinanceIndian_def fetchFromNSEAPI_def
        Let_def split: if_splits dest!: quote_from_Some)

lemma dynamic_international_first:
  assumes "cache_hit t st = None" and "isInternationalApiSupported ex"
    and "validationMethods e t = pre @ m # post"
    and "all_fail accepts_international pre st = Some sk" and "m sk = (Some r, s')"
  shows "validateTickerDynamically e t ex st = (r, cache_set t True (price r) s')"
    and "valid r" and "\<exists>src. source r = Some src \<and> src \<noteq> []"
proof -
  have m: "m \<in> set (validationMethods e t)" using assms(3) by simp
  from adapter_source [OF disjI1 [OF m] assms(5)]
  show v: "valid r" and "\<exists>src. source r = Some src \<and> src \<noteq> []" by simp_all
  from v have "accepts_international r" by (simp add: accepts_international_def)
  from try_validationMethods_first [where m = m and post = post and t = t, OF assms(4,5) this]
  show "validateTickerDynamically e t ex st = (r, cache_set t True (price r) s')"
    by (simp add: validateTickerDynamically_international [OF assms(1,2)] assms(3))
qed

lemma dynamic_indian_first:
  assumes "cache_hit t st = None" and "js_includes indianExchanges x"
    and "indianApis e t x = pre @ m # post"
    and "all_fail accepts_indian pre st = Some sk" and "m sk = (Some r, s')"
    and "truthy (price r)"
  shows "validateTickerDynamically e t (Some x) st = (r, cache_set t True (price r) s')"
    and "valid r" and "\<exists>src. source r = Some src \<and> src \<noteq> []"
proof -
  have m: "m \<in> set (indianApis e t x)" using assms(3) by simp
  from adapter_source [OF disjI2 [OF m] assms(5)]
  show v: "valid r" and "\<exists>src. source r = Some src \<and> src \<noteq> []" by simp_all
  from v assms(6) have "accepts_indian r" by (simp add: accepts_indian_def)
  from try_indianApis_first [where m = m and post = post and t = t, OF assms(4,5) this]
  show "validateTickerDynamically e t (Some x) st = (r, cache_set t True (price r) s')"
    by (simp add: validateTickerDynamically_indian
          [OF assms(1) indian_not_international [OF assms(2)]]
          validateIndianStock_loop [OF assms(2)] assms(3))
qed

lemma dynamic_international_none:
  assumes "cache_hit t st = None" and "isInternationalApiSupported ex"
    and "all_fail accepts_international (validationMethods e t) st = Some s3"
  shows "validateTickerDynamically e t ex st = (invalid_result, cache_set t False Undefined s3)"
  by (simp add: validateTickerDynamically_international [OF assms(1,2)]
        try_validationMethods_exhausted [OF assms(3)])

lemma dynamic_indian_none:
  assumes "cache_hit t st = None" and "js_includes indianExchanges x"
    and "all_fail accepts_indian (indianApis e t x) st = Some s3"
  shows "validateTickerDynamically e t (Some x) st
           = (invalid_result, cache_set t False Undefined s3)"
  by (simp add: validateTickerDynamically_indian
        [OF assms(1) indian_not_international [OF assms(2)]]
        validateIndianStock_loop [OF assms(2)] try_indianApis_exhausted [OF assms(3)])

lemma dynamic_unsupported:
  assumes "cache_hit t st = None" and "\<not> isInternationalApiSupported ex"
    and "\<not> exchange_in indianExchanges ex"
  shows "validateTickerDynamically e t ex st = (invalid_result, st)"
  using assms(3)
  by (auto simp: validateTickerDynamically_indian [OF assms(1,2)] validateIndianStock_def
        exchange_in_def split: option.splits)

lemma invalid_result_invalid: "\<not> valid invalid_result"
  by (simp add: invalid_result_def)

section \<open>C1: answers from the cache\<close>

text \<open>
  Claim C1 as stated fails. In demo mode the second answer for \<open>AAPL\<close> names \<open>cache\<close> as
  its source where the first named the provider, so the two outcomes are not identical.
  With a real key each call asks the primary provider before the cache is looked at: two
  calls in a row make two provider calls.
\<close>

theorem cache_roundtrip_counterexample:
  "opt_member (body (fst (GET example_upper demo_env ''AAPL'' st0))) ''source'' = Str ''Alpha Vantage Demo''
   \<and> opt_member (body (fst (GET example_upper demo_env ''AAPL'' (snd (GET example_upper demo_env ''AAPL'' st0))))) ''source''
       = Str ''cache''
   \<and> fst (GET example_upper demo_env ''AAPL'' (snd (GET example_upper demo_env ''AAPL'' st0)))
       \<noteq> fst (GET example_upper demo_env ''AAPL'' st0)
   \<and> calls (snd (GET example_upper keyed_env ''AAPL'' (snd (GET example_upper keyed_env ''AAPL'' st0))))
       = [''https://www.alphavantage.co/query?function=GLOBAL_QUOTE&symbol=AAPL&apikey=K1'',
          ''https://www.alphavantage.co/query?function=GLOBAL_QUOTE&symbol=AAPL&apikey=K1'']"
proof -
  have 1: "opt_member (body (fst (GET example_upper demo_env ''AAPL'' st0))) ''source''
             = Str ''Alpha Vantage Demo''"
    unfolding GET_demo_AAPL by (simp add: response_defs opt_member_def)
  have 2: "opt_member (body (fst (GET example_upper demo_env ''AAPL'' (snd (GET example_upper demo_env ''AAPL'' st0)))))
             ''source'' = Str ''cache''"
    unfolding GET_demo_AAPL snd_conv
    unfolding GET_demo [OF demo_env_demo parse_AAPL(2)] parse_AAPL(1)
    by (simp add: handler_defs resolver_defs response_defs opt_member_def)
  have 3: "fst (GET example_upper demo_env ''AAPL'' (snd (GET example_upper demo_env ''AAPL'' st0)))
             \<noteq> fst (GET example_upper demo_env ''AAPL'' st0)"
    using 1 2 by auto
  have 4: "calls (snd (GET example_upper keyed_env ''AAPL'' st0))
             = [] @ [''https://www.alphavantage.co/query?function=GLOBAL_QUOTE&symbol=AAPL&apikey=K1'']"
    by (rule GET_keyed_AAPL) (simp add: st0_def)
  have 5: "calls (snd (GET example_upper keyed_env ''AAPL'' (snd (GET example_upper keyed_env ''AAPL'' st0))))
             = ([] @ [''https://www.alphavantage.co/query?function=GLOBAL_QUOTE&symbol=AAPL&apikey=K1''])
               @ [''https://www.alphavantage.co/query?function=GLOBAL_QUOTE&symbol=AAPL&apikey=K1'']"
    by (rule GET_keyed_AAPL) (rule 4)
  show ?thesis using 1 2 3 5 by simp
qed

text \<open>
  Claim C1, as amended. The cache is keyed by the bare symbol. Whenever an unexpired entry
  exists for the symbol, \<open>validateTickerDynamically\<close> returns the entry's validity and price
  with the source \<open>cache\<close> and leaves the state as it was, so no adapter is called. In demo
  mode \<open>GET\<close> then makes no provider call at all and leaves the state as it was: it
  answers with a failure response when the entry is marked invalid, and otherwise 200 with
  the entry's price, the source \<open>cache\<close> and a fresh timestamp. In particular, in demo mode, after a \<open>GET\<close> that found no unexpired entry and
  answered 200, a second \<open>GET\<close> for the same input less than five minutes after that answer
  returns the same ticker, symbol, exchange and price with the source \<open>cache\<close>, and changes
  nothing in the state.
\<close>

theorem cache_hit_answers:
  "(cache_hit t st = Some c \<longrightarrow>
      validateTickerDynamically e t ex st
        = (\<lparr> valid = cvalid c, price = cprice c, source = Some ''cache'' \<rparr>, st))
   \<and> (demo_mode e \<and> isValidTickerFormat uc T \<and> cache_hit (symbol (parseTicker uc T)) st = Some c \<longrightarrow>
        snd (GET uc e T st) = st
        \<and> (if cvalid c
            then fst (GET uc e T st)
                   = json_response
                       (stockData (parseTicker uc T) (cprice c) (clock st) ''cache'') 200
            else is_failure (fst (GET uc e T st))))
   \<and> (demo_mode e \<and> demo_mode e' \<and> isValidTickerFormat uc T
        \<and> cache_hit (symbol (parseTicker uc T)) st = None
        \<and> GET uc e T st = (r1, st1) \<and> status r1 = 200 \<and> t2 - clock st1 < CACHE_DURATION \<longrightarrow>
        (\<exists>p src.
           r1 = json_response (stockData (parseTicker uc T) p (clock st1) src) 200
           \<and> GET uc e' T (st1\<lparr> clock := t2 \<rparr>)
               = (json_response (stockData (parseTicker uc T) p t2 ''cache'') 200,
                  st1\<lparr> clock := t2 \<rparr>)))"
proof (intro conjI impI)
  assume "cache_hit t st = Some c"
  then show "validateTickerDynamically e t ex st
        = (\<lparr> valid = cvalid c, price = cprice c, source = Some ''cache'' \<rparr>, st)"
    by (rule validateTickerDynamically_hit)
next
  assume "demo_mode e \<and> isValidTickerFormat uc T \<and> cache_hit (symbol (parseTicker uc T)) st = Some c"
  then have "GET uc e T st
          = (if cvalid c
             then json_response (stockData (parseTicker uc T) (cprice c) (clock st) ''cache'') 200
             else not_found,
             st)"
    by (simp add: GET_demo validateTickerDynamically_hit respond_validation_def source_or_def)
  then show "snd (GET uc e T st) = st"
    and "if cvalid c
         then fst (GET uc e T st)
                = json_response
                    (stockData (parseTicker uc T) (cprice c) (clock st) ''cache'') 200
         else is_failure (fst (GET uc e T st))"
    by (simp_all add: is_failure_not_found)
next
  assume a: "demo_mode e \<and> demo_mode e' \<and> isValidTickerFormat uc T
        \<and> cache_hit (symbol (parseTicker uc T)) st = None
        \<and> GET uc e T st = (r1, st1) \<and> status r1 = 200 \<and> t2 - clock st1 < CACHE_DURATION"
  obtain vr s where v:
    "validateTickerDynamically e (symbol (parseTicker uc T)) (exchange (parseTicker uc T)) st = (vr, s)"
    by (cases "validateTickerDynamically e (symbol (parseTicker uc T)) (exchange (parseTicker uc T)) st")
  from a have d: "demo_mode e" and d': "demo_mode e'" and f: "isValidTickerFormat uc T"
    and get: "GET uc e T st = (r1, st1)"
    by simp_all
  from get have g: "respond_validation (parseTicker uc T) ''Dynamic Validation'' (vr, s) = (r1, st1)"
    unfolding GET_demo [OF d f] v .
  have ok: "valid vr"
  proof (rule ccontr)
    assume "\<not> valid vr"
    with g have "r1 = not_found" by (simp add: respond_validation_def)
    with a show False by (simp add: response_defs)
  qed
  with g have r1: "r1 = json_response
      (stockData (parseTicker uc T) (price vr) (clock st1)
         (source_or (source vr) ''Dynamic Validation'')) 200"
    and s: "st1 = s"
    by (auto simp: respond_validation_def)
  from a v ok s have "tickerCache st1 (symbol (parseTicker uc T))
      = Some \<lparr> cvalid = True, cprice = price vr, ctimestamp = clock st1 \<rparr>"
    using validateTickerDynamically_valid by blast
  with a have "cache_hit (symbol (parseTicker uc T)) (st1\<lparr> clock := t2 \<rparr>)
      = Some \<lparr> cvalid = True, cprice = price vr, ctimestamp = clock st1 \<rparr>"
    by (intro cache_hit_fresh) simp_all
  then have "GET uc e' T (st1\<lparr> clock := t2 \<rparr>)
      = (json_response (stockData (parseTicker uc T) (price vr) t2 ''cache'') 200,
         st1\<lparr> clock := t2 \<rparr>)"
    unfolding GET_demo [OF d' f]
    by (simp add: validateTickerDynamically_hit respond_validation_def source_or_def)
  with r1 show "\<exists>p src.
           r1 = json_response (stockData (parseTicker uc T) p (clock st1) src) 200
           \<and> GET uc e' T (st1\<lparr> clock := t2 \<rparr>)
               = (json_response (stockData (parseTicker uc T) p t2 ''cache'') 200,
                  st1\<lparr> clock := t2 \<rparr>)"
    by blast
qed

text \<open>
  \<open>AAPL\<close> in the example network: the first answer comes from the provider, and a second
  request one minute later is answered from the cache with the same price.
\<close>

theorem cache_hit_answers_witness:
  "demo_mode demo_env \<and> isValidTickerFormat example_upper ''AAPL''
   \<and> cache_hit (symbol (parseTicker example_upper ''AAPL'')) st0 = None
   \<and> status (fst (GET example_upper demo_env ''AAPL'' st0)) = 200
   \<and> (1705314660120 :: int) - clock (snd (GET example_upper demo_env ''AAPL'' st0)) < CACHE_DURATION
   \<and> cache_hit (symbol (parseTicker example_upper ''AAPL''))
         ((snd (GET example_upper demo_env ''AAPL'' st0))\<lparr> clock := 1705314660120 \<rparr>)
       = Some \<lparr> cvalid = True, cprice = Num (Fin (379 / 2)), ctimestamp = 1705314600120 \<rparr>
   \<and> GET example_upper demo_env ''AAPL'' ((snd (GET example_upper demo_env ''AAPL'' st0))\<lparr> clock := 1705314660120 \<rparr>)
       = (json_response
            (stockData (parseTicker example_upper ''AAPL'') (Num (Fin (379 / 2))) 1705314660120 ''cache'') 200,
          (snd (GET example_upper demo_env ''AAPL'' st0))\<lparr> clock := 1705314660120 \<rparr>)"
proof -
  have h1: "cache_hit (symbol (parseTicker example_upper ''AAPL'')) st0 = None"
    by (simp add: parse_AAPL cache_hit_def st0_def)
  have h2: "status (fst (GET example_upper demo_env ''AAPL'' st0)) = 200"
    unfolding GET_demo_AAPL by (simp add: response_defs)
  have h3: "(1705314660120 :: int) - clock (snd (GET example_upper demo_env ''AAPL'' st0)) < CACHE_DURATION"
    unfolding GET_demo_AAPL by (simp add: CACHE_DURATION_def)
  have h4: "GET example_upper demo_env ''AAPL'' st0
              = (fst (GET example_upper demo_env ''AAPL'' st0), snd (GET example_upper demo_env ''AAPL'' st0))"
    by simp
  from cache_hit_answers
      [where uc = example_upper and e = demo_env and e' = demo_env and T = "''AAPL''"
         and st = st0 and t = "symbol (parseTicker example_upper ''AAPL'')"
         and ?r1.0 = "fst (GET example_upper demo_env ''AAPL'' st0)"
         and ?st1.0 = "snd (GET example_upper demo_env ''AAPL'' st0)"
         and ?t2.0 = 1705314660120]
    demo_env_demo parse_AAPL(2) h1 h2 h3 h4
  obtain p src where
    a: "fst (GET example_upper demo_env ''AAPL'' st0)
          = json_response
              (stockData (parseTicker example_upper ''AAPL'') p (clock (snd (GET example_upper demo_env ''AAPL'' st0))) src) 200"
    and b: "GET example_upper demo_env ''AAPL'' ((snd (GET example_upper demo_env ''AAPL'' st0))\<lparr> clock := 1705314660120 \<rparr>)
          = (json_response (stockData (parseTicker example_upper ''AAPL'') p 1705314660120 ''cache'') 200,
             (snd (GET example_upper demo_env ''AAPL'' st0))\<lparr> clock := 1705314660120 \<rparr>)"
    by blast
  from a have "p = Num (Fin (379 / 2))"
    unfolding GET_demo_AAPL by (simp add: response_defs parse_AAPL)
  moreover have "cache_hit (symbol (parseTicker example_upper ''AAPL''))
         ((snd (GET example_upper demo_env ''AAPL'' st0))\<lparr> clock := 1705314660120 \<rparr>)
       = Some \<lparr> cvalid = True, cprice = Num (Fin (379 / 2)), ctimestamp = 1705314600120 \<rparr>"
    unfolding GET_demo_AAPL by (simp add: parse_AAPL cache_hit_def CACHE_DURATION_def)
  ultimately show ?thesis
    using b demo_env_demo parse_AAPL(2) h1 h2 h3 by simp
qed

section \<open>C2: the direct attempt with a real key\<close>

lemma alphaVantageDirect_cases:
  assumes "fetch_json e (direct_url e ti) st = (d, st1)"
  shows "d = Some data \<and> symbol_unknown data \<longrightarrow>
            alphaVantageDirect e ti st = (Returned not_found, st1)"
    and "d = Some data \<and> rate_limited data \<longrightarrow>
            alphaVantageDirect e ti st
              = (Returned
                   (error_response ''API rate limit reached. Please try again later.'' 429),
                 st1)"
    and "d = None \<or> (d = Some data \<and> \<not> direct_quote data \<and> \<not> symbol_unknown data
                         \<and> \<not> rate_limited data) \<longrightarrow>
         alphaVantageDirect e ti st = (Thrown, st1)"
  using assms
  by (auto simp: alphaVantageDirect_def symbol_unknown_def rate_limited_def no_quote_def
        direct_quote_def split: option.splits)

text \<open>
  Claim C2. With a real key and a well-formed ticker, \<open>GET\<close> first fetches the Alpha Vantage
  URL with that key; this is one provider call and touches no cache entry. If the body has no
  quote and reports the symbol unknown, \<open>GET\<close> answers 404 right there; if it has no quote and
  reports throttling, \<open>GET\<close> answers 429 right there; in both cases the state is the one the
  single fetch left, so no fallback adapter ran. Every other failure of the direct attempt (a
  rejected fetch, a non-2xx status, an unparsable or \<open>null\<close> body, a body with neither a quote
  nor one of the two markers) surfaces no error of its own; the answer is then that of the
  dynamic resolution run from the state the fetch left:
  \<^item> an unexpired cache entry for the symbol is answered as it stands, 200 with its price and
    the source \<open>cache\<close> when it is valid, 404 when it is not, with no further call;
  \<^item> otherwise, on the international route, the first adapter of the declared list that
    succeeds after all adapters before it failed gives a 200 with its price and source name,
    its price is stored under the symbol, and the state is the one that adapter left; if all
    adapters fail the answer is 404 and the failure is stored;
  \<^item> the same on the Indian route, where an adapter's result must also carry a truthy price;
  \<^item> an exchange served by neither route is answered 404 with no further call.
\<close>

theorem direct_attempt_short_circuits:
  "\<not> demo_mode e \<and> isValidTickerFormat uc T
   \<and> fetch_json e (direct_url e (parseTicker uc T)) st = (d, st1) \<longrightarrow>
     calls st1 = calls st @ [direct_url e (parseTicker uc T)]
     \<and> tickerCache st1 = tickerCache st
     \<and> (d = Some data \<and> symbol_unknown data \<longrightarrow>
           GET uc e T st
             = (\<lparr> status = 404,
                 body = Obj [(''error'',
                   Str ''Stock ticker not found. Please check the symbol and try again.'')] \<rparr>, st1))
     \<and> (d = Some data \<and> rate_limited data \<longrightarrow>
           GET uc e T st
             = (\<lparr> status = 429,
                 body = Obj [(''error'',
                   Str ''API rate limit reached. Please try again later.'')] \<rparr>, st1))
     \<and> ((d = None \<or> (d = Some data \<and> \<not> direct_quote data \<and> \<not> symbol_unknown data
                        \<and> \<not> rate_limited data)) \<and> cache_hit (symbol (parseTicker uc T)) st1 = Some c \<and> cvalid c \<longrightarrow>
           GET uc e T st
             = (\<lparr> status = 200,
                 body = Obj [(''ticker'', Str (fullTicker (parseTicker uc T))),
                             (''symbol'', Str (symbol (parseTicker uc T))),
                             (''exchange'', (case exchange (parseTicker uc T) of None \<Rightarrow> Undefined | Some x \<Rightarrow> Str x)),
                             (''price'', cprice c),
                             (''timestamp'', Str (toISOString (clock st1))),
                             (''source'', Str ''cache'')] \<rparr>, st1))
     \<and> ((d = None \<or> (d = Some data \<and> \<not> direct_quote data \<and> \<not> symbol_unknown data
                        \<and> \<not> rate_limited data)) \<and> cache_hit (symbol (parseTicker uc T)) st1 = Some c \<and> \<not> cvalid c \<longrightarrow>
           GET uc e T st
             = (\<lparr> status = 404,
                 body = Obj [(''error'',
                   Str ''Stock ticker not found. Please check the symbol and try again.'')] \<rparr>, st1))
     \<and> ((d = None \<or> (d = Some data \<and> \<not> direct_quote data \<and> \<not> symbol_unknown data
                        \<and> \<not> rate_limited data)) \<and> cache_hit (symbol (parseTicker uc T)) st1 = None
          \<and> isInternationalApiSupported (exchange (parseTicker uc T))
          \<and> validationMethods e (symbol (parseTicker uc T)) = pre @ m # post
          \<and> all_fail accepts_international pre st1 = Some sk \<and> m sk = (Some r, s')
          \<and> source r = Some src \<longrightarrow>
           GET uc e T st
             = (\<lparr> status = 200,
                 body = Obj [(''ticker'', Str (fullTicker (parseTicker uc T))),
                             (''symbol'', Str (symbol (parseTicker uc T))),
                             (''exchange'', (case exchange (parseTicker uc T) of None \<Rightarrow> Undefined | Some x \<Rightarrow> Str x)),
                             (''price'', price r),
                             (''timestamp'', Str (toISOString (clock s'))),
                             (''source'', Str src)] \<rparr>,
                s'\<lparr> tickerCache := (tickerCache s')(symbol (parseTicker uc T) \<mapsto>
                   \<lparr> cvalid = True, cprice = price r, ctimestamp = clock s' \<rparr>) \<rparr>))
     \<and> ((d = None \<or> (d = Some data \<and> \<not> direct_quote data \<and> \<not> symbol_unknown data
                        \<and> \<not> rate_limited data)) \<and> cache_hit (symbol (parseTicker uc T)) st1 = None
          \<and> isInternationalApiSupported (exchange (parseTicker uc T))
          \<and> all_fail accepts_international (validationMethods e (symbol (parseTicker uc T))) st1 = Some s3 \<longrightarrow>
           GET uc e T st
             = (\<lparr> status = 404,
                 body = Obj [(''error'',
                   Str ''Stock ticker not found. Please check the symbol and try again.'')] \<rparr>,
                s3\<lparr> tickerCache := (tickerCache s3)(symbol (parseTicker uc T) \<mapsto>
                   \<lparr> cvalid = False, cprice = Undefined, ctimestamp = clock s3 \<rparr>) \<rparr>))
     \<and> ((d = None \<or> (d = Some data \<and> \<not> direct_quote data \<and> \<not> symbol_unknown data
                        \<and> \<not> rate_limited data)) \<and> cache_hit (symbol (parseTicker uc T)) st1 = None
          \<and> exchange (parseTicker uc T) = Some x \<and> js_includes indianExchanges x
          \<and> indianApis e (symbol (parseTicker uc T)) x = pre @ m # post
          \<and> all_fail accepts_indian pre st1 = Some sk \<and> m sk = (Some r, s')
          \<and> truthy (price r) \<and> source r = Some src \<longrightarrow>
           GET uc e T st
             = (\<lparr> status = 200,
                 body = Obj [(''ticker'', Str (fullTicker (parseTicker uc T))),
                             (''symbol'', Str (symbol (parseTicker uc T))),
                             (''exchange'', Str x),
                             (''price'', price r),
                             (''timestamp'', Str (toISOString (clock s'))),
                             (''source'', Str src)] \<rparr>,
                s'\<lparr> tickerCache := (tickerCache s')(symbol (parseTicker uc T) \<mapsto>
                   \<lparr> cvalid = True, cprice = price r, ctimestamp = clock s' \<rparr>) \<rparr>))
     \<and> ((d = None \<or> (d = Some data \<and> \<not> direct_quote data \<and> \<not> symbol_unknown data
                        \<and> \<not> rate_limited data)) \<and> cache_hit (symbol (parseTicker uc T)) st1 = None
          \<and> exchange (parseTicker uc T) = Some x \<and> js_includes indianExchanges x
          \<and> all_fail accepts_indian (indianApis e (symbol (parseTicker uc T)) x) st1 = Some s3 \<longrightarrow>
           GET uc e T st
             = (\<lparr> status = 404,
                 body = Obj [(''error'',
                   Str ''Stock ticker not found. Please check the symbol and try again.'')] \<rparr>,
                s3\<lparr> tickerCache := (tickerCache s3)(symbol (parseTicker uc T) \<mapsto>
                   \<lparr> cvalid = False, cprice = Undefined, ctimestamp = clock s3 \<rparr>) \<rparr>))
     \<and> ((d = None \<or> (d = Some data \<and> \<not> direct_quote data \<and> \<not> symbol_unknown data
                        \<and> \<not> rate_limited data)) \<and> cache_hit (symbol (parseTicker uc T)) st1 = None
          \<and> \<not> isInternationalApiSupported (exchange (parseTicker uc T))
          \<and> \<not> exchange_in indianExchanges (exchange (parseTicker uc T)) \<longrightarrow>
           GET uc e T st
             = (\<lparr> status = 404,
                 body = Obj [(''error'',
                   Str ''Stock ticker not found. Please check the symbol and try again.'')] \<rparr>, st1))"
proof (intro impI)
  assume a: "\<not> demo_mode e \<and> isValidTickerFormat uc T
   \<and> fetch_json e (direct_url e (parseTicker uc T)) st = (d, st1)"
  then have k: "\<not> demo_mode e" and f: "isValidTickerFormat uc T"
    and fj: "fetch_json e (direct_url e (parseTicker uc T)) st = (d, st1)"
    by simp_all
  have st1: "st1 = snd (fetch e (direct_url e (parseTicker uc T)) st)"
    using fj fetch_json_state [of e "direct_url e (parseTicker uc T)" st] by simp
  have c1: "calls st1 = calls st @ [direct_url e (parseTicker uc T)]"
    and c2: "tickerCache st1 = tickerCache st"
    unfolding st1 fetch_state by simp_all
  note cases = alphaVantageDirect_cases [OF fj, where data = data]
  have u: "d = Some data \<and> symbol_unknown data \<longrightarrow>
           GET uc e T st
             = (\<lparr> status = 404,
                 body = Obj [(''error'',
                   Str ''Stock ticker not found. Please check the symbol and try again.'')] \<rparr>, st1)"
    unfolding GET_keyed [OF k f] using cases(1) by (auto simp: response_defs)
  have r: "d = Some data \<and> rate_limited data \<longrightarrow>
           GET uc e T st
             = (\<lparr> status = 429,
                 body = Obj [(''error'',
                   Str ''API rate limit reached. Please try again later.'')] \<rparr>, st1)"
    unfolding GET_keyed [OF k f] using cases(2) by (auto simp: response_defs)
  have fall: "GET uc e T st
             = respond_validation (parseTicker uc T) ''Fallback Validation''
                 (validateTickerDynamically e (symbol (parseTicker uc T)) (exchange (parseTicker uc T)) st1)"
    if "(d = None \<or> (d = Some data \<and> \<not> direct_quote data \<and> \<not> symbol_unknown data
                        \<and> \<not> rate_limited data))"
    unfolding GET_keyed [OF k f] using cases(3) that by auto
  have hit_valid: "(d = None \<or> (d = Some data \<and> \<not> direct_quote data \<and> \<not> symbol_unknown data
                        \<and> \<not> rate_limited data)) \<and> cache_hit (symbol (parseTicker uc T)) st1 = Some c \<and> cvalid c \<longrightarrow>
           GET uc e T st
             = (\<lparr> status = 200,
                 body = Obj [(''ticker'', Str (fullTicker (parseTicker uc T))),
                             (''symbol'', Str (symbol (parseTicker uc T))),
                             (''exchange'', (case exchange (parseTicker uc T) of None \<Rightarrow> Undefined | Some x \<Rightarrow> Str x)),
                             (''price'', cprice c),
                             (''timestamp'', Str (toISOString (clock st1))),
                             (''source'', Str ''cache'')] \<rparr>, st1)"
  proof (intro impI)
    assume that: "(d = None \<or> (d = Some data \<and> \<not> direct_quote data \<and> \<not> symbol_unknown data
                        \<and> \<not> rate_limited data)) \<and> cache_hit (symbol (parseTicker uc T)) st1 = Some c \<and> cvalid c"
    then have f0: "(d = None \<or> (d = Some data \<and> \<not> direct_quote data \<and> \<not> symbol_unknown data
                        \<and> \<not> rate_limited data))" by blast
      from that have g: "validateTickerDynamically e (symbol (parseTicker uc T)) (exchange (parseTicker uc T)) st1
          = (\<lparr> valid = cvalid c, price = cprice c, source = Some ''cache'' \<rparr>, st1)"
        and v: "cvalid c"
        by (simp_all add: validateTickerDynamically_hit)
      show "GET uc e T st
             = (\<lparr> status = 200,
                 body = Obj [(''ticker'', Str (fullTicker (parseTicker uc T))),
                             (''symbol'', Str (symbol (parseTicker uc T))),
                             (''exchange'', (case exchange (parseTicker uc T) of None \<Rightarrow> Undefined | Some x \<Rightarrow> Str x)),
                             (''price'', cprice c),
                             (''timestamp'', Str (toISOString (clock st1))),
                             (''source'', Str ''cache'')] \<rparr>, st1)"
        unfolding fall [OF f0] g
        using v by (simp add: respond_validation_def response_defs source_or_def)
  qed
  have hit_invalid: "(d = None \<or> (d = Some data \<and> \<not> direct_quote data \<and> \<not> symbol_unknown data
                        \<and> \<not> rate_limited data)) \<and> cache_hit (symbol (parseTicker uc T)) st1 = Some c \<and> \<not> cvalid c \<longrightarrow>
           GET uc e T st
             = (\<lparr> status = 404,
                 body = Obj [(''error'',
                   Str ''Stock ticker not found. Please check the symbol and try again.'')] \<rparr>, st1)"
  proof (intro impI)
    assume that: "(d = None \<or> (d = Some data \<and> \<not> direct_quote data \<and> \<not> symbol_unknown data
                        \<and> \<not> rate_limited data)) \<and> cache_hit (symbol (parseTicker uc T)) st1 = Some c \<and> \<not> cvalid c"
    then have f0: "(d = None \<or> (d = Some data \<and> \<not> direct_quote data \<and> \<not> symbol_unknown data
                        \<and> \<not> rate_limited data))" by blast
      from that have g: "validateTickerDynamically e (symbol (parseTicker uc T)) (exchange (parseTicker uc T)) st1
          = (\<lparr> valid = cvalid c, price = cprice c, source = Some ''cache'' \<rparr>, st1)"
        and v: "\<not> cvalid c"
        by (simp_all add: validateTickerDynamically_hit)
      show "GET uc e T st
             = (\<lparr> status = 404,
                 body = Obj [(''error'',
                   Str ''Stock ticker not found. Please check the symbol and try again.'')] \<rparr>, st1)"
        unfolding fall [OF f0] g
        using v by (simp add: respond_validation_def response_defs)
  qed
  have int_first: "(d = None \<or> (d = Some data \<and> \<not> direct_quote data \<and> \<not> symbol_unknown data
                        \<and> \<not> rate_limited data)) \<and> cache_hit (symbol (parseTicker uc T)) st1 = None
          \<and> isInternationalApiSupported (exchange (parseTicker uc T))
          \<and> validationMethods e (symbol (parseTicker uc T)) = pre @ m # post
          \<and> all_fail accepts_international pre st1 = Some sk \<and> m sk = (Some r, s')
          \<and> source r = Some src \<longrightarrow>
           GET uc e T st
             = (\<lparr> status = 200,
                 body = Obj [(''ticker'', Str (fullTicker (parseTicker uc T))),
                             (''symbol'', Str (symbol (parseTicker uc T))),
                             (''exchange'', (case exchange (parseTicker uc T) of None \<Rightarrow> Undefined | Some x \<Rightarrow> Str x)),
                             (''price'', price r),
                             (''timestamp'', Str (toISOString (clock s'))),
                             (''source'', Str src)] \<rparr>,
                s'\<lparr> tickerCache := (tickerCache s')(symbol (parseTicker uc T) \<mapsto>
                   \<lparr> cvalid = True, cprice = price r, ctimestamp = clock s' \<rparr>) \<rparr>)"
  proof (intro impI)
    assume that: "(d = None \<or> (d = Some data \<and> \<not> direct_quote data \<and> \<not> symbol_unknown data
                        \<and> \<not> rate_limited data)) \<and> cache_hit (symbol (parseTicker uc T)) st1 = None
          \<and> isInternationalApiSupported (exchange (parseTicker uc T))
          \<and> validationMethods e (symbol (parseTicker uc T)) = pre @ m # post
          \<and> all_fail accepts_international pre st1 = Some sk \<and> m sk = (Some r, s')
          \<and> source r = Some src"
    then have f0: "(d = None \<or> (d = Some data \<and> \<not> direct_quote data \<and> \<not> symbol_unknown data
                        \<and> \<not> rate_limited data))" by blast
      from that have miss: "cache_hit (symbol (parseTicker uc T)) st1 = None"
        and int: "isInternationalApiSupported (exchange (parseTicker uc T))"
        and l: "validationMethods e (symbol (parseTicker uc T)) = pre @ m # post"
        and a: "all_fail accepts_international pre st1 = Some sk" and b: "m sk = (Some r, s')"
        and s: "source r = Some src"
        by simp_all
      note o = dynamic_international_first [OF miss int l a b]
      from o(3) s have n: "src \<noteq> []" by simp
      show "GET uc e T st
             = (\<lparr> status = 200,
                 body = Obj [(''ticker'', Str (fullTicker (parseTicker uc T))),
                             (''symbol'', Str (symbol (parseTicker uc T))),
                             (''exchange'', (case exchange (parseTicker uc T) of None \<Rightarrow> Undefined | Some x \<Rightarrow> Str x)),
                             (''price'', price r),
                             (''timestamp'', Str (toISOString (clock s'))),
                             (''source'', Str src)] \<rparr>,
                s'\<lparr> tickerCache := (tickerCache s')(symbol (parseTicker uc T) \<mapsto>
                   \<lparr> cvalid = True, cprice = price r, ctimestamp = clock s' \<rparr>) \<rparr>)"
        unfolding fall [OF f0] o(1) respond_valid [OF o(2) s n]
        by (simp add: cache_set_def)
  qed
  have int_none: "(d = None \<or> (d = Some data \<and> \<not> direct_quote data \<and> \<not> symbol_unknown data
                        \<and> \<not> rate_limited data)) \<and> cache_hit (symbol (parseTicker uc T)) st1 = None
          \<and> isInternationalApiSupported (exchange (parseTicker uc T))
          \<and> all_fail accepts_international (validationMethods e (symbol (parseTicker uc T))) st1 = Some s3 \<longrightarrow>
           GET uc e T st
             = (\<lparr> status = 404,
                 body = Obj [(''error'',
                   Str ''Stock ticker not found. Please check the symbol and try again.'')] \<rparr>,
                s3\<lparr> tickerCache := (tickerCache s3)(symbol (parseTicker uc T) \<mapsto>
                   \<lparr> cvalid = False, cprice = Undefined, ctimestamp = clock s3 \<rparr>) \<rparr>)"
  proof (intro impI)
    assume that: "(d = None \<or> (d = Some data \<and> \<not> direct_quote data \<and> \<not> symbol_unknown data
                        \<and> \<not> rate_limited data)) \<and> cache_hit (symbol (parseTicker uc T)) st1 = None
          \<and> isInternationalApiSupported (exchange (parseTicker uc T))
          \<and> all_fail accepts_international (validationMethods e (symbol (parseTicker uc T))) st1 = Some s3"
    then have f0: "(d = None \<or> (d = Some data \<and> \<not> direct_quote data \<and> \<not> symbol_unknown data
                        \<and> \<not> rate_limited data))" by blast
      from that have miss: "cache_hit (symbol (parseTicker uc T)) st1 = None"
        and int: "isInternationalApiSupported (exchange (parseTicker uc T))"
        and a: "all_fail accepts_international (validationMethods e (symbol (parseTicker uc T))) st1 = Some s3"
        by simp_all
      show "GET uc e T st
             = (\<lparr> status = 404,
                 body = Obj [(''error'',
                   Str ''Stock ticker not found. Please check the symbol and try again.'')] \<rparr>,
                s3\<lparr> tickerCache := (tickerCache s3)(symbol (parseTicker uc T) \<mapsto>
                   \<lparr> cvalid = False, cprice = Undefined, ctimestamp = clock s3 \<rparr>) \<rparr>)"
        unfolding fall [OF f0] dynamic_international_none [OF miss int a]
          respond_invalid [OF invalid_result_invalid]
        by (simp add: cache_set_def)
  qed
  have ind_first: "(d = None \<or> (d = Some data \<and> \<not> direct_quote data \<and> \<not> symbol_unknown data
                        \<and> \<not> rate_limited data)) \<and> cache_hit (symbol (parseTicker uc T)) st1 = None
          \<and> exchange (parseTicker uc T) = Some x \<and> js_includes indianExchanges x
          \<and> indianApis e (symbol (parseTicker uc T)) x = pre @ m # post
          \<and> all_fail accepts_indian pre st1 = Some sk \<and> m sk = (Some r, s')
          \<and> truthy (price r) \<and> source r = Some src \<longrightarrow>
           GET uc e T st
             = (\<lparr> status = 200,
                 body = Obj [(''ticker'', Str (fullTicker (parseTicker uc T))),
                             (''symbol'', Str (symbol (parseTicker uc T))),
                             (''exchange'', Str x),
                             (''price'', price r),
                             (''timestamp'', Str (toISOString (clock s'))),
                             (''source'', Str src)] \<rparr>,
                s'\<lparr> tickerCache := (tickerCache s')(symbol (parseTicker uc T) \<mapsto>
                   \<lparr> cvalid = True, cprice = price r, ctimestamp = clock s' \<rparr>) \<rparr>)"
  proof (intro impI)
    assume that: "(d = None \<or> (d = Some data \<and> \<not> direct_quote data \<and> \<not> symbol_unknown data
                        \<and> \<not> rate_limited data)) \<and> cache_hit (symbol (parseTicker uc T)) st1 = None
          \<and> exchange (parseTicker uc T) = Some x \<and> js_includes indianExchanges x
          \<and> indianApis e (symbol (parseTicker uc T)) x = pre @ m # post
          \<and> all_fail accepts_indian pre st1 = Some sk \<and> m sk = (Some r, s')
          \<and> truthy (price r) \<and> source r = Some src"
    then have f0: "(d = None \<or> (d = Some data \<and> \<not> direct_quote data \<and> \<not> symbol_unknown data
                        \<and> \<not> rate_limited data))" by blast
      from that have miss: "cache_hit (symbol (parseTicker uc T)) st1 = None"
        and x: "exchange (parseTicker uc T) = Some x" and ind: "js_includes indianExchanges x"
        and l: "indianApis e (symbol (parseTicker uc T)) x = pre @ m # post"
        and a: "all_fail accepts_indian pre st1 = Some sk" and b: "m sk = (Some r, s')"
        and t: "truthy (price r)" and s: "source r = Some src"
        by simp_all
      note o = dynamic_indian_first [OF miss ind l a b t]
      from o(3) s have n: "src \<noteq> []" by simp
      show "GET uc e T st
             = (\<lparr> status = 200,
                 body = Obj [(''ticker'', Str (fullTicker (parseTicker uc T))),
                             (''symbol'', Str (symbol (parseTicker uc T))),
                             (''exchange'', Str x),
                             (''price'', price r),
                             (''timestamp'', Str (toISOString (clock s'))),
                             (''source'', Str src)] \<rparr>,
                s'\<lparr> tickerCache := (tickerCache s')(symbol (parseTicker uc T) \<mapsto>
                   \<lparr> cvalid = True, cprice = price r, ctimestamp = clock s' \<rparr>) \<rparr>)"
        unfolding fall [OF f0] x o(1) respond_valid [OF o(2) s n]
        using x by (simp add: cache_set_def)
  qed
  have ind_none: "(d = None \<or> (d = Some data \<and> \<not> direct_quote data \<and> \<not> symbol_unknown data
                        \<and> \<not> rate_limited data)) \<and> cache_hit (symbol (parseTicker uc T)) st1 = None
          \<and> exchange (parseTicker uc T) = Some x \<and> js_includes indianExchanges x
          \<and> all_fail accepts_indian (indianApis e (symbol (parseTicker uc T)) x) st1 = Some s3 \<longrightarrow>
           GET uc e T st
             = (\<lparr> status = 404,
                 body = Obj [(''error'',
                   Str ''Stock ticker not found. Please check the symbol and try again.'')] \<rparr>,
                s3\<lparr> tickerCache := (tickerCache s3)(symbol (parseTicker uc T) \<mapsto>
                   \<lparr> cvalid = False, cprice = Undefined, ctimestamp = clock s3 \<rparr>) \<rparr>)"
  proof (intro impI)
    assume that: "(d = None \<or> (d = Some data \<and> \<not> direct_quote data \<and> \<not> symbol_unknown data
                        \<and> \<not> rate_limited data)) \<and> cache_hit (symbol (parseTicker uc T)) st1 = None
          \<and> exchange (parseTicker uc T) = Some x \<and> js_includes indianExchanges x
          \<and> all_fail accepts_indian (indianApis e (symbol (parseTicker uc T)) x) st1 = Some s3"
    then have f0: "(d = None \<or> (d = Some data \<and> \<not> direct_quote data \<and> \<not> symbol_unknown data
                        \<and> \<not> rate_limited data))" by blast
      from that have miss: "cache_hit (symbol (parseTicker uc T)) st1 = None"
        and x: "exchange (parseTicker uc T) = Some x" and ind: "js_includes indianExchanges x"
        and a: "all_fail accepts_indian (indianApis e (symbol (parseTicker uc T)) x) st1 = Some s3"
        by simp_all
      show "GET uc e T st
             = (\<lparr> status = 404,
                 body = Obj [(''error'',
                   Str ''Stock ticker not found. Please check the symbol and try again.'')] \<rparr>,
                s3\<lparr> tickerCache := (tickerCache s3)(symbol (parseTicker uc T) \<mapsto>
                   \<lparr> cvalid = False, cprice = Undefined, ctimestamp = clock s3 \<rparr>) \<rparr>)"
        unfolding fall [OF f0] x dynamic_indian_none [OF miss ind a]
          respond_invalid [OF invalid_result_invalid]
        by (simp add: cache_set_def)
  qed
  have unsupported: "(d = None \<or> (d = Some data \<and> \<not> direct_quote data \<and> \<not> symbol_unknown data
                        \<and> \<not> rate_limited data)) \<and> cache_hit (symbol (parseTicker uc T)) st1 = None
          \<and> \<not> isInternationalApiSupported (exchange (parseTicker uc T))
          \<and> \<not> exchange_in indianExchanges (exchange (parseTicker uc T)) \<longrightarrow>
           GET uc e T st
             = (\<lparr> status = 404,
                 body = Obj [(''error'',
                   Str ''Stock ticker not found. Please check the symbol and try again.'')] \<rparr>, st1)"
  proof (intro impI)
    assume that: "(d = None \<or> (d = Some data \<and> \<not> direct_quote data \<and> \<not> symbol_unknown data
                        \<and> \<not> rate_limited data)) \<and> cache_hit (symbol (parseTicker uc T)) st1 = None
          \<and> \<not> isInternationalApiSupported (exchange (parseTicker uc T))
          \<and> \<not> exchange_in indianExchanges (exchange (parseTicker uc T))"
    then have f0: "(d = None \<or> (d = Some data \<and> \<not> direct_quote data \<and> \<not> symbol_unknown data
                        \<and> \<not> rate_limited data))" by blast
      from that have miss: "cache_hit (symbol (parseTicker uc T)) st1 = None"
        and a: "\<not> isInternationalApiSupported (exchange (parseTicker uc T))"
        and b: "\<not> exchange_in indianExchanges (exchange (parseTicker uc T))"
        by simp_all
      show "GET uc e T st
             = (\<lparr> status = 404,
                 body = Obj [(''error'',
                   Str ''Stock ticker not found. Please check the symbol and try again.'')] \<rparr>, st1)"
        unfolding fall [OF f0] dynamic_unsupported [OF miss a b]
          respond_invalid [OF invalid_result_invalid]
        by simp
  qed
  from c1 c2 u r hit_valid hit_invalid int_first int_none ind_first ind_none unsupported
  show "calls st1 = calls st @ [direct_url e (parseTicker uc T)]
     \<and> tickerCache st1 = tickerCache st
     \<and> (d = Some data \<and> symbol_unknown data \<longrightarrow>
           GET uc e T st
             = (\<lparr> status = 404,
                 body = Obj [(''error'',
                   Str ''Stock ticker not found. Please check the symbol and try again.'')] \<rparr>, st1))
     \<and> (d = Some data \<and> rate_limited data \<longrightarrow>
           GET uc e T st
             = (\<lparr> status = 429,
                 body = Obj [(''error'',
                   Str ''API rate limit reached. Please try again later.'')] \<rparr>, st1))
     \<and> ((d = None \<or> (d = Some data \<and> \<not> direct_quote data \<and> \<not> symbol_unknown data
                        \<and> \<not> rate_limited data)) \<and> cache_hit (symbol (parseTicker uc T)) st1 = Some c \<and> cvalid c \<longrightarrow>
           GET uc e T st
             = (\<lparr> status = 200,
                 body = Obj [(''ticker'', Str (fullTicker (parseTicker uc T))),
                             (''symbol'', Str (symbol (parseTicker uc T))),
                             (''exchange'', (case exchange (parseTicker uc T) of None \<Rightarrow> Undefined | Some x \<Rightarrow> Str x)),
                             (''price'', cprice c),
                             (''timestamp'', Str (toISOString (clock st1))),
                             (''source'', Str ''cache'')] \<rparr>, st1))
     \<and> ((d = None \<or> (d = Some data \<and> \<not> direct_quote data \<and> \<not> symbol_unknown data
                        \<and> \<not> rate_limited data)) \<and> cache_hit (symbol (parseTicker uc T)) st1 = Some c \<and> \<not> cvalid c \<longrightarrow>
           GET uc e T st
             = (\<lparr> status = 404,
                 body = Obj [(''error'',
                   Str ''Stock ticker not found. Please check the symbol and try again.'')] \<rparr>, st1))
     \<and> ((d = None \<or> (d = Some data \<and> \<not> direct_quote data \<and> \<not> symbol_unknown data
                        \<and> \<not> rate_limited data)) \<and> cache_hit (symbol (parseTicker uc T)) st1 = None
          \<and> isInternationalApiSupported (exchange (parseTicker uc T))
          \<and> validationMethods e (symbol (parseTicker uc T)) = pre @ m # post
          \<and> all_fail accepts_international pre st1 = Some sk \<and> m sk = (Some r, s')
          \<and> source r = Some src \<longrightarrow>
           GET uc e T st
             = (\<lparr> status = 200,
                 body = Obj [(''ticker'', Str (fullTicker (parseTicker uc T))),
                             (''symbol'', Str (symbol (parseTicker uc T))),
                             (''exchange'', (case exchange (parseTicker uc T) of None \<Rightarrow> Undefined | Some x \<Rightarrow> Str x)),
                             (''price'', price r),
                             (''timestamp'', Str (toISOString (clock s'))),
                             (''source'', Str src)] \<rparr>,
                s'\<lparr> tickerCache := (tickerCache s')(symbol (parseTicker uc T) \<mapsto>
                   \<lparr> cvalid = True, cprice = price r, ctimestamp = clock s' \<rparr>) \<rparr>))
     \<and> ((d = None \<or> (d = Some data \<and> \<not> direct_quote data \<and> \<not> symbol_unknown data
                        \<and> \<not> rate_limited data)) \<and> cache_hit (symbol (parseTicker uc T)) st1 = None
          \<and> isInternationalApiSupported (exchange (parseTicker uc T))
          \<and> all_fail accepts_international (validationMethods e (symbol (parseTicker uc T))) st1 = Some s3 \<longrightarrow>
           GET uc e T st
             = (\<lparr> status = 404,
                 body = Obj [(''error'',
                   Str ''Stock ticker not found. Please check the symbol and try again.'')] \<rparr>,
                s3\<lparr> tickerCache := (tickerCache s3)(symbol (parseTicker uc T) \<mapsto>
                   \<lparr> cvalid = False, cprice = Undefined, ctimestamp = clock s3 \<rparr>) \<rparr>))
     \<and> ((d = None \<or> (d = Some data \<and> \<not> direct_quote data \<and> \<not> symbol_unknown data
                        \<and> \<not> rate_limited data)) \<and> cache_hit (symbol (parseTicker uc T)) st1 = None
          \<and> exchange (parseTicker uc T) = Some x \<and> js_includes indianExchanges x
          \<and> indianApis e (symbol (parseTicker uc T)) x = pre @ m # post
          \<and> all_fail accepts_indian pre st1 = Some sk \<and> m sk = (Some r, s')
          \<and> truthy (price r) \<and> source r = Some src \<longrightarrow>
           GET uc e T st
             = (\<lparr> status = 200,
                 body = Obj [(''ticker'', Str (fullTicker (parseTicker uc T))),
                             (''symbol'', Str (symbol (parseTicker uc T))),
                             (''exchange'', Str x),
                             (''price'', price r),
                             (''timestamp'', Str (toISOString (clock s'))),
                             (''source'', Str src)] \<rparr>,
                s'\<lparr> tickerCache := (tickerCache s')(symbol (parseTicker uc T) \<mapsto>
                   \<lparr> cvalid = True, cprice = price r, ctimestamp = clock s' \<rparr>) \<rparr>))
     \<and> ((d = None \<or> (d = Some data \<and> \<not> direct_quote data \<and> \<not> symbol_unknown data
                        \<and> \<not> rate_limited data)) \<and> cache_hit (symbol (parseTicker uc T)) st1 = None
          \<and> exchange (parseTicker uc T) = Some x \<and> js_includes indianExchanges x
          \<and> all_fail accepts_indian (indianApis e (symbol (parseTicker uc T)) x) st1 = Some s3 \<longrightarrow>
           GET uc e T st
             = (\<lparr> status = 404,
                 body = Obj [(''error'',
                   Str ''Stock ticker not found. Please check the symbol and try again.'')] \<rparr>,
                s3\<lparr> tickerCache := (tickerCache s3)(symbol (parseTicker uc T) \<mapsto>
                   \<lparr> cvalid = False, cprice = Undefined, ctimestamp = clock s3 \<rparr>) \<rparr>))
     \<and> ((d = None \<or> (d = Some data \<and> \<not> direct_quote data \<and> \<not> symbol_unknown data
                        \<and> \<not> rate_limited data)) \<and> cache_hit (symbol (parseTicker uc T)) st1 = None
          \<and> \<not> isInternationalApiSupported (exchange (parseTicker uc T))
          \<and> \<not> exchange_in indianExchanges (exchange (parseTicker uc T)) \<longrightarrow>
           GET uc e T st
             = (\<lparr> status = 404,
                 body = Obj [(''error'',
                   Str ''Stock ticker not found. Please check the symbol and try again.'')] \<rparr>, st1))"
    by blast
qed

text \<open>
  The example network with the key \<open>K1\<close>, from an empty cache with no call made: \<open>NOPE\<close> is
  reported unknown and answered 404 after the one call, \<open>IBM\<close> is throttled and answered 429
  after the one call, and the request for \<open>MSFT\<close> is rejected, after which the demo
  Alpha Vantage adapter is rejected too and Yahoo Finance answers: 200 with Yahoo's price,
  three calls, and the price in the cache.
\<close>

theorem direct_attempt_short_circuits_witness:
  "\<not> demo_mode keyed_env
   \<and> isValidTickerFormat example_upper ''NOPE'' \<and> isValidTickerFormat example_upper ''IBM''
   \<and> isValidTickerFormat example_upper ''MSFT''
   \<and> st0 = \<lparr> tickerCache = Map.empty, clock = 1705314600000, calls = [] \<rparr>
   \<and> GET example_upper keyed_env ''NOPE'' st0
       = (\<lparr> status = 404,
            body = Obj [(''error'',
              Str ''Stock ticker not found. Please check the symbol and try again.'')] \<rparr>,
          \<lparr> tickerCache = Map.empty,
             clock = 1705314600120,
             calls = [''https://www.alphavantage.co/query?function=GLOBAL_QUOTE&symbol=NOPE&apikey=K1''] \<rparr>)
   \<and> GET example_upper keyed_env ''IBM'' st0
       = (\<lparr> status = 429,
            body = Obj [(''error'',
              Str ''API rate limit reached. Please try again later.'')] \<rparr>,
          \<lparr> tickerCache = Map.empty,
             clock = 1705314600120,
             calls = [''https://www.alphavantage.co/query?function=GLOBAL_QUOTE&symbol=IBM&apikey=K1''] \<rparr>)
   \<and> GET example_upper keyed_env ''MSFT'' st0
       = (\<lparr> status = 200,
                 body = Obj [(''ticker'', Str (''MSFT'')),
                             (''symbol'', Str (''MSFT'')),
                             (''exchange'', Undefined),
                             (''price'', Num (Fin (821 / 2))),
                             (''timestamp'', Str (toISOString (1705314606120))),
                             (''source'', Str ''Yahoo Finance'')] \<rparr>,
          \<lparr> tickerCache = [''MSFT'' \<mapsto> \<lparr> cvalid = True, cprice = Num (Fin (821 / 2)),
                                        ctimestamp = 1705314606120 \<rparr>],
             clock = 1705314606120,
             calls = [''https://www.alphavantage.co/query?function=GLOBAL_QUOTE&symbol=MSFT&apikey=K1'',
                      ''https://www.alphavantage.co/query?function=GLOBAL_QUOTE&symbol=MSFT&apikey=demo'',
                      ''https://query1.finance.yahoo.com/v8/finance/chart/MSFT''] \<rparr>)"
proof -
  have p: "parseTicker example_upper ''NOPE'' = \<lparr> exchange = None, symbol = ''NOPE'', fullTicker = ''NOPE'' \<rparr>"
    "parseTicker example_upper ''IBM'' = \<lparr> exchange = None, symbol = ''IBM'', fullTicker = ''IBM'' \<rparr>"
    "parseTicker example_upper ''MSFT'' = \<lparr> exchange = None, symbol = ''MSFT'', fullTicker = ''MSFT'' \<rparr>"
    by code_simp+
  have v: "isValidTickerFormat example_upper ''NOPE''" "isValidTickerFormat example_upper ''IBM''"
    "isValidTickerFormat example_upper ''MSFT''"
    by code_simp+
  have f1: "fetch_json keyed_env (direct_url keyed_env (parseTicker example_upper ''NOPE'')) st0
      = (Some (Obj [(''Error Message'', Str ''Invalid API call.'')]),
         st0\<lparr> clock := 1705314600120,
              calls := [''https://www.alphavantage.co/query?function=GLOBAL_QUOTE&symbol=NOPE&apikey=K1''] \<rparr>)"
    unfolding p by (simp add: handler_defs adapter_defs example_defs st0_def)
  have f2: "fetch_json keyed_env (direct_url keyed_env (parseTicker example_upper ''IBM'')) st0
      = (Some (Obj [(''Information'', Str ''Rate limit reached.'')]),
         st0\<lparr> clock := 1705314600120,
              calls := [''https://www.alphavantage.co/query?function=GLOBAL_QUOTE&symbol=IBM&apikey=K1''] \<rparr>)"
    unfolding p by (simp add: handler_defs adapter_defs example_defs st0_def)
  have f3: "fetch_json keyed_env (direct_url keyed_env (parseTicker example_upper ''MSFT'')) st0
      = (None,
         st0\<lparr> clock := 1705314603000,
              calls := [''https://www.alphavantage.co/query?function=GLOBAL_QUOTE&symbol=MSFT&apikey=K1''] \<rparr>)"
    unfolding p by (simp add: handler_defs adapter_defs example_defs st0_def)
  have u: "symbol_unknown (Obj [(''Error Message'', Str ''Invalid API call.'')])"
    by (simp add: symbol_unknown_def no_quote_def global_quote_price_def opt_member_def)
  have r: "rate_limited (Obj [(''Information'', Str ''Rate limit reached.'')])"
    by (simp add: rate_limited_def no_quote_def global_quote_price_def opt_member_def)
  have miss: "cache_hit (symbol (parseTicker example_upper ''MSFT''))
        (st0\<lparr> clock := 1705314603000,
              calls := [''https://www.alphavantage.co/query?function=GLOBAL_QUOTE&symbol=MSFT&apikey=K1''] \<rparr>) = None"
    by (simp add: cache_hit_def st0_def)
  have int: "isInternationalApiSupported (exchange (parseTicker example_upper ''MSFT''))"
    by (simp add: p resolver_defs)
  have l: "validationMethods keyed_env (symbol (parseTicker example_upper ''MSFT''))
      = [validateWithAlphaVantageDemo keyed_env ''MSFT'']
        @ validateWithYahooFinance keyed_env ''MSFT''
        # [validateWithPolygonDemo keyed_env ''MSFT'']"
    by (simp add: p validationMethods_def)
  have a1: "all_fail accepts_international [validateWithAlphaVantageDemo keyed_env ''MSFT'']
        (st0\<lparr> clock := 1705314603000,
              calls := [''https://www.alphavantage.co/query?function=GLOBAL_QUOTE&symbol=MSFT&apikey=K1''] \<rparr>)
      = Some (st0\<lparr> clock := 1705314606000,
              calls := [''https://www.alphavantage.co/query?function=GLOBAL_QUOTE&symbol=MSFT&apikey=K1'',
                        ''https://www.alphavantage.co/query?function=GLOBAL_QUOTE&symbol=MSFT&apikey=demo''] \<rparr>)"
    by (simp add: adapter_defs example_defs st0_def)
  have b1: "validateWithYahooFinance keyed_env ''MSFT''
        (st0\<lparr> clock := 1705314606000,
              calls := [''https://www.alphavantage.co/query?function=GLOBAL_QUOTE&symbol=MSFT&apikey=K1'',
                        ''https://www.alphavantage.co/query?function=GLOBAL_QUOTE&symbol=MSFT&apikey=demo''] \<rparr>)
      = (Some \<lparr> valid = True, price = Num (Fin (821 / 2)), source = Some ''Yahoo Finance'' \<rparr>,
         st0\<lparr> clock := 1705314606120,
              calls := [''https://www.alphavantage.co/query?function=GLOBAL_QUOTE&symbol=MSFT&apikey=K1'',
                        ''https://www.alphavantage.co/query?function=GLOBAL_QUOTE&symbol=MSFT&apikey=demo'',
                        ''https://query1.finance.yahoo.com/v8/finance/chart/MSFT''] \<rparr>)"
    by (simp add: adapter_defs example_defs st0_def)
  from direct_attempt_short_circuits
    [where uc = example_upper and e = keyed_env and T = "''NOPE''" and st = st0
       and data = "Obj [(''Error Message'', Str ''Invalid API call.'')]"]
    keyed_env_keyed v(1) f1 u
  have a: "GET example_upper keyed_env ''NOPE'' st0
       = (\<lparr> status = 404,
            body = Obj [(''error'',
              Str ''Stock ticker not found. Please check the symbol and try again.'')] \<rparr>,
          \<lparr> tickerCache = Map.empty,
             clock = 1705314600120,
             calls = [''https://www.alphavantage.co/query?function=GLOBAL_QUOTE&symbol=NOPE&apikey=K1''] \<rparr>)"
    by (simp add: st0_def)
  from direct_attempt_short_circuits
    [where uc = example_upper and e = keyed_env and T = "''IBM''" and st = st0
       and data = "Obj [(''Information'', Str ''Rate limit reached.'')]"]
    keyed_env_keyed v(2) f2 r
  have b: "GET example_upper keyed_env ''IBM'' st0
       = (\<lparr> status = 429,
            body = Obj [(''error'',
              Str ''API rate limit reached. Please try again later.'')] \<rparr>,
          \<lparr> tickerCache = Map.empty,
             clock = 1705314600120,
             calls = [''https://www.alphavantage.co/query?function=GLOBAL_QUOTE&symbol=IBM&apikey=K1''] \<rparr>)"
    by (simp add: st0_def)
  from direct_attempt_short_circuits
    [where uc = example_upper and e = keyed_env and T = "''MSFT''" and st = st0
       and pre = "[validateWithAlphaVantageDemo keyed_env ''MSFT'']"
       and m = "validateWithYahooFinance keyed_env ''MSFT''"
       and post = "[validateWithPolygonDemo keyed_env ''MSFT'']"
       and r = "\<lparr> valid = True, price = Num (Fin (821 / 2)), source = Some ''Yahoo Finance'' \<rparr>"
       and src = "''Yahoo Finance''"]
    keyed_env_keyed v(3) f3 miss int l a1 b1
  have c: "GET example_upper keyed_env ''MSFT'' st0
       = (\<lparr> status = 200,
                 body = Obj [(''ticker'', Str (''MSFT'')),
                             (''symbol'', Str (''MSFT'')),
                             (''exchange'', Undefined),
                             (''price'', Num (Fin (821 / 2))),
                             (''timestamp'', Str (toISOString (1705314606120))),
                             (''source'', Str ''Yahoo Finance'')] \<rparr>,
          \<lparr> tickerCache = [''MSFT'' \<mapsto> \<lparr> cvalid = True, cprice = Num (Fin (821 / 2)),
                                        ctimestamp = 1705314606120 \<rparr>],
             clock = 1705314606120,
             calls = [''https://www.alphavantage.co/query?function=GLOBAL_QUOTE&symbol=MSFT&apikey=K1'',
                      ''https://www.alphavantage.co/query?function=GLOBAL_QUOTE&symbol=MSFT&apikey=demo'',
                      ''https://query1.finance.yahoo.com/v8/finance/chart/MSFT''] \<rparr>)"
    by (simp add: p st0_def)
  show ?thesis
    using keyed_env_keyed v a b c by (simp add: st0_def)
qed

section \<open>C3: malformed tickers are rejected before anything else\<close>

lemma isValidTickerFormat_iff:
  "isValidTickerFormat uc input \<longleftrightarrow>
     (if exchange_in indianExchanges (exchange (parseTicker uc input))
      then matches_AZ 10 (symbol (parseTicker uc input))
      else matches_AZ 5 (symbol (parseTicker uc input)))
     \<and> (exchange_truthy (exchange (parseTicker uc input)) \<longrightarrow>
          exchange_in validExchanges (exchange (parseTicker uc input)))"
  by (auto simp: isValidTickerFormat_def Let_def exchange_in_def js_includes_def
        indianExchanges_def split: option.splits)

lemma GET_invalid:
  "\<not> isValidTickerFormat uc input \<Longrightarrow>
   GET uc e input st
     = (\<lparr> status = 400,
          body = Obj [(''error'',
                       Str ''Invalid ticker format. Use formats like 'AAPL' or 'NASDAQ:AAPL'.'')] \<rparr>,
        st)"
  by (simp add: GET_def Let_def response_defs)

text \<open>
  Claim C3, as amended. With exchange and symbol as \<open>parseTicker\<close> extracts them, an input
  fails format validation exactly when the symbol does not match \<open>^[A-Z]{1,10}$\<close> under an
  Indian exchange prefix, or does not match \<open>^[A-Z]{1,5}$\<close> otherwise, or a non-empty
  exchange prefix lies outside the recognised list. For every such input \<open>GET\<close> answers 400
  at once, with the error text of the source, and leaves the state as it was: no cache read
  or write, no provider call. An empty prefix (an input that starts with a colon) counts as
  no exchange and is not rejected. The statement holds for every case table \<open>uc\<close>, so also
  where upper-casing turns a character outside ASCII into capital letters.
\<close>

theorem invalid_format_rejected:
  "(\<not> isValidTickerFormat uc input \<longleftrightarrow>
      (if exchange_in indianExchanges (exchange (parseTicker uc input))
       then \<not> matches_AZ 10 (symbol (parseTicker uc input))
       else \<not> matches_AZ 5 (symbol (parseTicker uc input)))
      \<or> (\<exists>x. exchange (parseTicker uc input) = Some x \<and> x \<noteq> [] \<and> \<not> js_includes validExchanges x))
   \<and> (\<not> isValidTickerFormat uc input \<longrightarrow>
        GET uc e input st
          = (\<lparr> status = 400,
               body = Obj [(''error'',
                 Str ''Invalid ticker format. Use formats like 'AAPL' or 'NASDAQ:AAPL'.'')] \<rparr>,
             st))"
proof (intro conjI impI)
  show "\<not> isValidTickerFormat uc input \<longleftrightarrow>
      (if exchange_in indianExchanges (exchange (parseTicker uc input))
       then \<not> matches_AZ 10 (symbol (parseTicker uc input))
       else \<not> matches_AZ 5 (symbol (parseTicker uc input)))
      \<or> (\<exists>x. exchange (parseTicker uc input) = Some x \<and> x \<noteq> [] \<and> \<not> js_includes validExchanges x)"
    unfolding isValidTickerFormat_iff
    by (cases "exchange (parseTicker uc input)") (auto simp: exchange_truthy_def exchange_in_def)
next
  assume "\<not> isValidTickerFormat uc input"
  then show "GET uc e input st
          = (\<lparr> status = 400,
               body = Obj [(''error'',
                 Str ''Invalid ticker format. Use formats like 'AAPL' or 'NASDAQ:AAPL'.'')] \<rparr>,
             st)"
    by (rule GET_invalid)
qed

text \<open>\<open>XYZ123\<close> (a digit in the symbol) and \<open>FOO:AAPL\<close> (an unknown exchange) are rejected.\<close>

theorem invalid_format_rejected_witness:
  "\<not> isValidTickerFormat example_upper ''XYZ123''
   \<and> GET example_upper demo_env ''XYZ123'' st0
       = (\<lparr> status = 400,
            body = Obj [(''error'',
              Str ''Invalid ticker format. Use formats like 'AAPL' or 'NASDAQ:AAPL'.'')] \<rparr>,
          st0)
   \<and> \<not> isValidTickerFormat example_upper ''FOO:AAPL''
   \<and> GET example_upper demo_env ''FOO:AAPL'' st0
       = (\<lparr> status = 400,
            body = Obj [(''error'',
              Str ''Invalid ticker format. Use formats like 'AAPL' or 'NASDAQ:AAPL'.'')] \<rparr>,
          st0)"
proof -
  have a: "\<not> isValidTickerFormat example_upper ''XYZ123''" by code_simp
  have b: "\<not> isValidTickerFormat example_upper ''FOO:AAPL''" by code_simp
  show ?thesis
    using a b
      invalid_format_rejected [where uc = example_upper and input = "''XYZ123''"
        and e = demo_env and st = st0]
      invalid_format_rejected [where uc = example_upper and input = "''FOO:AAPL''"
        and e = demo_env and st = st0]
    by blast
qed

text \<open>
  Claim C3 as stated fails at \<open>:AAPL\<close>: the parsed exchange is present, empty, and outside
  the recognised list, yet the input passes validation and is resolved as \<open>AAPL\<close> with a
  provider call.
\<close>

theorem empty_prefix_counterexample:
  "exchange (parseTicker example_upper '':AAPL'') = Some []
   \<and> \<not> js_includes validExchanges []
   \<and> isValidTickerFormat example_upper '':AAPL''
   \<and> status (fst (GET example_upper demo_env '':AAPL'' st0)) = 200
   \<and> calls (snd (GET example_upper demo_env '':AAPL'' st0))
       = [''https://www.alphavantage.co/query?function=GLOBAL_QUOTE&symbol=AAPL&apikey=demo'']"
proof -
  have p: "parseTicker example_upper '':AAPL''
             = \<lparr> exchange = Some [], symbol = ''AAPL'', fullTicker = '':AAPL'' \<rparr>"
    by code_simp
  have v: "isValidTickerFormat example_upper '':AAPL''" by code_simp
  have w: "\<not> js_includes validExchanges []" by code_simp
  have g: "status (fst (GET example_upper demo_env '':AAPL'' st0)) = 200
           \<and> calls (snd (GET example_upper demo_env '':AAPL'' st0))
               = [''https://www.alphavantage.co/query?function=GLOBAL_QUOTE&symbol=AAPL&apikey=demo'']"
    unfolding GET_demo [OF demo_env_demo v] p
    by (simp add: handler_defs resolver_defs adapter_defs example_defs parseFloat_defs
          response_defs st0_def)
  show ?thesis using p v w g by simp
qed

text \<open>
  Validation looks at the upper-cased input: the sharp s (bytes \<open>C3 9F\<close>) becomes \<open>SS\<close>,
  passes the symbol pattern and is looked up at the providers.
\<close>

lemma sharp_s_accepted:
  "parseTicker example_upper [CHR 0xC3, CHR 0x9F]
     = \<lparr> exchange = None, symbol = ''SS'', fullTicker = ''SS'' \<rparr>
   \<and> isValidTickerFormat example_upper [CHR 0xC3, CHR 0x9F]
   \<and> status (fst (GET example_upper demo_env [CHR 0xC3, CHR 0x9F] st0)) = 404
   \<and> calls (snd (GET example_upper demo_env [CHR 0xC3, CHR 0x9F] st0))
       = [''https://www.alphavantage.co/query?function=GLOBAL_QUOTE&symbol=SS&apikey=demo'',
          ''https://query1.finance.yahoo.com/v8/finance/chart/SS'',
          ''https://api.polygon.io/v2/last/trade/SS?apikey=demo'']"
proof -
  have p: "parseTicker example_upper [CHR 0xC3, CHR 0x9F]
             = \<lparr> exchange = None, symbol = ''SS'', fullTicker = ''SS'' \<rparr>"
    by code_simp
  have v: "isValidTickerFormat example_upper [CHR 0xC3, CHR 0x9F]" by code_simp
  have g: "status (fst (GET example_upper demo_env [CHR 0xC3, CHR 0x9F] st0)) = 404
           \<and> calls (snd (GET example_upper demo_env [CHR 0xC3, CHR 0x9F] st0))
       = [''https://www.alphavantage.co/query?function=GLOBAL_QUOTE&symbol=SS&apikey=demo'',
          ''https://query1.finance.yahoo.com/v8/finance/chart/SS'',
          ''https://api.polygon.io/v2/last/trade/SS?apikey=demo'']"
    unfolding GET_demo [OF demo_env_demo v] p
    by (simp add: handler_defs resolver_defs adapter_defs example_defs parseFloat_defs
          response_defs st0_def)
  show ?thesis using p v g by simp
qed

section \<open>C4: the adapters are tried in their declared order\<close>

lemma all_fail_single: "all_fail accepts [m] st = Some s1 \<Longrightarrow> snd (m st) = s1"
  by (cases "m st") (auto split: option.splits if_splits)

lemma yahoo_second:
  assumes miss: "cache_hit t st = None" and int: "isInternationalApiSupported ex"
    and a: "validateWithAlphaVantageDemo e t st = (None, s1)"
    and b: "validateWithYahooFinance e t s1 = (Some r, s2)"
  shows "validateTickerDynamically e t ex st = (r, cache_set t True (price r) s2)"
    and "source r = Some ''Yahoo Finance''"
    and "valid r"
    and "calls s2
           = calls st @ [ALPHA_VANTAGE_BASE_URL @ ''?function=GLOBAL_QUOTE&symbol='' @ t
                           @ ''&apikey=demo'',
                         ''https://query1.finance.yahoo.com/v8/finance/chart/'' @ t]"
proof -
  from b show v: "valid r" and "source r = Some ''Yahoo Finance''"
    unfolding validateWithYahooFinance_def by (auto dest: quote_from_Some)
  from a have a': "all_fail accepts_international [validateWithAlphaVantageDemo e t] st = Some s1"
    by simp
  from try_validationMethods_first
         [where m = "validateWithYahooFinance e t" and post = "[validateWithPolygonDemo e t]"
            and t = t, OF a' b] v
  show "validateTickerDynamically e t ex st = (r, cache_set t True (price r) s2)"
    by (simp add: validateTickerDynamically_international [OF miss int] validationMethods_def
          accepts_international_def)
  from a have "calls s1 = calls st @ [ALPHA_VANTAGE_BASE_URL @ ''?function=GLOBAL_QUOTE&symbol=''
                                        @ t @ ''&apikey=demo'']"
    unfolding validateWithAlphaVantageDemo_def by (rule adapter_calls)
  moreover from b have "calls s2
      = calls s1 @ [''https://query1.finance.yahoo.com/v8/finance/chart/'' @ t]"
    unfolding validateWithYahooFinance_def by (rule adapter_calls)
  ultimately show "calls s2
           = calls st @ [ALPHA_VANTAGE_BASE_URL @ ''?function=GLOBAL_QUOTE&symbol='' @ t
                           @ ''&apikey=demo'',
                         ''https://query1.finance.yahoo.com/v8/finance/chart/'' @ t]"
    by simp
qed

lemma yahoo_india_second:
  assumes miss: "cache_hit t st = None" and ind: "js_includes indianExchanges x"
    and demo: "demo_mode e"
    and a: "all_fail accepts_indian [fetchFromAlphaVantageIndian e t x] st = Some s1"
    and b: "fetchFromYahooFinanceIndian e t x s1 = (Some r, s2)"
    and p: "truthy (price r)"
  shows "validateTickerDynamically e t (Some x) st = (r, cache_set t True (price r) s2)"
    and "source r = Some ''Yahoo Finance India''"
    and "valid r"
    and "calls s2
           = calls st @ [ALPHA_VANTAGE_BASE_URL @ ''?function=GLOBAL_QUOTE&symbol='' @ t
                           @ exchange_suffix x @ ''&apikey=demo'',
                         ''https://query1.finance.yahoo.com/v8/finance/chart/'' @ t
                           @ exchange_suffix x]"
proof -
  from b have sfx: "exchange_suffix x \<noteq> []"
    by (auto simp: fetchFromYahooFinanceIndian_def Let_def split: if_splits)
  with b have q: "quote_from regularMarketPrice asis ''Yahoo Finance India''
      (fetch_json e (''https://query1.finance.yahoo.com/v8/finance/chart/'' @ t
                       @ exchange_suffix x) s1) = (Some r, s2)"
    by (simp add: fetchFromYahooFinanceIndian_def Let_def)
  from q show v: "valid r" and "source r = Some ''Yahoo Finance India''"
    by (auto dest: quote_from_Some)
  from try_indianApis_first
         [where m = "fetchFromYahooFinanceIndian e t x" and post = "[fetchFromNSEAPI e t x]"
            and t = t, OF a b] v p
  show "validateTickerDynamically e t (Some x) st = (r, cache_set t True (price r) s2)"
    by (simp add: validateTickerDynamically_indian [OF miss indian_not_international [OF ind]]
          validateIndianStock_loop [OF ind] indianApis_def accepts_indian_def)
  from all_fail_single [OF a] sfx demo_key [OF demo]
  have "calls s1 = calls st @ [ALPHA_VANTAGE_BASE_URL @ ''?function=GLOBAL_QUOTE&symbol='' @ t
                                 @ exchange_suffix x @ ''&apikey=demo'']"
    by (auto simp: fetchFromAlphaVantageIndian_def Let_def adapter_state)
  moreover from q have "calls s2
      = calls s1 @ [''https://query1.finance.yahoo.com/v8/finance/chart/'' @ t
                      @ exchange_suffix x]"
    by (rule adapter_calls)
  ultimately show "calls s2
           = calls st @ [ALPHA_VANTAGE_BASE_URL @ ''?function=GLOBAL_QUOTE&symbol='' @ t
                           @ exchange_suffix x @ ''&apikey=demo'',
                         ''https://query1.finance.yahoo.com/v8/finance/chart/'' @ t
                           @ exchange_suffix x]"
    by simp
qed

text \<open>
  Claim C4. Both loops walk their list from the front: if the adapters before \<open>m\<close> all
  fail (throw, or return a result the loop does not accept) and \<open>m\<close> returns an accepted
  result, the loop returns that result and leaves the state in which \<open>m\<close> ended, with one
  change: the cache maps the ticker to a valid entry holding the price of the result and the
  time of that state. The adapters that follow \<open>m\<close> in the list play no part; they are not
  run. In particular, in demo mode with no unexpired cache entry: on the international
  route, if Alpha Vantage fails and Yahoo Finance succeeds, \<open>GET\<close> answers 200 with the six
  fields of the success body, Yahoo's price and the source \<open>Yahoo Finance\<close>, stores that
  price under the symbol, and has fetched exactly the Alpha Vantage URL and then the Yahoo
  URL, never the Polygon one; on the Indian route the same holds for Alpha Vantage India and
  Yahoo Finance India, and the NSE endpoint is never fetched.
\<close>

theorem adapters_in_declared_order:
  "(all_fail accepts_international pre st = Some sk \<and> m sk = (Some r, s')
      \<and> accepts_international r \<longrightarrow>
      try_validationMethods (pre @ m # post) t st
        = (r, s'\<lparr> tickerCache := (tickerCache s')(t \<mapsto>
                 \<lparr> cvalid = True, cprice = price r, ctimestamp = clock s' \<rparr>) \<rparr>))
   \<and> (all_fail accepts_indian pre st = Some sk \<and> m sk = (Some r, s') \<and> accepts_indian r \<longrightarrow>
      try_indianApis (pre @ m # post) t st
        = (r, s'\<lparr> tickerCache := (tickerCache s')(t \<mapsto>
                 \<lparr> cvalid = True, cprice = price r, ctimestamp = clock s' \<rparr>) \<rparr>))
   \<and> (demo_mode e \<and> isValidTickerFormat uc T
        \<and> isInternationalApiSupported (exchange (parseTicker uc T))
        \<and> cache_hit (symbol (parseTicker uc T)) st = None
        \<and> validateWithAlphaVantageDemo e (symbol (parseTicker uc T)) st = (None, s1)
        \<and> validateWithYahooFinance e (symbol (parseTicker uc T)) s1 = (Some r, s2) \<longrightarrow>
        GET uc e T st
          = (\<lparr> status = 200,
               body = Obj [(''ticker'', Str (fullTicker (parseTicker uc T))),
                           (''symbol'', Str (symbol (parseTicker uc T))),
                           (''exchange'', (case exchange (parseTicker uc T) of None \<Rightarrow> Undefined | Some x \<Rightarrow> Str x)),
                           (''price'', price r),
                           (''timestamp'', Str (toISOString (clock s2))),
                           (''source'', Str ''Yahoo Finance'')] \<rparr>,
             s2\<lparr> tickerCache := (tickerCache s2)(symbol (parseTicker uc T) \<mapsto>
                 \<lparr> cvalid = True, cprice = price r, ctimestamp = clock s2 \<rparr>) \<rparr>)
        \<and> calls s2
            = calls st @ [''https://www.alphavantage.co/query?function=GLOBAL_QUOTE&symbol=''
                            @ symbol (parseTicker uc T) @ ''&apikey=demo'',
                          ''https://query1.finance.yahoo.com/v8/finance/chart/''
                            @ symbol (parseTicker uc T)])
   \<and> (demo_mode e \<and> isValidTickerFormat uc T
        \<and> exchange (parseTicker uc T) = Some x \<and> js_includes indianExchanges x
        \<and> cache_hit (symbol (parseTicker uc T)) st = None
        \<and> all_fail accepts_indian
             [fetchFromAlphaVantageIndian e (symbol (parseTicker uc T)) x] st = Some s1
        \<and> fetchFromYahooFinanceIndian e (symbol (parseTicker uc T)) x s1 = (Some r, s2)
        \<and> truthy (price r) \<longrightarrow>
        GET uc e T st
          = (\<lparr> status = 200,
               body = Obj [(''ticker'', Str (fullTicker (parseTicker uc T))),
                           (''symbol'', Str (symbol (parseTicker uc T))),
                           (''exchange'', Str x),
                           (''price'', price r),
                           (''timestamp'', Str (toISOString (clock s2))),
                           (''source'', Str ''Yahoo Finance India'')] \<rparr>,
             s2\<lparr> tickerCache := (tickerCache s2)(symbol (parseTicker uc T) \<mapsto>
                 \<lparr> cvalid = True, cprice = price r, ctimestamp = clock s2 \<rparr>) \<rparr>)
        \<and> calls s2
            = calls st @ [''https://www.alphavantage.co/query?function=GLOBAL_QUOTE&symbol=''
                            @ symbol (parseTicker uc T) @ exchange_suffix x @ ''&apikey=demo'',
                          ''https://query1.finance.yahoo.com/v8/finance/chart/''
                            @ symbol (parseTicker uc T) @ exchange_suffix x])"
proof -
  have 1: "all_fail accepts_international pre st = Some sk \<and> m sk = (Some r, s')
      \<and> accepts_international r \<longrightarrow>
      try_validationMethods (pre @ m # post) t st
        = (r, s'\<lparr> tickerCache := (tickerCache s')(t \<mapsto>
                 \<lparr> cvalid = True, cprice = price r, ctimestamp = clock s' \<rparr>) \<rparr>)"
    using try_validationMethods_first [where pre = pre and st = st and sk = sk and m = m
        and r = r and s' = s' and post = post and t = t]
    by (simp add: cache_set_def)
  have 2: "all_fail accepts_indian pre st = Some sk \<and> m sk = (Some r, s') \<and> accepts_indian r \<longrightarrow>
      try_indianApis (pre @ m # post) t st
        = (r, s'\<lparr> tickerCache := (tickerCache s')(t \<mapsto>
                 \<lparr> cvalid = True, cprice = price r, ctimestamp = clock s' \<rparr>) \<rparr>)"
    using try_indianApis_first [where pre = pre and st = st and sk = sk and m = m
        and r = r and s' = s' and post = post and t = t]
    by (simp add: cache_set_def)
  have 3: "demo_mode e \<and> isValidTickerFormat uc T
        \<and> isInternationalApiSupported (exchange (parseTicker uc T))
        \<and> cache_hit (symbol (parseTicker uc T)) st = None
        \<and> validateWithAlphaVantageDemo e (symbol (parseTicker uc T)) st = (None, s1)
        \<and> validateWithYahooFinance e (symbol (parseTicker uc T)) s1 = (Some r, s2) \<longrightarrow>
        GET uc e T st
          = (\<lparr> status = 200,
               body = Obj [(''ticker'', Str (fullTicker (parseTicker uc T))),
                           (''symbol'', Str (symbol (parseTicker uc T))),
                           (''exchange'', (case exchange (parseTicker uc T) of None \<Rightarrow> Undefined | Some x \<Rightarrow> Str x)),
                           (''price'', price r),
                           (''timestamp'', Str (toISOString (clock s2))),
                           (''source'', Str ''Yahoo Finance'')] \<rparr>,
             s2\<lparr> tickerCache := (tickerCache s2)(symbol (parseTicker uc T) \<mapsto>
                 \<lparr> cvalid = True, cprice = price r, ctimestamp = clock s2 \<rparr>) \<rparr>)
        \<and> calls s2
            = calls st @ [''https://www.alphavantage.co/query?function=GLOBAL_QUOTE&symbol=''
                            @ symbol (parseTicker uc T) @ ''&apikey=demo'',
                          ''https://query1.finance.yahoo.com/v8/finance/chart/''
                            @ symbol (parseTicker uc T)]"
  proof (intro impI)
    assume h: "demo_mode e \<and> isValidTickerFormat uc T
        \<and> isInternationalApiSupported (exchange (parseTicker uc T))
        \<and> cache_hit (symbol (parseTicker uc T)) st = None
        \<and> validateWithAlphaVantageDemo e (symbol (parseTicker uc T)) st = (None, s1)
        \<and> validateWithYahooFinance e (symbol (parseTicker uc T)) s1 = (Some r, s2)"
    then have d: "demo_mode e" and f: "isValidTickerFormat uc T" by simp_all
    from h have y: "validateTickerDynamically e (symbol (parseTicker uc T))
          (exchange (parseTicker uc T)) st
        = (r, cache_set (symbol (parseTicker uc T)) True (price r) s2)"
      and s: "source r = Some ''Yahoo Finance''" and v: "valid r"
      and c: "calls s2
            = calls st @ [ALPHA_VANTAGE_BASE_URL @ ''?function=GLOBAL_QUOTE&symbol=''
                            @ symbol (parseTicker uc T) @ ''&apikey=demo'',
                          ''https://query1.finance.yahoo.com/v8/finance/chart/''
                            @ symbol (parseTicker uc T)]"
      using yahoo_second [of "symbol (parseTicker uc T)" st "exchange (parseTicker uc T)" e s1 r s2]
      by simp_all
    have n: "''Yahoo Finance'' \<noteq> []" by simp
    show "GET uc e T st
          = (\<lparr> status = 200,
               body = Obj [(''ticker'', Str (fullTicker (parseTicker uc T))),
                           (''symbol'', Str (symbol (parseTicker uc T))),
                           (''exchange'', (case exchange (parseTicker uc T) of None \<Rightarrow> Undefined | Some x \<Rightarrow> Str x)),
                           (''price'', price r),
                           (''timestamp'', Str (toISOString (clock s2))),
                           (''source'', Str ''Yahoo Finance'')] \<rparr>,
             s2\<lparr> tickerCache := (tickerCache s2)(symbol (parseTicker uc T) \<mapsto>
                 \<lparr> cvalid = True, cprice = price r, ctimestamp = clock s2 \<rparr>) \<rparr>)
        \<and> calls s2
            = calls st @ [''https://www.alphavantage.co/query?function=GLOBAL_QUOTE&symbol=''
                            @ symbol (parseTicker uc T) @ ''&apikey=demo'',
                          ''https://query1.finance.yahoo.com/v8/finance/chart/''
                            @ symbol (parseTicker uc T)]"
      unfolding GET_demo [OF d f] y respond_valid [OF v s n]
      using c by (simp add: cache_set_def ALPHA_VANTAGE_BASE_URL_def)
  qed
  have 4: "demo_mode e \<and> isValidTickerFormat uc T
        \<and> exchange (parseTicker uc T) = Some x \<and> js_includes indianExchanges x
        \<and> cache_hit (symbol (parseTicker uc T)) st = None
        \<and> all_fail accepts_indian
             [fetchFromAlphaVantageIndian e (symbol (parseTicker uc T)) x] st = Some s1
        \<and> fetchFromYahooFinanceIndian e (symbol (parseTicker uc T)) x s1 = (Some r, s2)
        \<and> truthy (price r) \<longrightarrow>
        GET uc e T st
          = (\<lparr> status = 200,
               body = Obj [(''ticker'', Str (fullTicker (parseTicker uc T))),
                           (''symbol'', Str (symbol (parseTicker uc T))),
                           (''exchange'', Str x),
                           (''price'', price r),
                           (''timestamp'', Str (toISOString (clock s2))),
                           (''source'', Str ''Yahoo Finance India'')] \<rparr>,
             s2\<lparr> tickerCache := (tickerCache s2)(symbol (parseTicker uc T) \<mapsto>
                 \<lparr> cvalid = True, cprice = price r, ctimestamp = clock s2 \<rparr>) \<rparr>)
        \<and> calls s2
            = calls st @ [''https://www.alphavantage.co/query?function=GLOBAL_QUOTE&symbol=''
                            @ symbol (parseTicker uc T) @ exchange_suffix x @ ''&apikey=demo'',
                          ''https://query1.finance.yahoo.com/v8/finance/chart/''
                            @ symbol (parseTicker uc T) @ exchange_suffix x]"
  proof (intro impI)
    assume h: "demo_mode e \<and> isValidTickerFormat uc T
        \<and> exchange (parseTicker uc T) = Some x \<and> js_includes indianExchanges x
        \<and> cache_hit (symbol (parseTicker uc T)) st = None
        \<and> all_fail accepts_indian
             [fetchFromAlphaVantageIndian e (symbol (parseTicker uc T)) x] st = Some s1
        \<and> fetchFromYahooFinanceIndian e (symbol (parseTicker uc T)) x s1 = (Some r, s2)
        \<and> truthy (price r)"
    then have d: "demo_mode e" and f: "isValidTickerFormat uc T"
      and x: "exchange (parseTicker uc T) = Some x" by simp_all
    from h have y: "validateTickerDynamically e (symbol (parseTicker uc T)) (Some x) st
        = (r, cache_set (symbol (parseTicker uc T)) True (price r) s2)"
      and s: "source r = Some ''Yahoo Finance India''" and v: "valid r"
      and c: "calls s2
            = calls st @ [ALPHA_VANTAGE_BASE_URL @ ''?function=GLOBAL_QUOTE&symbol=''
                            @ symbol (parseTicker uc T) @ exchange_suffix x @ ''&apikey=demo'',
                          ''https://query1.finance.yahoo.com/v8/finance/chart/''
                            @ symbol (parseTicker uc T) @ exchange_suffix x]"
      using yahoo_india_second [of "symbol (parseTicker uc T)" st x e s1 r s2]
      by simp_all
    have n: "''Yahoo Finance India'' \<noteq> []" by simp
    show "GET uc e T st
          = (\<lparr> status = 200,
               body = Obj [(''ticker'', Str (fullTicker (parseTicker uc T))),
                           (''symbol'', Str (symbol (parseTicker uc T))),
                           (''exchange'', Str x),
                           (''price'', price r),
                           (''timestamp'', Str (toISOString (clock s2))),
                           (''source'', Str ''Yahoo Finance India'')] \<rparr>,
             s2\<lparr> tickerCache := (tickerCache s2)(symbol (parseTicker uc T) \<mapsto>
                 \<lparr> cvalid = True, cprice = price r, ctimestamp = clock s2 \<rparr>) \<rparr>)
        \<and> calls s2
            = calls st @ [''https://www.alphavantage.co/query?function=GLOBAL_QUOTE&symbol=''
                            @ symbol (parseTicker uc T) @ exchange_suffix x @ ''&apikey=demo'',
                          ''https://query1.finance.yahoo.com/v8/finance/chart/''
                            @ symbol (parseTicker uc T) @ exchange_suffix x]"
      unfolding GET_demo [OF d f] x y respond_valid [OF v s n]
      using c x by (simp add: cache_set_def ALPHA_VANTAGE_BASE_URL_def)
  qed
  from 1 2 3 4 show ?thesis by blast
qed

text \<open>
  In the example network Alpha Vantage rejects \<open>MSFT\<close> and \<open>TCS.NS\<close>, and Yahoo answers
  both. Starting from an empty cache with no call made, each request ends with the answer,
  the cache and the list of calls written out below: two fetches each, in the declared
  order, Yahoo's price in the answer and in the cache.
\<close>

theorem adapters_in_declared_order_witness:
  "demo_mode demo_env \<and> isValidTickerFormat example_upper ''MSFT''
   \<and> isValidTickerFormat example_upper ''NSE:TCS''
   \<and> st0 = \<lparr> tickerCache = Map.empty, clock = 1705314600000, calls = [] \<rparr>
   \<and> fst (validateWithAlphaVantageDemo demo_env ''MSFT'' st0) = None
   \<and> GET example_upper demo_env ''MSFT'' st0
       = (\<lparr> status = 200,
               body = Obj [(''ticker'', Str (''MSFT'')),
                           (''symbol'', Str (''MSFT'')),
                           (''exchange'', Undefined),
                           (''price'', Num (Fin (821 / 2))),
                           (''timestamp'', Str (toISOString (1705314603120))),
                           (''source'', Str ''Yahoo Finance'')] \<rparr>,
          \<lparr> tickerCache = [''MSFT'' \<mapsto> \<lparr> cvalid = True, cprice = Num (Fin (821 / 2)),
                                        ctimestamp = 1705314603120 \<rparr>],
             clock = 1705314603120,
             calls = [''https://www.alphavantage.co/query?function=GLOBAL_QUOTE&symbol=MSFT&apikey=demo'',
                      ''https://query1.finance.yahoo.com/v8/finance/chart/MSFT''] \<rparr>)
   \<and> GET example_upper demo_env ''NSE:TCS'' st0
       = (\<lparr> status = 200,
               body = Obj [(''ticker'', Str (''NSE:TCS'')),
                           (''symbol'', Str (''TCS'')),
                           (''exchange'', Str ''NSE''),
                           (''price'', Num (Fin 3500)),
                           (''timestamp'', Str (toISOString (1705314603120))),
                           (''source'', Str ''Yahoo Finance India'')] \<rparr>,
          \<lparr> tickerCache = [''TCS'' \<mapsto> \<lparr> cvalid = True, cprice = Num (Fin 3500),
                                        ctimestamp = 1705314603120 \<rparr>],
             clock = 1705314603120,
             calls = [''https://www.alphavantage.co/query?function=GLOBAL_QUOTE&symbol=TCS.NS&apikey=demo'',
                      ''https://query1.finance.yahoo.com/v8/finance/chart/TCS.NS''] \<rparr>)"
proof -
  have p: "parseTicker example_upper ''MSFT'' = \<lparr> exchange = None, symbol = ''MSFT'', fullTicker = ''MSFT'' \<rparr>"
    "parseTicker example_upper ''NSE:TCS''
       = \<lparr> exchange = Some ''NSE'', symbol = ''TCS'', fullTicker = ''NSE:TCS'' \<rparr>"
    by code_simp+
  have v: "isValidTickerFormat example_upper ''MSFT''" "isValidTickerFormat example_upper ''NSE:TCS''"
    by code_simp+
  have i: "isInternationalApiSupported (exchange (parseTicker example_upper ''MSFT''))"
    "js_includes indianExchanges ''NSE''"
    by (simp_all add: p resolver_defs)
  have m: "cache_hit (symbol (parseTicker example_upper ''MSFT'')) st0 = None"
    "cache_hit (symbol (parseTicker example_upper ''NSE:TCS'')) st0 = None"
    by (simp_all add: cache_hit_def st0_def)
  have a1: "validateWithAlphaVantageDemo demo_env (symbol (parseTicker example_upper ''MSFT'')) st0
      = (None,
         st0\<lparr> clock := 1705314603000,
              calls := [''https://www.alphavantage.co/query?function=GLOBAL_QUOTE&symbol=MSFT&apikey=demo''] \<rparr>)"
    unfolding p by (simp add: adapter_defs example_defs st0_def)
  have b1: "validateWithYahooFinance demo_env (symbol (parseTicker example_upper ''MSFT''))
        (st0\<lparr> clock := 1705314603000,
              calls := [''https://www.alphavantage.co/query?function=GLOBAL_QUOTE&symbol=MSFT&apikey=demo''] \<rparr>)
      = (Some \<lparr> valid = True, price = Num (Fin (821 / 2)), source = Some ''Yahoo Finance'' \<rparr>,
         st0\<lparr> clock := 1705314603120,
              calls := [''https://www.alphavantage.co/query?function=GLOBAL_QUOTE&symbol=MSFT&apikey=demo'',
                        ''https://query1.finance.yahoo.com/v8/finance/chart/MSFT''] \<rparr>)"
    unfolding p by (simp add: adapter_defs example_defs st0_def)
  have a2: "all_fail accepts_indian
        [fetchFromAlphaVantageIndian demo_env (symbol (parseTicker example_upper ''NSE:TCS'')) ''NSE''] st0
      = Some (st0\<lparr> clock := 1705314603000,
              calls := [''https://www.alphavantage.co/query?function=GLOBAL_QUOTE&symbol=TCS.NS&apikey=demo''] \<rparr>)"
    unfolding p by (simp add: adapter_defs example_defs st0_def)
  have b2: "fetchFromYahooFinanceIndian demo_env (symbol (parseTicker example_upper ''NSE:TCS'')) ''NSE''
        (st0\<lparr> clock := 1705314603000,
              calls := [''https://www.alphavantage.co/query?function=GLOBAL_QUOTE&symbol=TCS.NS&apikey=demo''] \<rparr>)
      = (Some \<lparr> valid = True, price = Num (Fin 3500), source = Some ''Yahoo Finance India'' \<rparr>,
         st0\<lparr> clock := 1705314603120,
              calls := [''https://www.alphavantage.co/query?function=GLOBAL_QUOTE&symbol=TCS.NS&apikey=demo'',
                        ''https://query1.finance.yahoo.com/v8/finance/chart/TCS.NS''] \<rparr>)"
    unfolding p by (simp add: adapter_defs example_defs st0_def)
  note inst1 = adapters_in_declared_order
    [where uc = example_upper and e = demo_env and T = "''MSFT''" and st = st0
       and r = "\<lparr> valid = True, price = Num (Fin (821 / 2)), source = Some ''Yahoo Finance'' \<rparr>"]
  note inst2 = adapters_in_declared_order
    [where uc = example_upper and e = demo_env and T = "''NSE:TCS''" and st = st0
       and x = "''NSE''"
       and r = "\<lparr> valid = True, price = Num (Fin 3500), source = Some ''Yahoo Finance India'' \<rparr>"]
  from inst1 demo_env_demo v(1) i(1) m(1) a1 b1
  have g1: "GET example_upper demo_env ''MSFT'' st0
       = (\<lparr> status = 200,
               body = Obj [(''ticker'', Str (''MSFT'')),
                           (''symbol'', Str (''MSFT'')),
                           (''exchange'', Undefined),
                           (''price'', Num (Fin (821 / 2))),
                           (''timestamp'', Str (toISOString (1705314603120))),
                           (''source'', Str ''Yahoo Finance'')] \<rparr>,
          \<lparr> tickerCache = [''MSFT'' \<mapsto> \<lparr> cvalid = True, cprice = Num (Fin (821 / 2)),
                                        ctimestamp = 1705314603120 \<rparr>],
             clock = 1705314603120,
             calls = [''https://www.alphavantage.co/query?function=GLOBAL_QUOTE&symbol=MSFT&apikey=demo'',
                      ''https://query1.finance.yahoo.com/v8/finance/chart/MSFT''] \<rparr>)"
    by (simp add: p st0_def)
  have t: "truthy (Num (Fin 3500))" by simp
  from inst2 demo_env_demo v(2) i(2) m(2) a2 b2 t
  have g2: "GET example_upper demo_env ''NSE:TCS'' st0
       = (\<lparr> status = 200,
               body = Obj [(''ticker'', Str (''NSE:TCS'')),
                           (''symbol'', Str (''TCS'')),
                           (''exchange'', Str ''NSE''),
                           (''price'', Num (Fin 3500)),
                           (''timestamp'', Str (toISOString (1705314603120))),
                           (''source'', Str ''Yahoo Finance India'')] \<rparr>,
          \<lparr> tickerCache = [''TCS'' \<mapsto> \<lparr> cvalid = True, cprice = Num (Fin 3500),
                                        ctimestamp = 1705314603120 \<rparr>],
             clock = 1705314603120,
             calls = [''https://www.alphavantage.co/query?function=GLOBAL_QUOTE&symbol=TCS.NS&apikey=demo'',
                      ''https://query1.finance.yahoo.com/v8/finance/chart/TCS.NS''] \<rparr>)"
    by (simp add: p st0_def)
  show ?thesis
    using g1 g2 demo_env_demo v a1
    by (simp add: p st0_def)
qed

section \<open>C5: when every adapter fails\<close>

lemma exhausted_invalid:
  assumes miss: "cache_hit t st = None" and ex: "route_exhausted e t ex st = Some s3"
  shows "validateTickerDynamically e t ex st = (invalid_result, cache_set t False Undefined s3)"
proof (cases "isInternationalApiSupported ex")
  case True
  with ex have "all_fail accepts_international (validationMethods e t) st = Some s3"
    by (simp add: route_exhausted_def)
  then show ?thesis
    by (simp add: validateTickerDynamically_international [OF miss True]
          try_validationMethods_exhausted)
next
  case False
  with ex obtain x where x: "ex = Some x" and i: "js_includes indianExchanges x"
    and a: "all_fail accepts_indian (indianApis e t x) st = Some s3"
    by (auto simp: route_exhausted_def split: option.splits if_splits)
  have "validateTickerDynamically e t ex st = validateIndianStock e t ex st"
    by (rule validateTickerDynamically_indian [OF miss False])
  also have "\<dots> = try_indianApis (indianApis e t x) t st"
    unfolding x by (rule validateIndianStock_loop [OF i])
  also have "\<dots> = (invalid_result, cache_set t False Undefined s3)"
    using a by (rule try_indianApis_exhausted)
  finally show ?thesis .
qed

text \<open>
  What the code does when every adapter fails, in demo mode, for a well-formed ticker with
  no unexpired cache entry for its symbol: \<open>GET\<close> answers 404 with the not-found message
  and stores the symbol as invalid, stamped with the time after the last adapter. A repeat
  \<open>GET\<close> for the same input less than five minutes after that time returns the same 404
  and changes nothing in the state: no provider call.
\<close>

lemma all_failed_is_cached:
  "demo_mode e \<and> demo_mode e' \<and> isValidTickerFormat uc T
   \<and> cache_hit (symbol (parseTicker uc T)) st = None
   \<and> route_exhausted e (symbol (parseTicker uc T)) (exchange (parseTicker uc T)) st = Some s3 \<longrightarrow>
     GET uc e T st
       = (\<lparr> status = 404,
            body = Obj [(''error'',
              Str ''Stock ticker not found. Please check the symbol and try again.'')] \<rparr>,
          s3\<lparr> tickerCache := (tickerCache s3)(symbol (parseTicker uc T) \<mapsto>
                  \<lparr> cvalid = False, cprice = Undefined, ctimestamp = clock s3 \<rparr>) \<rparr>)
     \<and> (\<forall>t2. t2 - clock s3 < CACHE_DURATION \<longrightarrow>
           GET uc e' T ((snd (GET uc e T st))\<lparr> clock := t2 \<rparr>)
             = (\<lparr> status = 404,
                  body = Obj [(''error'',
                    Str ''Stock ticker not found. Please check the symbol and try again.'')] \<rparr>,
                (snd (GET uc e T st))\<lparr> clock := t2 \<rparr>))"
proof (intro impI)
  assume h: "demo_mode e \<and> demo_mode e' \<and> isValidTickerFormat uc T
   \<and> cache_hit (symbol (parseTicker uc T)) st = None
   \<and> route_exhausted e (symbol (parseTicker uc T)) (exchange (parseTicker uc T)) st = Some s3"
  then have d: "demo_mode e" and d': "demo_mode e'" and f: "isValidTickerFormat uc T"
    and miss: "cache_hit (symbol (parseTicker uc T)) st = None"
    and ex: "route_exhausted e (symbol (parseTicker uc T)) (exchange (parseTicker uc T)) st = Some s3"
    by simp_all
  have g: "GET uc e T st = (not_found, cache_set (symbol (parseTicker uc T)) False Undefined s3)"
    unfolding GET_demo [OF d f] exhausted_invalid [OF miss ex]
    by (simp add: respond_validation_def invalid_result_def)
  have again: "GET uc e' T ((cache_set (symbol (parseTicker uc T)) False Undefined s3)\<lparr> clock := t2 \<rparr>)
      = (not_found, (cache_set (symbol (parseTicker uc T)) False Undefined s3)\<lparr> clock := t2 \<rparr>)"
    if "t2 - clock s3 < CACHE_DURATION" for t2
  proof -
    have "cache_hit (symbol (parseTicker uc T))
            ((cache_set (symbol (parseTicker uc T)) False Undefined s3)\<lparr> clock := t2 \<rparr>)
          = Some \<lparr> cvalid = False, cprice = Undefined, ctimestamp = clock s3 \<rparr>"
      using that by (intro cache_hit_fresh) (simp_all add: cache_set_def)
    then show ?thesis
      unfolding GET_demo [OF d' f]
      by (simp add: validateTickerDynamically_hit respond_validation_def)
  qed
  show "GET uc e T st
       = (\<lparr> status = 404,
            body = Obj [(''error'',
              Str ''Stock ticker not found. Please check the symbol and try again.'')] \<rparr>,
          s3\<lparr> tickerCache := (tickerCache s3)(symbol (parseTicker uc T) \<mapsto>
                  \<lparr> cvalid = False, cprice = Undefined, ctimestamp = clock s3 \<rparr>) \<rparr>)
     \<and> (\<forall>t2. t2 - clock s3 < CACHE_DURATION \<longrightarrow>
           GET uc e' T ((snd (GET uc e T st))\<lparr> clock := t2 \<rparr>)
             = (\<lparr> status = 404,
                  body = Obj [(''error'',
                    Str ''Stock ticker not found. Please check the symbol and try again.'')] \<rparr>,
                (snd (GET uc e T st))\<lparr> clock := t2 \<rparr>))"
    unfolding g using again by (simp add: response_defs cache_set_def)
qed

text \<open>
  Claim C5. The code departs from the claim at \<open>NASDAQ:GOOGL\<close> with every provider down,
  from an empty cache with no call made. Without a key, \<open>GET\<close> tries the three adapters and
  answers 404 with the not-found message, where the claim has a server error, the status
  500; the failure is stored under \<open>GOOGL\<close>. With the key \<open>K1\<close> the answer is the same 404
  after four calls, and a repeat call right after it fetches Alpha Vantage again, a fifth
  call, before the stored failure is read.
\<close>

theorem all_failed_at_GOOGL:
  "st0 = \<lparr> tickerCache = Map.empty, clock = 1705314600000, calls = [] \<rparr>
   \<and> GET example_upper demo_env ''NASDAQ:GOOGL'' st0
       = (\<lparr> status = 404,
            body = Obj [(''error'',
              Str ''Stock ticker not found. Please check the symbol and try again.'')] \<rparr>,
          \<lparr> tickerCache =
              [''GOOGL'' \<mapsto> \<lparr> cvalid = False, cprice = Undefined,
                                    ctimestamp = 1705314609000 \<rparr>],
            clock = 1705314609000,
            calls = [''https://www.alphavantage.co/query?function=GLOBAL_QUOTE&symbol=GOOGL&apikey=demo'',
                     ''https://query1.finance.yahoo.com/v8/finance/chart/GOOGL'',
                     ''https://api.polygon.io/v2/last/trade/GOOGL?apikey=demo''] \<rparr>)
   \<and> status (fst (GET example_upper demo_env ''NASDAQ:GOOGL'' st0)) \<noteq> 500
   \<and> GET example_upper keyed_env ''NASDAQ:GOOGL'' st0
       = (\<lparr> status = 404,
            body = Obj [(''error'',
              Str ''Stock ticker not found. Please check the symbol and try again.'')] \<rparr>,
          \<lparr> tickerCache =
              [''GOOGL'' \<mapsto> \<lparr> cvalid = False, cprice = Undefined,
                                    ctimestamp = 1705314612000 \<rparr>],
            clock = 1705314612000,
            calls = [''https://www.alphavantage.co/query?function=GLOBAL_QUOTE&symbol=GOOGL&apikey=K1'',
                     ''https://www.alphavantage.co/query?function=GLOBAL_QUOTE&symbol=GOOGL&apikey=demo'',
                     ''https://query1.finance.yahoo.com/v8/finance/chart/GOOGL'',
                     ''https://api.polygon.io/v2/last/trade/GOOGL?apikey=demo''] \<rparr>)
   \<and> calls (snd (GET example_upper keyed_env ''NASDAQ:GOOGL''
                    (snd (GET example_upper keyed_env ''NASDAQ:GOOGL'' st0))))
       = [''https://www.alphavantage.co/query?function=GLOBAL_QUOTE&symbol=GOOGL&apikey=K1'',
          ''https://www.alphavantage.co/query?function=GLOBAL_QUOTE&symbol=GOOGL&apikey=demo'',
          ''https://query1.finance.yahoo.com/v8/finance/chart/GOOGL'',
          ''https://api.polygon.io/v2/last/trade/GOOGL?apikey=demo'',
          ''https://www.alphavantage.co/query?function=GLOBAL_QUOTE&symbol=GOOGL&apikey=K1'']"
proof -
  have p: "parseTicker example_upper ''NASDAQ:GOOGL''
      = \<lparr> exchange = Some ''NASDAQ'', symbol = ''GOOGL'', fullTicker = ''NASDAQ:GOOGL'' \<rparr>"
    by code_simp
  have v: "isValidTickerFormat example_upper ''NASDAQ:GOOGL''" by code_simp
  have d: "GET example_upper demo_env ''NASDAQ:GOOGL'' st0
       = (\<lparr> status = 404,
            body = Obj [(''error'',
              Str ''Stock ticker not found. Please check the symbol and try again.'')] \<rparr>,
          \<lparr> tickerCache =
              [''GOOGL'' \<mapsto> \<lparr> cvalid = False, cprice = Undefined,
                                    ctimestamp = 1705314609000 \<rparr>],
            clock = 1705314609000,
            calls = [''https://www.alphavantage.co/query?function=GLOBAL_QUOTE&symbol=GOOGL&apikey=demo'',
                     ''https://query1.finance.yahoo.com/v8/finance/chart/GOOGL'',
                     ''https://api.polygon.io/v2/last/trade/GOOGL?apikey=demo''] \<rparr>)"
    unfolding GET_demo [OF demo_env_demo v] p
    by (simp add: handler_defs resolver_defs adapter_defs example_defs response_defs st0_def)
  have k1: "GET example_upper keyed_env ''NASDAQ:GOOGL'' st0
       = (\<lparr> status = 404,
            body = Obj [(''error'',
              Str ''Stock ticker not found. Please check the symbol and try again.'')] \<rparr>,
          \<lparr> tickerCache =
              [''GOOGL'' \<mapsto> \<lparr> cvalid = False, cprice = Undefined,
                                    ctimestamp = 1705314612000 \<rparr>],
            clock = 1705314612000,
            calls = [''https://www.alphavantage.co/query?function=GLOBAL_QUOTE&symbol=GOOGL&apikey=K1'',
                     ''https://www.alphavantage.co/query?function=GLOBAL_QUOTE&symbol=GOOGL&apikey=demo'',
                     ''https://query1.finance.yahoo.com/v8/finance/chart/GOOGL'',
                     ''https://api.polygon.io/v2/last/trade/GOOGL?apikey=demo''] \<rparr>)"
    unfolding GET_keyed [OF keyed_env_keyed v] p
    by (simp add: handler_defs resolver_defs adapter_defs example_defs response_defs st0_def)
  have k2: "calls (snd (GET example_upper keyed_env ''NASDAQ:GOOGL''
                    (snd (GET example_upper keyed_env ''NASDAQ:GOOGL'' st0))))
       = [''https://www.alphavantage.co/query?function=GLOBAL_QUOTE&symbol=GOOGL&apikey=K1'',
          ''https://www.alphavantage.co/query?function=GLOBAL_QUOTE&symbol=GOOGL&apikey=demo'',
          ''https://query1.finance.yahoo.com/v8/finance/chart/GOOGL'',
          ''https://api.polygon.io/v2/last/trade/GOOGL?apikey=demo'',
          ''https://www.alphavantage.co/query?function=GLOBAL_QUOTE&symbol=GOOGL&apikey=K1'']"
    unfolding k1 snd_conv
    unfolding GET_keyed [OF keyed_env_keyed v] p
    by (simp add: handler_defs resolver_defs adapter_defs example_defs)
  show ?thesis
    unfolding k2 unfolding d k1 by (simp add: st0_def)
qed

section \<open>C6: what \<open>parseTicker\<close> returns\<close>

text \<open>
  Claim C6, as amended. \<open>parseTicker\<close> upper-cases and trims its input, and
  \<open>fullTicker\<close> is always that whole normalised string. Without a colon the exchange is
  absent and the symbol is the whole normalised input. With at least one colon the exchange
  is the trimmed text before the first colon and the symbol the trimmed text between the
  first colon and the second one (or the end); what follows a second colon is dropped. When
  there is exactly one colon with nothing to trim around it, \<open>fullTicker\<close> is
  \<open>exchange:symbol\<close>. For an input of ASCII characters the symbol holds no lower-case
  letter; outside ASCII the capitals are those of the case table \<open>uc\<close>. The symbol is
  non-empty and all capitals \<open>A-Z\<close> whenever the input passes \<open>isValidTickerFormat\<close>.
\<close>

theorem parseTicker_shape:
  "fullTicker (parseTicker uc input) = trim (toUpperCase uc input)
   \<and> (CHR '':'' \<notin> set (trim (toUpperCase uc input)) \<longrightarrow>
        exchange (parseTicker uc input) = None
        \<and> symbol (parseTicker uc input) = trim (toUpperCase uc input))
   \<and> (CHR '':'' \<in> set (trim (toUpperCase uc input)) \<longrightarrow>
        exchange (parseTicker uc input)
          = Some (trim (takeWhile (\<lambda>c. c \<noteq> CHR '':'') (trim (toUpperCase uc input))))
        \<and> symbol (parseTicker uc input)
          = trim (takeWhile (\<lambda>c. c \<noteq> CHR '':'')
                    (tl (dropWhile (\<lambda>c. c \<noteq> CHR '':'') (trim (toUpperCase uc input))))))
   \<and> (\<forall>e s. trim (toUpperCase uc input) = e @ '':'' @ s
          \<and> CHR '':'' \<notin> set e \<and> CHR '':'' \<notin> set s \<and> trim e = e \<and> trim s = s \<longrightarrow>
        parseTicker uc input = \<lparr> exchange = Some e, symbol = s, fullTicker = e @ '':'' @ s \<rparr>)
   \<and> (list_all is_ascii input \<longrightarrow> (\<forall>c \<in> set (symbol (parseTicker uc input)). \<not> is_lower c))
   \<and> (isValidTickerFormat uc input \<longrightarrow>
        symbol (parseTicker uc input) \<noteq> [] \<and> list_all is_upper (symbol (parseTicker uc input)))"
proof (intro conjI allI impI ballI)
  show "fullTicker (parseTicker uc input) = trim (toUpperCase uc input)"
    by (rule parseTicker_fullTicker)
next
  assume "CHR '':'' \<notin> set (trim (toUpperCase uc input))"
  then show "exchange (parseTicker uc input) = None"
    and "symbol (parseTicker uc input) = trim (toUpperCase uc input)"
    by (simp_all add: parseTicker_no_colon)
next
  assume "CHR '':'' \<in> set (trim (toUpperCase uc input))"
  then show "exchange (parseTicker uc input)
          = Some (trim (takeWhile (\<lambda>c. c \<noteq> CHR '':'') (trim (toUpperCase uc input))))"
    and "symbol (parseTicker uc input)
          = trim (takeWhile (\<lambda>c. c \<noteq> CHR '':'')
                    (tl (dropWhile (\<lambda>c. c \<noteq> CHR '':'') (trim (toUpperCase uc input)))))"
    by (simp_all add: parseTicker_colon)
next
  fix e s
  assume "trim (toUpperCase uc input) = e @ '':'' @ s
          \<and> CHR '':'' \<notin> set e \<and> CHR '':'' \<notin> set s \<and> trim e = e \<and> trim s = s"
  then show "parseTicker uc input = \<lparr> exchange = Some e, symbol = s, fullTicker = e @ '':'' @ s \<rparr>"
    using parseTicker_one_colon by blast
next
  fix c assume "list_all is_ascii input" and "c \<in> set (symbol (parseTicker uc input))"
  then show "\<not> is_lower c" by (rule symbol_no_lower)
next
  assume "isValidTickerFormat uc input"
  then show "symbol (parseTicker uc input) \<noteq> []" and "list_all is_upper (symbol (parseTicker uc input))"
    using valid_symbol [where uc = uc and input = input] by (auto simp: matches_AZ_def)
qed

text \<open>The two shapes at \<open>nse:reliance\<close> and \<open>aapl\<close>.\<close>

theorem parseTicker_shape_witness:
  "parseTicker example_upper ''nse:reliance''
     = \<lparr> exchange = Some ''NSE'', symbol = ''RELIANCE'', fullTicker = ''NSE:RELIANCE'' \<rparr>
   \<and> exchange (parseTicker example_upper ''aapl'') = None \<and> symbol (parseTicker example_upper ''aapl'') = ''AAPL''
   \<and> isValidTickerFormat example_upper ''nse:reliance'' \<and> symbol (parseTicker example_upper ''nse:reliance'') \<noteq> []"
proof -
  have u: "trim (toUpperCase example_upper ''nse:reliance'') = ''NSE'' @ '':'' @ ''RELIANCE''" by code_simp
  have h: "CHR '':'' \<notin> set ''NSE'' \<and> CHR '':'' \<notin> set ''RELIANCE''
           \<and> trim ''NSE'' = ''NSE'' \<and> trim ''RELIANCE'' = ''RELIANCE''" by code_simp
  have a: "CHR '':'' \<notin> set (trim (toUpperCase example_upper ''aapl''))" by code_simp
  have ua: "trim (toUpperCase example_upper ''aapl'') = ''AAPL''" by code_simp
  have v: "isValidTickerFormat example_upper ''nse:reliance''" by code_simp
  show ?thesis
    using parseTicker_shape [where uc = example_upper and input = "''nse:reliance''"]
      parseTicker_shape [where uc = example_upper and input = "''aapl''"] u h a ua v
    by simp
qed

text \<open>
  Claim C6 as stated fails: an input with two colons is split all the same, its
  \<open>fullTicker\<close> is not \<open>exchange:symbol\<close>, and the empty input parses to an empty symbol.
\<close>

theorem parseTicker_counterexample:
  "count_list (trim (toUpperCase example_upper ''NSE:TCS:X'')) CHR '':'' = 2
   \<and> exchange (parseTicker example_upper ''NSE:TCS:X'') = Some ''NSE''
   \<and> symbol (parseTicker example_upper ''NSE:TCS:X'') = ''TCS''
   \<and> fullTicker (parseTicker example_upper ''NSE:TCS:X'') = ''NSE:TCS:X''
   \<and> fullTicker (parseTicker example_upper ''NSE:TCS:X'') \<noteq> ''NSE'' @ '':'' @ ''TCS''
   \<and> symbol (parseTicker example_upper '''') = []"
  by code_simp

text \<open>
  Outside ASCII the capitals come from the case table: \<open>caf\<close> followed by e with an acute
  accent (bytes C3 A9) parses to the symbol \<open>CAF\<close> followed by the capital E with an acute
  accent (bytes C3 89), which is no letter of \<open>A-Z\<close>, so the input fails validation.
\<close>

lemma latin1_capitals:
  "parseTicker example_upper (''caf'' @ [CHR 0xC3, CHR 0xA9])
     = \<lparr> exchange = None, symbol = ''CAF'' @ [CHR 0xC3, CHR 0x89],
         fullTicker = ''CAF'' @ [CHR 0xC3, CHR 0x89] \<rparr>
   \<and> \<not> isValidTickerFormat example_upper (''caf'' @ [CHR 0xC3, CHR 0xA9])"
  by code_simp

section \<open>C7: what the cache is keyed by\<close>

text \<open>
  Claim C7 as stated fails: the key is the bare symbol, not the canonical form.
  \<open>NSE:TCS\<close> and \<open>BSE:TCS\<close> differ in their canonical forms, yet a resolution of
  \<open>BSE:TCS\<close> right after one of \<open>NSE:TCS\<close> reads the entry the first one wrote: it answers
  with that price from the cache and makes no provider call.
\<close>

theorem shared_entry_counterexample:
  "fullTicker (parseTicker example_upper ''NSE:TCS'') \<noteq> fullTicker (parseTicker example_upper ''BSE:TCS'')
   \<and> opt_member (body (fst (GET example_upper demo_env ''NSE:TCS'' st0))) ''source''
       = Str ''Yahoo Finance India''
   \<and> opt_member (body (fst (GET example_upper demo_env ''BSE:TCS'' (snd (GET example_upper demo_env ''NSE:TCS'' st0)))))
         ''source'' = Str ''cache''
   \<and> opt_member (body (fst (GET example_upper demo_env ''BSE:TCS'' (snd (GET example_upper demo_env ''NSE:TCS'' st0)))))
         ''price'' = Num (Fin 3500)
   \<and> snd (GET example_upper demo_env ''BSE:TCS'' (snd (GET example_upper demo_env ''NSE:TCS'' st0)))
       = snd (GET example_upper demo_env ''NSE:TCS'' st0)"
proof -
  have p: "parseTicker example_upper ''NSE:TCS''
      = \<lparr> exchange = Some ''NSE'', symbol = ''TCS'', fullTicker = ''NSE:TCS'' \<rparr>"
    "parseTicker example_upper ''BSE:TCS''
      = \<lparr> exchange = Some ''BSE'', symbol = ''TCS'', fullTicker = ''BSE:TCS'' \<rparr>"
    by code_simp+
  have v: "isValidTickerFormat example_upper ''NSE:TCS''" "isValidTickerFormat example_upper ''BSE:TCS''"
    by code_simp+
  have n: "GET example_upper demo_env ''NSE:TCS'' st0
      = (json_response
           (stockData \<lparr> exchange = Some ''NSE'', symbol = ''TCS'', fullTicker = ''NSE:TCS'' \<rparr>
              (Num (Fin 3500)) 1705314603120 ''Yahoo Finance India'') 200,
         \<lparr> tickerCache =
             [''TCS'' \<mapsto> \<lparr> cvalid = True, cprice = Num (Fin 3500),
                             ctimestamp = 1705314603120 \<rparr>],
           clock = 1705314603120,
           calls = [''https://www.alphavantage.co/query?function=GLOBAL_QUOTE&symbol=TCS.NS&apikey=demo'',
                    ''https://query1.finance.yahoo.com/v8/finance/chart/TCS.NS''] \<rparr>)"
    unfolding GET_demo [OF demo_env_demo v(1)] p
    by (simp add: handler_defs resolver_defs adapter_defs example_defs st0_def)
  have b: "GET example_upper demo_env ''BSE:TCS'' (snd (GET example_upper demo_env ''NSE:TCS'' st0))
      = (json_response
           (stockData \<lparr> exchange = Some ''BSE'', symbol = ''TCS'', fullTicker = ''BSE:TCS'' \<rparr>
              (Num (Fin 3500)) 1705314603120 ''cache'') 200,
         snd (GET example_upper demo_env ''NSE:TCS'' st0))"
    unfolding n snd_conv
    unfolding GET_demo [OF demo_env_demo v(2)] p
    by (simp add: handler_defs resolver_defs)
  show ?thesis
    unfolding b unfolding n by (simp add: p response_defs opt_member_def)
qed

text \<open>
  Claim C7, as amended. The cache is a map keyed by the bare symbol, so it holds at most
  one entry per symbol. A resolution neither reads nor writes the entry under any key other
  than its own symbol: replacing or removing such an entry beforehand changes neither the
  answer nor anything else the resolution does, and the resolution leaves that entry as it
  found it. Hence two resolutions whose symbols differ never read or overwrite each other's
  entry.
\<close>

theorem cache_keyed_by_symbol:
  "(k \<noteq> symbol (parseTicker uc T) \<longrightarrow>
      GET uc e T (poke k x st) = (fst (GET uc e T st), poke k x (snd (GET uc e T st)))
      \<and> tickerCache (snd (GET uc e T st)) k = tickerCache st k)
   \<and> (symbol (parseTicker uc T') \<noteq> symbol (parseTicker uc T) \<longrightarrow>
        fst (GET uc e T (snd (GET uc e' T' st)))
          = fst (GET uc e T
                   ((snd (GET uc e' T' st))\<lparr> tickerCache :=
                      (tickerCache (snd (GET uc e' T' st)))
                        (symbol (parseTicker uc T') := tickerCache st (symbol (parseTicker uc T'))) \<rparr>)))"
proof (intro conjI impI)
  assume k: "k \<noteq> symbol (parseTicker uc T)"
  then show 1: "GET uc e T (poke k x st) = (fst (GET uc e T st), poke k x (snd (GET uc e T st)))"
    by (rule GET_poke)
  have "poke k (tickerCache st k) st = st"
    by (simp add: poke_def)
  with GET_poke [OF k, of e "tickerCache st k" st]
  have "snd (GET uc e T st) = poke k (tickerCache st k) (snd (GET uc e T st))"
    by (metis snd_conv)
  then have "tickerCache (snd (GET uc e T st)) k
      = tickerCache (poke k (tickerCache st k) (snd (GET uc e T st))) k"
    by simp
  then show "tickerCache (snd (GET uc e T st)) k = tickerCache st k"
    by (simp add: poke_def)
next
  assume k: "symbol (parseTicker uc T') \<noteq> symbol (parseTicker uc T)"
  from GET_poke [OF k, of e "tickerCache st (symbol (parseTicker uc T'))" "snd (GET uc e' T' st)"]
  show "fst (GET uc e T (snd (GET uc e' T' st)))
          = fst (GET uc e T
                   ((snd (GET uc e' T' st))\<lparr> tickerCache :=
                      (tickerCache (snd (GET uc e' T' st)))
                        (symbol (parseTicker uc T') := tickerCache st (symbol (parseTicker uc T'))) \<rparr>))"
    by (simp add: poke_def)
qed

text \<open>
  \<open>AAPL\<close> is answered in the same way whether or not an entry for \<open>TCS\<close> is in the cache,
  and leaves that entry alone.
\<close>

theorem cache_keyed_by_symbol_witness:
  "''TCS'' \<noteq> symbol (parseTicker example_upper ''AAPL'')
   \<and> fst (GET example_upper demo_env ''AAPL''
            (poke ''TCS'' (Some \<lparr> cvalid = True, cprice = Num (Fin 3500), ctimestamp = 0 \<rparr>) st0))
       = fst (GET example_upper demo_env ''AAPL'' st0)
   \<and> tickerCache
        (snd (GET example_upper demo_env ''AAPL''
                (poke ''TCS'' (Some \<lparr> cvalid = True, cprice = Num (Fin 3500), ctimestamp = 0 \<rparr>)
                   st0))) ''TCS''
       = Some \<lparr> cvalid = True, cprice = Num (Fin 3500), ctimestamp = 0 \<rparr>
   \<and> symbol (parseTicker example_upper ''NSE:TCS'') \<noteq> symbol (parseTicker example_upper ''AAPL'')
   \<and> fst (GET example_upper demo_env ''AAPL'' (snd (GET example_upper demo_env ''NSE:TCS'' st0)))
       = fst (GET example_upper demo_env ''AAPL''
                ((snd (GET example_upper demo_env ''NSE:TCS'' st0))\<lparr> tickerCache :=
                   (tickerCache (snd (GET example_upper demo_env ''NSE:TCS'' st0)))
                     (symbol (parseTicker example_upper ''NSE:TCS'')
                        := tickerCache st0 (symbol (parseTicker example_upper ''NSE:TCS''))) \<rparr>))"
proof -
  have q: "parseTicker example_upper ''NSE:TCS''
      = \<lparr> exchange = Some ''NSE'', symbol = ''TCS'', fullTicker = ''NSE:TCS'' \<rparr>"
    by code_simp
  have k': "symbol (parseTicker example_upper ''NSE:TCS'') \<noteq> symbol (parseTicker example_upper ''AAPL'')"
    by (simp add: parse_AAPL q)
  have k: "''TCS'' \<noteq> symbol (parseTicker example_upper ''AAPL'')"
    by (simp add: parse_AAPL)
  have c: "tickerCache
      (poke ''TCS'' (Some \<lparr> cvalid = True, cprice = Num (Fin 3500), ctimestamp = 0 \<rparr>) st0) ''TCS''
      = Some \<lparr> cvalid = True, cprice = Num (Fin 3500), ctimestamp = 0 \<rparr>"
    by (simp add: poke_def)
  from cache_keyed_by_symbol
      [where uc = example_upper and k = "''TCS''" and T = "''AAPL''" and e = demo_env
         and x = "Some \<lparr> cvalid = True, cprice = Num (Fin 3500), ctimestamp = 0 \<rparr>"
         and st = st0]
    cache_keyed_by_symbol
      [where uc = example_upper and k = "''TCS''" and T = "''AAPL''" and e = demo_env
         and st = "poke ''TCS''
                     (Some \<lparr> cvalid = True, cprice = Num (Fin 3500), ctimestamp = 0 \<rparr>) st0"]
    cache_keyed_by_symbol
      [where uc = example_upper and T = "''AAPL''" and e = demo_env and st = st0
         and T' = "''NSE:TCS''" and e' = demo_env]
    k k' c
  show ?thesis by simp
qed

section \<open>C8: the fields of a success response\<close>

text \<open>
  Claim C8 at \<open>AAPL\<close> in demo mode, with Alpha Vantage answering a price of 189.50: the
  handler answers 200 with the object below. The time of the answer is under the key
  \<open>timestamp\<close>; the object has no \<open>lastUpdated\<close> property.
\<close>

theorem success_body_at_AAPL:
  "status (fst (GET example_upper demo_env ''AAPL'' st0)) = 200
   \<and> body (fst (GET example_upper demo_env ''AAPL'' st0))
       = Obj [(''ticker'', Str ''AAPL''), (''symbol'', Str ''AAPL''), (''exchange'', Undefined),
              (''price'', Num (Fin (379 / 2))),
              (''timestamp'', Str (toISOString 1705314600120)),
              (''source'', Str ''Alpha Vantage Demo'')]
   \<and> opt_member (body (fst (GET example_upper demo_env ''AAPL'' st0))) ''lastUpdated'' = Undefined
   \<and> opt_member (body (fst (GET example_upper demo_env ''AAPL'' st0))) ''timestamp''
       = Str (toISOString 1705314600120)"
  unfolding GET_demo_AAPL by (simp add: response_defs opt_member_def)

section \<open>C9: where a quote's price comes from\<close>

lemma quote_from_supplied:
  "quote_from field conv src (fetch_json e url st) = (Some r, st') \<Longrightarrow>
   valid r \<and> (\<exists>p. supplied field (fst (fetch_json e url st)) p \<and> price r = conv p)"
  by (cases "fetch_json e url st") (auto simp: supplied_def dest!: quote_from_Some)

text \<open>
  Claim C9 as stated fails. In the example network Alpha Vantage quotes \<open>LOSS\<close> at the
  string \<open>-1\<close>, and Yahoo reports the market price of \<open>INFY.NS\<close> as the string \<open>n/a\<close>.
  Both resolutions succeed: the first with the price -1, the second, through the Indian
  loop, with a price that is no number.
\<close>

theorem price_counterexample:
  "status (fst (GET example_upper demo_env ''LOSS'' st0)) = 200
   \<and> opt_member (body (fst (GET example_upper demo_env ''LOSS'' st0))) ''price'' = Num (Fin (- 1))
   \<and> status (fst (GET example_upper demo_env ''NSE:INFY'' st0)) = 200
   \<and> opt_member (body (fst (GET example_upper demo_env ''NSE:INFY'' st0))) ''price'' = Str ''n/a''"
proof -
  have p: "parseTicker example_upper ''LOSS'' = \<lparr> exchange = None, symbol = ''LOSS'', fullTicker = ''LOSS'' \<rparr>"
    "parseTicker example_upper ''NSE:INFY''
       = \<lparr> exchange = Some ''NSE'', symbol = ''INFY'', fullTicker = ''NSE:INFY'' \<rparr>"
    by code_simp+
  have v: "isValidTickerFormat example_upper ''LOSS''" "isValidTickerFormat example_upper ''NSE:INFY''"
    by code_simp+
  have a: "fst (GET example_upper demo_env ''LOSS'' st0)
      = json_response
          (stockData \<lparr> exchange = None, symbol = ''LOSS'', fullTicker = ''LOSS'' \<rparr>
             (Num (Fin (- 1))) 1705314600120 ''Alpha Vantage Demo'') 200"
    unfolding GET_demo [OF demo_env_demo v(1)] p
    by (simp add: handler_defs resolver_defs adapter_defs example_defs parseFloat_defs st0_def)
  have b: "fst (GET example_upper demo_env ''NSE:INFY'' st0)
      = json_response
          (stockData \<lparr> exchange = Some ''NSE'', symbol = ''INFY'', fullTicker = ''NSE:INFY'' \<rparr>
             (Str ''n/a'') 1705314603120 ''Yahoo Finance India'') 200"
    unfolding GET_demo [OF demo_env_demo v(2)] p
    by (simp add: handler_defs resolver_defs adapter_defs example_defs parseFloat_defs st0_def)
  show ?thesis
    unfolding a b by (simp add: response_defs opt_member_def)
qed

text \<open>
  Claim C9, as amended. A quote is only ever constructed, by one of the six adapters or by
  the direct attempt, from a 2xx response with a parsable body whose price field holds a
  truthy value (not missing, \<open>null\<close>, \<open>false\<close>, 0, \<open>NaN\<close> or the empty string). The quote's
  price is \<open>parseFloat\<close> of that value for the Alpha Vantage adapters, the NSE adapter and
  the direct attempt, and the value itself for the Yahoo and Polygon adapters. The sign of
  the price is not examined.
\<close>

theorem quote_needs_price_field:
  "(validateWithAlphaVantageDemo e t st = (Some r, st') \<longrightarrow>
      valid r
      \<and> (\<exists>p. supplied global_quote_price
                (fst (fetch_json e
                        (ALPHA_VANTAGE_BASE_URL @ ''?function=GLOBAL_QUOTE&symbol='' @ t
                           @ ''&apikey=demo'') st)) p
              \<and> price r = Num (parseFloat p)))
   \<and> (validateWithYahooFinance e t st = (Some r, st') \<longrightarrow>
        valid r
        \<and> supplied regularMarketPrice
            (fst (fetch_json e (''https://query1.finance.yahoo.com/v8/finance/chart/'' @ t) st))
            (price r))
   \<and> (validateWithPolygonDemo e t st = (Some r, st') \<longrightarrow>
        valid r
        \<and> supplied results_p
            (fst (fetch_json e
                    (''https://api.polygon.io/v2/last/trade/'' @ t @ ''?apikey=demo'') st))
            (price r))
   \<and> (fetchFromAlphaVantageIndian e t x st = (Some r, st') \<longrightarrow>
        valid r
        \<and> (\<exists>p. supplied global_quote_price
                  (fst (fetch_json e
                          (ALPHA_VANTAGE_BASE_URL @ ''?function=GLOBAL_QUOTE&symbol='' @ t
                             @ exchange_suffix x @ ''&apikey='' @ ALPHA_VANTAGE_API_KEY e) st)) p
                \<and> price r = Num (parseFloat p)))
   \<and> (fetchFromYahooFinanceIndian e t x st = (Some r, st') \<longrightarrow>
        valid r
        \<and> supplied regularMarketPrice
            (fst (fetch_json e
                    (''https://query1.finance.yahoo.com/v8/finance/chart/'' @ t
                       @ exchange_suffix x) st))
            (price r))
   \<and> (fetchFromNSEAPI e t x st = (Some r, st') \<longrightarrow>
        valid r
        \<and> (\<exists>p. supplied priceInfo_lastPrice
                  (fst (fetch_json e
                          (''https://www.nseindia.com/api/quote-equity?symbol='' @ t) st)) p
                \<and> price r = Num (parseFloat p)))
   \<and> (alphaVantageDirect e ti st = (Assigned v, st') \<longrightarrow>
        (\<exists>p. supplied global_quote_price (fst (fetch_json e (direct_url e ti) st)) p
              \<and> opt_member v ''price'' = Num (parseFloat p)))"
proof (intro conjI impI)
  assume "validateWithAlphaVantageDemo e t st = (Some r, st')"
  then show "valid r"
    and "\<exists>p. supplied global_quote_price
                (fst (fetch_json e
                        (ALPHA_VANTAGE_BASE_URL @ ''?function=GLOBAL_QUOTE&symbol='' @ t
                           @ ''&apikey=demo'') st)) p
              \<and> price r = Num (parseFloat p)"
    unfolding validateWithAlphaVantageDemo_def
    by (auto dest!: quote_from_supplied simp: parsed_def)
next
  assume "validateWithYahooFinance e t st = (Some r, st')"
  then show "valid r"
    and "supplied regularMarketPrice
            (fst (fetch_json e (''https://query1.finance.yahoo.com/v8/finance/chart/'' @ t) st))
            (price r)"
    unfolding validateWithYahooFinance_def
    by (auto dest!: quote_from_supplied simp: asis_def)
next
  assume "validateWithPolygonDemo e t st = (Some r, st')"
  then show "valid r"
    and "supplied results_p
            (fst (fetch_json e
                    (''https://api.polygon.io/v2/last/trade/'' @ t @ ''?apikey=demo'') st))
            (price r)"
    unfolding validateWithPolygonDemo_def
    by (auto dest!: quote_from_supplied simp: asis_def)
next
  assume "fetchFromAlphaVantageIndian e t x st = (Some r, st')"
  then show "valid r"
    and "\<exists>p. supplied global_quote_price
                  (fst (fetch_json e
                          (ALPHA_VANTAGE_BASE_URL @ ''?function=GLOBAL_QUOTE&symbol='' @ t
                             @ exchange_suffix x @ ''&apikey='' @ ALPHA_VANTAGE_API_KEY e) st)) p
                \<and> price r = Num (parseFloat p)"
    unfolding fetchFromAlphaVantageIndian_def Let_def
    by (auto dest!: quote_from_supplied simp: parsed_def split: if_splits)
next
  assume "fetchFromYahooFinanceIndian e t x st = (Some r, st')"
  then show "valid r"
    and "supplied regularMarketPrice
            (fst (fetch_json e
                    (''https://query1.finance.yahoo.com/v8/finance/chart/'' @ t
                       @ exchange_suffix x) st))
            (price r)"
    unfolding fetchFromYahooFinanceIndian_def Let_def
    by (auto dest!: quote_from_supplied simp: asis_def split: if_splits)
next
  assume "fetchFromNSEAPI e t x st = (Some r, st')"
  then show "valid r"
    and "\<exists>p. supplied priceInfo_lastPrice
                  (fst (fetch_json e
                          (''https://www.nseindia.com/api/quote-equity?symbol='' @ t) st)) p
                \<and> price r = Num (parseFloat p)"
    unfolding fetchFromNSEAPI_def
    by (auto dest!: quote_from_supplied simp: parsed_def split: if_splits)
next
  assume "alphaVantageDirect e ti st = (Assigned v, st')"
  then show "\<exists>p. supplied global_quote_price (fst (fetch_json e (direct_url e ti) st)) p
              \<and> opt_member v ''price'' = Num (parseFloat p)"
    by (cases "fetch_json e (direct_url e ti) st")
      (auto simp: alphaVantageDirect_def supplied_def opt_member_def
         split: option.splits if_splits)
qed

text \<open>
  \<open>AAPL\<close> in the example network: the adapter's quote of 189.5 is \<open>parseFloat\<close> of the
  truthy string the response carried in its price field.
\<close>

theorem quote_needs_price_field_witness:
  "validateWithAlphaVantageDemo demo_env ''AAPL'' st0
     = (Some \<lparr> valid = True, price = Num (Fin (379 / 2)), source = Some ''Alpha Vantage Demo'' \<rparr>,
        st0\<lparr> clock := 1705314600120,
             calls := [''https://www.alphavantage.co/query?function=GLOBAL_QUOTE&symbol=AAPL&apikey=demo''] \<rparr>)
   \<and> (\<exists>p. supplied global_quote_price
             (fst (fetch_json demo_env
                     (ALPHA_VANTAGE_BASE_URL @ ''?function=GLOBAL_QUOTE&symbol='' @ ''AAPL''
                        @ ''&apikey=demo'') st0)) p
           \<and> Num (Fin (379 / 2)) = Num (parseFloat p))
   \<and> supplied global_quote_price (Some (quote_body ''189.50'')) (Str ''189.50'')"
proof -
  have a: "validateWithAlphaVantageDemo demo_env ''AAPL'' st0
     = (Some \<lparr> valid = True, price = Num (Fin (379 / 2)), source = Some ''Alpha Vantage Demo'' \<rparr>,
        st0\<lparr> clock := 1705314600120,
             calls := [''https://www.alphavantage.co/query?function=GLOBAL_QUOTE&symbol=AAPL&apikey=demo''] \<rparr>)"
    by (simp add: adapter_defs example_defs parseFloat_defs st0_def)
  have s: "supplied global_quote_price (Some (quote_body ''189.50'')) (Str ''189.50'')"
    by (simp add: supplied_def global_quote_price_def quote_body_def)
  from quote_needs_price_field [of demo_env "''AAPL''" st0
      "\<lparr> valid = True, price = Num (Fin (379 / 2)), source = Some ''Alpha Vantage Demo'' \<rparr>"
      "st0\<lparr> clock := 1705314600120,
           calls := [''https://www.alphavantage.co/query?function=GLOBAL_QUOTE&symbol=AAPL&apikey=demo''] \<rparr>"]
    a
  have "\<exists>p. supplied global_quote_price
             (fst (fetch_json demo_env
                     (ALPHA_VANTAGE_BASE_URL @ ''?function=GLOBAL_QUOTE&symbol='' @ ''AAPL''
                        @ ''&apikey=demo'') st0)) p
           \<and> Num (Fin (379 / 2)) = Num (parseFloat p)"
    by simp
  with a s show ?thesis by blast
qed

section \<open>C10: the Indian loop wants a truthy price\<close>





end
